theory Spec2Isabelle
  imports Complex_Main "HOL-Library.Word" "HOL-Library.Monad_Syntax"
begin

unbundle bit_operations_syntax

section \<open>Data model of the BigInt value layer (ecma-bigint.c)\<close>

text \<open>
  A digit is a 32-bit limb; a byte of a UTF-8 string is an 8-bit word; an
  \<open>ecma_number_t\<close> is the 64-bit pattern of an IEEE-754 binary64 value
  (JERRY_NUMBER_TYPE_FLOAT64), which the code only ever takes apart into sign,
  biased exponent and fraction.
\<close>

type_synonym ecma_bigint_digit_t = "32 word"
type_synonym lit_utf8_byte_t = "8 word"
type_synonym ecma_number_t = "64 word"

text \<open>
  The heap primitive record: the \<open>u.bigint_sign_and_size\<close> word and the trailing
  buffer of magnitude digits, least significant digit first. Reference counts are
  bookkeeping of the host heap and are left out: \<open>ecma_ref_extended_primitive\<close> and
  \<open>ecma_copy_value\<close> hand back the value they are given.
\<close>

record ecma_extended_primitive_t =
  bigint_sign_and_size :: "32 word"
  bigint_digits :: "ecma_bigint_digit_t list"

datatype ecma_error_t =
    RangeError string
  | SyntaxError string
  | TypeError string

datatype ecma_value_t =
    ECMA_VALUE_ERROR ecma_error_t
  | ECMA_VALUE_FALSE
  | ECMA_VALUE_TRUE
  | ECMA_VALUE_NULL
  | ECMA_VALUE_UNDEFINED
  | ECMA_VALUE_STRING "lit_utf8_byte_t list"
  | ECMA_BIGINT_ZERO
  | ECMA_BIGINT_PTR ecma_extended_primitive_t

text \<open>
  The allocator of the host heap, as the answer it gives to a request of so many
  bytes. Every allocation site of the code checks that answer.
\<close>

type_synonym jmem_heap_t = "nat \<Rightarrow> bool"

subsection \<open>Declarations of ecma-bigint.h and ecma-big-uint.h\<close>

definition ECMA_BIGINT_SIGN :: "32 word" where
  \<comment> \<open>Modelled from the spec: ecma-bigint.h is not among the sources; the sign is the
      1-bit flag of the \<open>sign_and_size\<close> word, 1 meaning negative.\<close>
  "ECMA_BIGINT_SIGN = 1"

definition ECMA_BIGINT_GET_SIZE :: "ecma_extended_primitive_t \<Rightarrow> 32 word" where
  \<comment> \<open>Modelled from the spec: ecma-bigint.h is not among the sources; the size in bytes
      is the \<open>sign_and_size\<close> word without the bits below the digit width.\<close>
  "ECMA_BIGINT_GET_SIZE value_p = bigint_sign_and_size value_p AND NOT 3"

definition sizeof_digit :: nat where
  "sizeof_digit = 4"

definition ECMA_BIGINT_DIGIT_SHIFT :: nat where
  \<comment> \<open>Modelled from the spec: ecma-big-uint.h is not among the sources; a digit has
      \<open>2 ^ 5\<close> bits.\<close>
  "ECMA_BIGINT_DIGIT_SHIFT = 5"

definition ECMA_BIGINT_GET_LAST_DIGIT :: "ecma_extended_primitive_t \<Rightarrow> nat \<Rightarrow> ecma_bigint_digit_t" where
  \<comment> \<open>Modelled from the spec: the digit that ends at byte offset \<open>size\<close> of the buffer.\<close>
  "ECMA_BIGINT_GET_LAST_DIGIT value_p sz = bigint_digits value_p ! (sz div sizeof_digit - 1)"

definition ecma_is_value_bigint :: "ecma_value_t \<Rightarrow> bool" where
  "ecma_is_value_bigint v = (case v of ECMA_BIGINT_ZERO \<Rightarrow> True | ECMA_BIGINT_PTR p \<Rightarrow> True | _ \<Rightarrow> False)"

text \<open>
  \<open>ecma_get_extended_primitive_from_value\<close> reinterprets a value as a pointer to a heap
  record. Only a value that holds such a pointer has a record behind it: for the zero
  sentinel, and for every value that is no BigInt, there is none (\<open>None\<close>).
\<close>

definition ecma_get_extended_primitive_from_value :: "ecma_value_t \<Rightarrow> ecma_extended_primitive_t option" where
  "ecma_get_extended_primitive_from_value v = (case v of ECMA_BIGINT_PTR p \<Rightarrow> Some p | _ \<Rightarrow> None)"

definition ecma_make_extended_primitive_value :: "ecma_extended_primitive_t \<Rightarrow> ecma_value_t" where
  "ecma_make_extended_primitive_value p = ECMA_BIGINT_PTR p"

definition ecma_raise_range_error :: "string \<Rightarrow> ecma_value_t" where
  "ecma_raise_range_error msg = ECMA_VALUE_ERROR (RangeError msg)"

definition ecma_raise_syntax_error :: "string \<Rightarrow> ecma_value_t" where
  "ecma_raise_syntax_error msg = ECMA_VALUE_ERROR (SyntaxError msg)"

definition ecma_raise_type_error :: "string \<Rightarrow> ecma_value_t" where
  "ecma_raise_type_error msg = ECMA_VALUE_ERROR (TypeError msg)"

definition ecma_bigint_raise_memory_error :: ecma_value_t where
  "ecma_bigint_raise_memory_error = ecma_raise_range_error ''Cannot allocate memory for a BigInt value''"

subsection \<open>Magnitudes and well-formed records\<close>

fun big_uint_value :: "ecma_bigint_digit_t list \<Rightarrow> nat" where
  "big_uint_value [] = 0"
| "big_uint_value (d # ds) = unat d + 2 ^ 32 * big_uint_value ds"

function big_uint_digits :: "nat \<Rightarrow> ecma_bigint_digit_t list" where
  "big_uint_digits n = (if n = 0 then [] else word_of_nat (n mod 2 ^ 32) # big_uint_digits (n div 2 ^ 32))"
  by pat_completeness auto
termination
  by (relation "measure id") auto

declare big_uint_digits.simps [simp del]

definition magnitude :: "ecma_extended_primitive_t \<Rightarrow> nat" where
  "magnitude value_p = big_uint_value (bigint_digits value_p)"

definition is_negative :: "ecma_extended_primitive_t \<Rightarrow> bool" where
  "is_negative value_p = (bigint_sign_and_size value_p AND ECMA_BIGINT_SIGN \<noteq> 0)"

text \<open>
  Invariants I1 and I2 of a heap record: the size word counts the bytes of the buffer,
  the buffer is not empty and its most significant digit is not zero.
\<close>

definition bigint_wf :: "ecma_extended_primitive_t \<Rightarrow> bool" where
  "bigint_wf value_p =
     (bigint_digits value_p \<noteq> []
      \<and> last (bigint_digits value_p) \<noteq> 0
      \<and> unat (ECMA_BIGINT_GET_SIZE value_p) = sizeof_digit * length (bigint_digits value_p))"

definition value_wf :: "ecma_value_t \<Rightarrow> bool" where
  "value_wf v = (case v of ECMA_BIGINT_PTR p \<Rightarrow> bigint_wf p | _ \<Rightarrow> True)"

text \<open>The integer a BigInt value stands for.\<close>

definition bigint_to_int :: "ecma_value_t \<Rightarrow> int" where
  "bigint_to_int v =
     (case v of
        ECMA_BIGINT_PTR p \<Rightarrow> (if is_negative p then - int (magnitude p) else int (magnitude p))
      | _ \<Rightarrow> 0)"

subsection \<open>The digit kernel (ecma-big-uint.c)\<close>

definition big_uint_alloc :: "jmem_heap_t \<Rightarrow> ecma_bigint_digit_t list \<Rightarrow> ecma_extended_primitive_t option" where
  \<comment> \<open>Modelled from the spec: ecma-big-uint.c is not among the sources. The kernel
      allocates the buffer of a result; the request fails when the host heap refuses it
      or when the size does not fit the size word. A fresh record has a clear sign bit.\<close>
  "big_uint_alloc heap ds =
     (if sizeof_digit * length ds < 2 ^ 32 \<and> heap (sizeof_digit * length ds)
      then Some \<lparr>bigint_sign_and_size = word_of_nat (sizeof_digit * length ds), bigint_digits = ds\<rparr>
      else None)"

definition ecma_bigint_create :: "jmem_heap_t \<Rightarrow> nat \<Rightarrow> ecma_extended_primitive_t option" where
  \<comment> \<open>Modelled from the spec: ecma-big-uint.c is not among the sources. A record of
      \<open>size\<close> bytes whose digits the caller fills in, or NULL.\<close>
  "ecma_bigint_create heap sz = big_uint_alloc heap (replicate (sz div sizeof_digit) 0)"

definition ecma_big_uint_compare :: "ecma_extended_primitive_t \<Rightarrow> ecma_extended_primitive_t \<Rightarrow> int" where
  \<comment> \<open>Modelled from the spec: ecma-big-uint.c is not among the sources.
      \<open>compare(left, right)\<close> is -1, 0 or +1 on the magnitudes.\<close>
  "ecma_big_uint_compare left_p right_p =
     (if magnitude left_p < magnitude right_p then - 1
      else if magnitude left_p = magnitude right_p then 0 else 1)"

datatype big_uint_result = BIG_UINT_NULL | BIG_UINT_POINTER_TO_ZERO | BIG_UINT_PTR ecma_extended_primitive_t

definition big_uint_make :: "jmem_heap_t \<Rightarrow> nat \<Rightarrow> big_uint_result" where
  \<comment> \<open>Modelled from the spec: a kernel result is the zero sentinel when the magnitude is
      0, NULL when the allocation fails, a fresh record otherwise.\<close>
  "big_uint_make heap n =
     (if n = 0 then BIG_UINT_POINTER_TO_ZERO
      else case big_uint_alloc heap (big_uint_digits n) of
             None \<Rightarrow> BIG_UINT_NULL
           | Some p \<Rightarrow> BIG_UINT_PTR p)"

definition ecma_big_uint_add :: "jmem_heap_t \<Rightarrow> ecma_extended_primitive_t \<Rightarrow> ecma_extended_primitive_t \<Rightarrow> ecma_extended_primitive_t option" where
  \<comment> \<open>Modelled from the spec: ecma-big-uint.c is not among the sources. The sum of the
      magnitudes in a fresh record, or NULL.\<close>
  "ecma_big_uint_add heap left_p right_p =
     big_uint_alloc heap (big_uint_digits (magnitude left_p + magnitude right_p))"

definition ecma_big_uint_sub :: "jmem_heap_t \<Rightarrow> ecma_extended_primitive_t \<Rightarrow> ecma_extended_primitive_t \<Rightarrow> ecma_extended_primitive_t option" where
  \<comment> \<open>Modelled from the spec: ecma-big-uint.c is not among the sources. The difference
      of the magnitudes (the caller passes the larger one first) in a fresh record, or NULL.\<close>
  "ecma_big_uint_sub heap left_p right_p =
     big_uint_alloc heap (big_uint_digits (magnitude left_p - magnitude right_p))"

definition ecma_big_uint_mul :: "jmem_heap_t \<Rightarrow> ecma_extended_primitive_t \<Rightarrow> ecma_extended_primitive_t \<Rightarrow> ecma_extended_primitive_t option" where
  \<comment> \<open>Modelled from the spec: ecma-big-uint.c is not among the sources. The product of
      the magnitudes in a fresh record, or NULL.\<close>
  "ecma_big_uint_mul heap left_p right_p =
     big_uint_alloc heap (big_uint_digits (magnitude left_p * magnitude right_p))"

definition ecma_big_uint_div_mod :: "jmem_heap_t \<Rightarrow> ecma_extended_primitive_t \<Rightarrow> ecma_extended_primitive_t \<Rightarrow> bool \<Rightarrow> big_uint_result" where
  \<comment> \<open>Modelled from the spec: ecma-big-uint.c is not among the sources. Quotient or
      remainder of the magnitudes; the zero sentinel when that is 0, NULL on allocation failure.\<close>
  "ecma_big_uint_div_mod heap left_p right_p is_mod =
     big_uint_make heap (if is_mod then magnitude left_p mod magnitude right_p
                         else magnitude left_p div magnitude right_p)"

definition ecma_big_uint_shift_left :: "jmem_heap_t \<Rightarrow> ecma_extended_primitive_t \<Rightarrow> ecma_bigint_digit_t \<Rightarrow> ecma_extended_primitive_t option" where
  \<comment> \<open>Modelled from the spec: ecma-big-uint.c is not among the sources. The magnitude
      shifted left by so many bits in a fresh record, or NULL.\<close>
  "ecma_big_uint_shift_left heap left_p shift =
     big_uint_alloc heap (big_uint_digits (magnitude left_p * 2 ^ unat shift))"

definition ecma_big_uint_shift_right :: "jmem_heap_t \<Rightarrow> ecma_extended_primitive_t \<Rightarrow> ecma_bigint_digit_t \<Rightarrow> big_uint_result" where
  \<comment> \<open>Modelled from the spec: ecma-big-uint.c is not among the sources. The magnitude
      shifted right by so many bits; the zero sentinel when all bits are shifted out.\<close>
  "ecma_big_uint_shift_right heap left_p shift =
     big_uint_make heap (magnitude left_p div 2 ^ unat shift)"


definition ECMA_BIG_UINT_BITWISE_AND :: "32 word" where
  \<comment> \<open>Modelled from the spec: ecma-big-uint.h is not among the sources. The kernel
      operation is the low part of the options word, the options are single bits above it.\<close>
  "ECMA_BIG_UINT_BITWISE_AND = 0"

definition ECMA_BIG_UINT_BITWISE_OR :: "32 word" where
  \<comment> \<open>Modelled from the spec: see \<open>ECMA_BIG_UINT_BITWISE_AND\<close>.\<close>
  "ECMA_BIG_UINT_BITWISE_OR = 1"

definition ECMA_BIG_UINT_BITWISE_XOR :: "32 word" where
  \<comment> \<open>Modelled from the spec: see \<open>ECMA_BIG_UINT_BITWISE_AND\<close>.\<close>
  "ECMA_BIG_UINT_BITWISE_XOR = 2"

definition ECMA_BIG_UINT_BITWISE_AND_NOT :: "32 word" where
  \<comment> \<open>Modelled from the spec: see \<open>ECMA_BIG_UINT_BITWISE_AND\<close>.\<close>
  "ECMA_BIG_UINT_BITWISE_AND_NOT = 3"

definition ECMA_BIG_UINT_BITWISE_DECREASE_LEFT :: "32 word" where
  \<comment> \<open>Modelled from the spec: see \<open>ECMA_BIG_UINT_BITWISE_AND\<close>.\<close>
  "ECMA_BIG_UINT_BITWISE_DECREASE_LEFT = 0x10"

definition ECMA_BIG_UINT_BITWISE_DECREASE_RIGHT :: "32 word" where
  \<comment> \<open>Modelled from the spec: see \<open>ECMA_BIG_UINT_BITWISE_AND\<close>.\<close>
  "ECMA_BIG_UINT_BITWISE_DECREASE_RIGHT = 0x20"

definition ECMA_BIG_UINT_BITWISE_DECREASE_BOTH :: "32 word" where
  \<comment> \<open>Modelled from the spec: see \<open>ECMA_BIG_UINT_BITWISE_AND\<close>.\<close>
  "ECMA_BIG_UINT_BITWISE_DECREASE_BOTH =
     ECMA_BIG_UINT_BITWISE_DECREASE_LEFT OR ECMA_BIG_UINT_BITWISE_DECREASE_RIGHT"

definition ECMA_BIG_UINT_BITWISE_INCREASE_RESULT :: "32 word" where
  \<comment> \<open>Modelled from the spec: see \<open>ECMA_BIG_UINT_BITWISE_AND\<close>.\<close>
  "ECMA_BIG_UINT_BITWISE_INCREASE_RESULT = 0x40"

definition big_uint_bitwise_value :: "32 word \<Rightarrow> nat \<Rightarrow> nat \<Rightarrow> nat" where
  \<comment> \<open>Modelled from the spec: the magnitude the kernel computes for an options word:
      each DECREASE option takes one off an operand, the operation is applied, and
      INCREASE_RESULT adds one at the end.\<close>
  "big_uint_bitwise_value operation_and_options x y =
     (let l = (if operation_and_options AND ECMA_BIG_UINT_BITWISE_DECREASE_LEFT \<noteq> 0 then x - 1 else x);
          r = (if operation_and_options AND ECMA_BIG_UINT_BITWISE_DECREASE_RIGHT \<noteq> 0 then y - 1 else y);
          t = operation_and_options AND 0xf;
          v = (if t = ECMA_BIG_UINT_BITWISE_AND then l AND r
               else if t = ECMA_BIG_UINT_BITWISE_OR then l OR r
               else if t = ECMA_BIG_UINT_BITWISE_XOR then l XOR r
               else nat (int l AND NOT (int r)))
      in if operation_and_options AND ECMA_BIG_UINT_BITWISE_INCREASE_RESULT \<noteq> 0 then v + 1 else v)"

definition ecma_big_uint_bitwise_op :: "jmem_heap_t \<Rightarrow> 32 word \<Rightarrow> ecma_extended_primitive_t \<Rightarrow> ecma_extended_primitive_t \<Rightarrow> big_uint_result" where
  \<comment> \<open>Modelled from the spec: ecma-big-uint.c is not among the sources.
      \<open>bitwise_op(options, left, right)\<close> is a fresh record, the zero sentinel or NULL.\<close>
  "ecma_big_uint_bitwise_op heap operation_and_options left_p right_p =
     big_uint_make heap (big_uint_bitwise_value operation_and_options (magnitude left_p) (magnitude right_p))"

text \<open>
  String parsing builds its result through \<open>mul_digit\<close>. The number of records that
  the parser has obtained and that are still allocated is threaded through as \<open>live\<close>:
  a call that succeeds from NULL adds one record, a call that succeeds from a record
  puts its result in the place of that record, and a call that fails changes nothing.
\<close>

definition ecma_big_uint_mul_digit :: "jmem_heap_t \<Rightarrow> ecma_extended_primitive_t option \<Rightarrow> ecma_bigint_digit_t \<Rightarrow> ecma_bigint_digit_t \<Rightarrow> int \<Rightarrow> ecma_extended_primitive_t option \<times> int" where
  \<comment> \<open>Modelled from the spec: ecma-big-uint.c is not among the sources.
      \<open>mul_digit(primitive | null, radix, add)\<close> allocates a fresh magnitude
      \<open>old * radix + add\<close>, NULL standing for 0, or returns NULL. The result of a call
      that succeeds is the running magnitude in the place of the old one. Of a call that
      fails the spec says no more than that it returns NULL, and it leaves the release of
      the partial result to the parser: nothing is released here.\<close>
  "ecma_big_uint_mul_digit heap value_p mul add live =
     (let old = (case value_p of None \<Rightarrow> 0 | Some p \<Rightarrow> magnitude p)
      in case big_uint_alloc heap (big_uint_digits (old * unat mul + unat add)) of
           None \<Rightarrow> (None, live)
         | Some p \<Rightarrow> (Some p, (case value_p of None \<Rightarrow> live + 1 | Some q \<Rightarrow> live)))"

definition ecma_deref_bigint :: "ecma_extended_primitive_t \<Rightarrow> int \<Rightarrow> int" where
  \<comment> \<open>Modelled from the spec: release of the only reference frees the record.\<close>
  "ecma_deref_bigint value_p live = live - 1"

definition ecma_copy_value :: "ecma_value_t \<Rightarrow> ecma_value_t" where
  "ecma_copy_value v = v"

section \<open>String parse\<close>

definition ECMA_BIGINT_PARSE_NO_OPTIONS :: "32 word" where
  \<comment> \<open>Modelled from the spec: ecma-bigint.h is not among the sources; the parse options
      are single bits of the options word.\<close>
  "ECMA_BIGINT_PARSE_NO_OPTIONS = 0"

definition ECMA_BIGINT_PARSE_SET_NEGATIVE :: "32 word" where
  \<comment> \<open>Modelled from the spec: see \<open>ECMA_BIGINT_PARSE_NO_OPTIONS\<close>.\<close>
  "ECMA_BIGINT_PARSE_SET_NEGATIVE = 1"

definition ECMA_BIGINT_PARSE_DISALLOW_SYNTAX_ERROR :: "32 word" where
  \<comment> \<open>Modelled from the spec: see \<open>ECMA_BIGINT_PARSE_NO_OPTIONS\<close>.\<close>
  "ECMA_BIGINT_PARSE_DISALLOW_SYNTAX_ERROR = 2"

definition ECMA_BIGINT_PARSE_DISALLOW_MEMORY_ERROR :: "32 word" where
  \<comment> \<open>Modelled from the spec: see \<open>ECMA_BIGINT_PARSE_NO_OPTIONS\<close>.\<close>
  "ECMA_BIGINT_PARSE_DISALLOW_MEMORY_ERROR = 4"

definition LIT_CHAR_0 :: lit_utf8_byte_t where "LIT_CHAR_0 = 0x30"
definition LIT_CHAR_9 :: lit_utf8_byte_t where "LIT_CHAR_9 = 0x39"
definition LIT_CHAR_PLUS :: lit_utf8_byte_t where "LIT_CHAR_PLUS = 0x2B"
definition LIT_CHAR_MINUS :: lit_utf8_byte_t where "LIT_CHAR_MINUS = 0x2D"
definition LIT_CHAR_LOWERCASE_A :: lit_utf8_byte_t where "LIT_CHAR_LOWERCASE_A = 0x61"
definition LIT_CHAR_LOWERCASE_B :: lit_utf8_byte_t where "LIT_CHAR_LOWERCASE_B = 0x62"
definition LIT_CHAR_LOWERCASE_F :: lit_utf8_byte_t where "LIT_CHAR_LOWERCASE_F = 0x66"
definition LIT_CHAR_LOWERCASE_O :: lit_utf8_byte_t where "LIT_CHAR_LOWERCASE_O = 0x6F"
definition LIT_CHAR_LOWERCASE_X :: lit_utf8_byte_t where "LIT_CHAR_LOWERCASE_X = 0x78"
definition LIT_CHAR_UPPERCASE_B :: lit_utf8_byte_t where "LIT_CHAR_UPPERCASE_B = 0x42"
definition LIT_CHAR_UPPERCASE_O :: lit_utf8_byte_t where "LIT_CHAR_UPPERCASE_O = 0x4F"
definition LIT_CHAR_UPPERCASE_X :: lit_utf8_byte_t where "LIT_CHAR_UPPERCASE_X = 0x58"

definition LEXER_TO_ASCII_LOWERCASE :: "lit_utf8_byte_t \<Rightarrow> lit_utf8_byte_t" where
  "LEXER_TO_ASCII_LOWERCASE c = c OR 0x20"

definition utf8 :: "string \<Rightarrow> lit_utf8_byte_t list" where
  "utf8 s = map (\<lambda>c. word_of_nat (of_char c)) s"

text \<open>The decoding of one byte in the loop of \<open>ecma_bigint_parse_string\<close>: the radix
  itself stands for "no digit".\<close>

definition parse_digit :: "ecma_bigint_digit_t \<Rightarrow> lit_utf8_byte_t \<Rightarrow> ecma_bigint_digit_t" where
  "parse_digit radix c =
     (if c \<ge> LIT_CHAR_0 \<and> c \<le> LIT_CHAR_9 then ucast (c - LIT_CHAR_0)
      else let character = LEXER_TO_ASCII_LOWERCASE c
           in if character \<ge> LIT_CHAR_LOWERCASE_A \<and> character \<le> LIT_CHAR_LOWERCASE_F
              then ucast (character - (LIT_CHAR_LOWERCASE_A - 10))
              else radix)"

text \<open>The \<open>do ... while\<close> loop over the digits (the list is what is left from
  \<open>string_p\<close> to \<open>string_end_p\<close>) and the code after it.\<close>

fun parse_string_loop :: "jmem_heap_t \<Rightarrow> ecma_bigint_digit_t \<Rightarrow> 32 word \<Rightarrow> 32 word \<Rightarrow> lit_utf8_byte_t list \<Rightarrow> ecma_extended_primitive_t option \<Rightarrow> int \<Rightarrow> ecma_value_t \<times> int" where
  "parse_string_loop heap radix sign options [] result_p live =
     (case result_p of
        None \<Rightarrow>
          (if options AND ECMA_BIGINT_PARSE_DISALLOW_MEMORY_ERROR \<noteq> 0 then (ECMA_VALUE_NULL, live)
           else (ecma_bigint_raise_memory_error, live))
      | Some p \<Rightarrow>
          (ecma_make_extended_primitive_value
             (p\<lparr>bigint_sign_and_size := bigint_sign_and_size p OR sign\<rparr>), live))"
| "parse_string_loop heap radix sign options (c # cs) result_p live =
     (let digit = parse_digit radix c
      in if digit \<ge> radix
         then (let live = (case result_p of None \<Rightarrow> live | Some p \<Rightarrow> ecma_deref_bigint p live)
               in if options AND ECMA_BIGINT_PARSE_DISALLOW_SYNTAX_ERROR \<noteq> 0 then (ECMA_VALUE_FALSE, live)
                  else (ecma_raise_syntax_error ''String cannot be converted to BigInt value'', live))
         else (case ecma_big_uint_mul_digit heap result_p radix digit live of
                 (None, live) \<Rightarrow> parse_string_loop heap radix sign options [] None live
               | (Some p, live) \<Rightarrow> parse_string_loop heap radix sign options cs (Some p) live))"

text \<open>The chain of conditions at the start of \<open>ecma_bigint_parse_string\<close>: the radix,
  the sign, what is left of the string, and whether the branch for an empty string was
  taken.\<close>

definition parse_string_prefix :: "lit_utf8_byte_t list \<Rightarrow> 32 word \<Rightarrow> ecma_bigint_digit_t \<times> 32 word \<times> lit_utf8_byte_t list \<times> bool" where
  "parse_string_prefix string_p options =
     (let radix = (10 :: ecma_bigint_digit_t);
          sign = (if options AND ECMA_BIGINT_PARSE_SET_NEGATIVE \<noteq> 0 then ECMA_BIGINT_SIGN else 0);
          sz = length string_p
      in if sz \<ge> 3 \<and> string_p ! 0 = LIT_CHAR_0
         then (if string_p ! 1 = LIT_CHAR_LOWERCASE_X \<or> string_p ! 1 = LIT_CHAR_UPPERCASE_X
               then (16, sign, drop 2 string_p, False)
               else if string_p ! 1 = LIT_CHAR_LOWERCASE_O \<or> string_p ! 1 = LIT_CHAR_UPPERCASE_O
               then (8, sign, drop 2 string_p, False)
               else if string_p ! 1 = LIT_CHAR_LOWERCASE_B \<or> string_p ! 1 = LIT_CHAR_UPPERCASE_B
               then (2, sign, drop 2 string_p, False)
               else (radix, sign, string_p, False))
         else if sz \<ge> 2
         then (if string_p ! 0 = LIT_CHAR_PLUS then (radix, sign, drop 1 string_p, False)
               else if string_p ! 0 = LIT_CHAR_MINUS then (radix, ECMA_BIGINT_SIGN, drop 1 string_p, False)
               else (radix, sign, string_p, False))
         else if sz = 0 then (radix, sign, string_p, True)
         else (radix, sign, string_p, False))"

definition ecma_bigint_parse_string :: "jmem_heap_t \<Rightarrow> lit_utf8_byte_t list \<Rightarrow> 32 word \<Rightarrow> ecma_value_t \<times> int" where
  "ecma_bigint_parse_string heap string_p options =
     (case parse_string_prefix string_p options of
        (radix, sign, string_p, string_is_empty) \<Rightarrow>
          if string_is_empty
          then (if options AND ECMA_BIGINT_PARSE_DISALLOW_SYNTAX_ERROR \<noteq> 0 then (ECMA_VALUE_FALSE, 0)
                else (ecma_raise_syntax_error ''BigInt cannot be constructed from empty string'', 0))
          else (let string_p = dropWhile (\<lambda>c. c = LIT_CHAR_0) string_p
                in if string_p = [] then (ECMA_BIGINT_ZERO, 0)
                   else parse_string_loop heap radix sign options string_p None 0))"

section \<open>Number to digits, Number to BigInt\<close>

definition ECMA_NUMBER_BIASED_EXP_WIDTH :: nat where
  \<comment> \<open>Modelled from the spec: ecma-globals.h is not among the sources; binary64 has an
      exponent field of 11 bits.\<close>
  "ECMA_NUMBER_BIASED_EXP_WIDTH = 11"

definition ECMA_NUMBER_FRACTION_WIDTH :: nat where
  \<comment> \<open>Modelled from the spec: ecma-globals.h is not among the sources; binary64 has a
      fraction field of 52 bits.\<close>
  "ECMA_NUMBER_FRACTION_WIDTH = 52"

definition ecma_number_unpack :: "ecma_number_t \<Rightarrow> bool \<times> 32 word \<times> 64 word" where
  \<comment> \<open>Modelled from the spec: ecma-helpers-number.c is not among the sources. The sign,
      the biased exponent and the fraction field of the double.\<close>
  "ecma_number_unpack number =
     (bit number 63, ucast (drop_bit 52 number AND 0x7FF), number AND 0xFFFFFFFFFFFFF)"

definition ecma_number_is_nan :: "ecma_number_t \<Rightarrow> bool" where
  \<comment> \<open>Modelled from the spec: ecma-helpers-number.c is not among the sources.\<close>
  "ecma_number_is_nan number =
     (case ecma_number_unpack number of (s, biased_exp, fraction) \<Rightarrow> biased_exp = 0x7FF \<and> fraction \<noteq> 0)"

definition ecma_number_is_infinity :: "ecma_number_t \<Rightarrow> bool" where
  \<comment> \<open>Modelled from the spec: ecma-helpers-number.c is not among the sources.\<close>
  "ecma_number_is_infinity number =
     (case ecma_number_unpack number of (s, biased_exp, fraction) \<Rightarrow> biased_exp = 0x7FF \<and> fraction = 0)"

definition ecma_number_is_finite :: "ecma_number_t \<Rightarrow> bool" where
  \<comment> \<open>Modelled from the spec: ecma-helpers-number.c is not among the sources.\<close>
  "ecma_number_is_finite number =
     (case ecma_number_unpack number of (s, biased_exp, fraction) \<Rightarrow> biased_exp \<noteq> 0x7FF)"

text \<open>The comparisons of a double with the constant 0 that the code makes (\<open>== 0\<close>,
  \<open>> 0\<close>, \<open>< 0\<close>), read off the bit pattern: both zeros are equal to 0, a NaN compares
  false.\<close>

definition number_is_zero :: "ecma_number_t \<Rightarrow> bool" where
  "number_is_zero number = (number AND 0x7FFFFFFFFFFFFFFF = 0)"

definition number_gt_zero :: "ecma_number_t \<Rightarrow> bool" where
  "number_gt_zero number = (\<not> ecma_number_is_nan number \<and> \<not> number_is_zero number \<and> \<not> bit number 63)"

definition number_lt_zero :: "ecma_number_t \<Rightarrow> bool" where
  "number_lt_zero number = (\<not> ecma_number_is_nan number \<and> \<not> number_is_zero number \<and> bit number 63)"

definition ECMA_BIGINT_NUMBER_TO_DIGITS_GET_ZERO_SIZE :: "32 word \<Rightarrow> 32 word" where
  "ECMA_BIGINT_NUMBER_TO_DIGITS_GET_ZERO_SIZE v = (v AND 0xffff) * 4"

definition ECMA_BIGINT_NUMBER_TO_DIGITS_GET_DIGITS :: "32 word \<Rightarrow> 32 word" where
  "ECMA_BIGINT_NUMBER_TO_DIGITS_GET_DIGITS v = drop_bit 20 v"

definition ECMA_BIGINT_NUMBER_TO_DIGITS_GET_DIGITS_SIZE :: "32 word \<Rightarrow> 32 word" where
  "ECMA_BIGINT_NUMBER_TO_DIGITS_GET_DIGITS_SIZE v = ECMA_BIGINT_NUMBER_TO_DIGITS_GET_DIGITS v * 4"

definition ECMA_BIGINT_NUMBER_TO_DIGITS_SET_DIGITS :: "32 word \<Rightarrow> 32 word" where
  "ECMA_BIGINT_NUMBER_TO_DIGITS_SET_DIGITS v = push_bit 20 v"

definition ECMA_BIGINT_NUMBER_TO_DIGITS_HAS_FRACTION :: "32 word" where
  "ECMA_BIGINT_NUMBER_TO_DIGITS_HAS_FRACTION = 0x10000"

text \<open>
  The decoder returns the packed word and the digits array it has written to. Its two
  blocks after the implicit leading bit is restored are given names: the block for an
  exponent up to the fraction width, where the integer part is the fraction shifted
  right, and the block for a larger exponent, where the digits are shifted left.
\<close>

definition number_to_digits_integer_part :: "32 word \<Rightarrow> 64 word \<Rightarrow> ecma_bigint_digit_t list \<Rightarrow> 32 word \<times> ecma_bigint_digit_t list" where
  "number_to_digits_integer_part biased_exp fraction digits_p =
     (let has_fraction =
            (if biased_exp < word_of_nat ECMA_NUMBER_FRACTION_WIDTH
                \<and> push_bit (unat biased_exp + (64 - ECMA_NUMBER_FRACTION_WIDTH)) fraction \<noteq> 0
             then ECMA_BIGINT_NUMBER_TO_DIGITS_HAS_FRACTION else 0);
          fraction = drop_bit (ECMA_NUMBER_FRACTION_WIDTH - unat biased_exp) fraction;
          digits_p = digits_p[0 := ucast fraction];
          digits_p = digits_p[1 := ucast (drop_bit 32 fraction)]
      in (ECMA_BIGINT_NUMBER_TO_DIGITS_SET_DIGITS (if digits_p ! 1 = 0 then 1 else 2) OR has_fraction,
          digits_p))"

definition number_to_digits_shifted :: "32 word \<Rightarrow> 64 word \<Rightarrow> ecma_bigint_digit_t list \<Rightarrow> 32 word \<times> ecma_bigint_digit_t list" where
  "number_to_digits_shifted biased_exp fraction digits_p =
     (let digits_p = digits_p[0 := ucast fraction];
          digits_p = digits_p[1 := ucast (drop_bit 32 fraction)];
          biased_exp = biased_exp - word_of_nat ECMA_NUMBER_FRACTION_WIDTH;
          shift_left = biased_exp AND 31;
          biased_exp = drop_bit ECMA_BIGINT_DIGIT_SHIFT biased_exp
      in if shift_left = 0
         then (biased_exp OR ECMA_BIGINT_NUMBER_TO_DIGITS_SET_DIGITS 2, digits_p)
         else
           let shift_right = push_bit ECMA_BIGINT_DIGIT_SHIFT 1 - shift_left;
               digits_p = digits_p[2 := drop_bit (unat shift_right) (digits_p ! 1)];
               digits_p = digits_p[1 := push_bit (unat shift_left) (digits_p ! 1)
                                          OR drop_bit (unat shift_right) (digits_p ! 0)];
               digits_p = digits_p[0 := push_bit (unat shift_left) (digits_p ! 0)]
           in (biased_exp OR ECMA_BIGINT_NUMBER_TO_DIGITS_SET_DIGITS (if digits_p ! 2 = 0 then 2 else 3),
               digits_p))"

definition ecma_bigint_number_to_digits :: "ecma_number_t \<Rightarrow> ecma_bigint_digit_t list \<Rightarrow> 32 word \<times> ecma_bigint_digit_t list" where
  "ecma_bigint_number_to_digits number digits_p =
     (case ecma_number_unpack number of
        (s, biased_exp, fraction) \<Rightarrow>
          if biased_exp = 0 then (ECMA_BIGINT_NUMBER_TO_DIGITS_SET_DIGITS 0, digits_p)
          else if biased_exp < push_bit (ECMA_NUMBER_BIASED_EXP_WIDTH - 1) 1 - 1
          then (ECMA_BIGINT_NUMBER_TO_DIGITS_SET_DIGITS 0 OR ECMA_BIGINT_NUMBER_TO_DIGITS_HAS_FRACTION, digits_p)
          else
            let biased_exp = biased_exp - (push_bit (ECMA_NUMBER_BIASED_EXP_WIDTH - 1) 1 - 1);
                fraction = fraction OR push_bit ECMA_NUMBER_FRACTION_WIDTH 1
            in if biased_exp \<le> word_of_nat ECMA_NUMBER_FRACTION_WIDTH
               then number_to_digits_integer_part biased_exp fraction digits_p
               else number_to_digits_shifted biased_exp fraction digits_p)"

text \<open>The callers' local array \<open>digits[3]\<close>; the decoder writes every entry that is
  read afterwards.\<close>

definition digits_array :: "ecma_bigint_digit_t list" where
  "digits_array = [0, 0, 0]"

definition number_to_digits_assert :: "32 word \<Rightarrow> ecma_bigint_digit_t list \<Rightarrow> bool" where
  "number_to_digits_assert result digits =
     (ECMA_BIGINT_NUMBER_TO_DIGITS_GET_DIGITS result = 0
      \<or> digits ! (unat (ECMA_BIGINT_NUMBER_TO_DIGITS_GET_DIGITS result) - 1) > 0)"

text \<open>A failed \<open>JERRY_ASSERT\<close>, like the reinterpretation of a value that holds no
  record, leaves the function without a result: \<open>None\<close>.\<close>

definition ecma_bigint_number_to_bigint :: "jmem_heap_t \<Rightarrow> ecma_number_t \<Rightarrow> ecma_value_t option" where
  "ecma_bigint_number_to_bigint heap number =
     (if \<not> ecma_number_is_finite number
      then Some (ecma_raise_range_error ''Infinity or NaN cannot be converted to BigInt'')
      else case ecma_bigint_number_to_digits number digits_array of
        (result, digits) \<Rightarrow>
          if \<not> number_to_digits_assert result digits then None
          else if result AND ECMA_BIGINT_NUMBER_TO_DIGITS_HAS_FRACTION \<noteq> 0
          then Some (ecma_raise_range_error ''Only integer numbers can be converted to BigInt'')
          else
            let digits_size = ECMA_BIGINT_NUMBER_TO_DIGITS_GET_DIGITS_SIZE result
            in if digits_size = 0 then Some ECMA_BIGINT_ZERO
               else
                 let zero_size = ECMA_BIGINT_NUMBER_TO_DIGITS_GET_ZERO_SIZE result
                 in case ecma_bigint_create heap (unat (digits_size + zero_size)) of
                      None \<Rightarrow> Some ecma_bigint_raise_memory_error
                    | Some result_p \<Rightarrow>
                        let result_p = result_p\<lparr>bigint_digits :=
                              replicate (unat zero_size div sizeof_digit) 0
                              @ take (unat digits_size div sizeof_digit) digits\<rparr>;
                            result_p = (if number_lt_zero number
                                        then result_p\<lparr>bigint_sign_and_size :=
                                               bigint_sign_and_size result_p OR ECMA_BIGINT_SIGN\<rparr>
                                        else result_p)
                        in Some (ecma_make_extended_primitive_value result_p))"

section \<open>Value to BigInt\<close>

definition ecma_bigint_parse_string_value :: "jmem_heap_t \<Rightarrow> ecma_value_t \<Rightarrow> 32 word \<Rightarrow> ecma_value_t option" where
  "ecma_bigint_parse_string_value heap str options =
     (case str of
        ECMA_VALUE_STRING string_buffer_p \<Rightarrow> Some (fst (ecma_bigint_parse_string heap string_buffer_p options))
      | _ \<Rightarrow> None)"

definition ecma_bigint_to_bigint :: "jmem_heap_t \<Rightarrow> ecma_value_t \<Rightarrow> ecma_value_t option" where
  "ecma_bigint_to_bigint heap v =
     (if v = ECMA_VALUE_FALSE \<or> v = ECMA_VALUE_TRUE
      then (if v = ECMA_VALUE_FALSE then Some ECMA_BIGINT_ZERO
            else case ecma_bigint_create heap sizeof_digit of
                   None \<Rightarrow> Some ecma_bigint_raise_memory_error
                 | Some result_p \<Rightarrow>
                     Some (ecma_make_extended_primitive_value
                             (result_p\<lparr>bigint_digits := (bigint_digits result_p)[0 := 1]\<rparr>)))
      else if \<not> (case v of ECMA_VALUE_STRING b \<Rightarrow> True | _ \<Rightarrow> False)
      then Some (ecma_raise_type_error ''Value cannot be converted to BigInt'')
      else ecma_bigint_parse_string_value heap v ECMA_BIGINT_PARSE_NO_OPTIONS)"

section \<open>Equality\<close>

definition ecma_bigint_is_equal_to_bigint :: "ecma_value_t \<Rightarrow> ecma_value_t \<Rightarrow> bool option" where
  "ecma_bigint_is_equal_to_bigint left_value right_value =
     (if \<not> (ecma_is_value_bigint left_value \<and> ecma_is_value_bigint right_value) then None
      else if left_value = ECMA_BIGINT_ZERO then Some (right_value = ECMA_BIGINT_ZERO)
      else if right_value = ECMA_BIGINT_ZERO then Some False
      else do {
        left_p \<leftarrow> ecma_get_extended_primitive_from_value left_value;
        right_p \<leftarrow> ecma_get_extended_primitive_from_value right_value;
        if bigint_sign_and_size left_p \<noteq> bigint_sign_and_size right_p then Some False
        else
          let sz = unat (ECMA_BIGINT_GET_SIZE left_p)
          in Some (take (sz div sizeof_digit) (bigint_digits left_p)
                   = take (sz div sizeof_digit) (bigint_digits right_p))
      })"

text \<open>The loop \<open>while (left_p < left_end_p) if (*left_p++ != 0) return false\<close>.\<close>

fun low_digits_are_zero :: "ecma_bigint_digit_t list \<Rightarrow> bool" where
  "low_digits_are_zero [] = True"
| "low_digits_are_zero (d # ds) = (if d \<noteq> 0 then False else low_digits_are_zero ds)"

definition ecma_bigint_is_equal_to_number :: "ecma_value_t \<Rightarrow> ecma_number_t \<Rightarrow> bool option" where
  "ecma_bigint_is_equal_to_number left_value right_value =
     (if \<not> ecma_is_value_bigint left_value then None
      else if \<not> ecma_number_is_finite right_value then Some False
      else if left_value = ECMA_BIGINT_ZERO then Some (number_is_zero right_value)
      else do {
        left_value_p \<leftarrow> ecma_get_extended_primitive_from_value left_value;
        if (if bigint_sign_and_size left_value_p AND ECMA_BIGINT_SIGN \<noteq> 0
            then number_gt_zero right_value else number_lt_zero right_value)
        then Some False
        else case ecma_bigint_number_to_digits right_value digits_array of
          (result, digits) \<Rightarrow>
            if \<not> number_to_digits_assert result digits then None
            else if result AND ECMA_BIGINT_NUMBER_TO_DIGITS_HAS_FRACTION \<noteq> 0 then Some False
            else
              let digits_size = ECMA_BIGINT_NUMBER_TO_DIGITS_GET_DIGITS_SIZE result;
                  zero_size = ECMA_BIGINT_NUMBER_TO_DIGITS_GET_ZERO_SIZE result
              in if ECMA_BIGINT_GET_SIZE left_value_p \<noteq> digits_size + zero_size then Some False
                 else if take (unat digits_size div sizeof_digit)
                           (drop (unat zero_size div sizeof_digit) (bigint_digits left_value_p))
                         \<noteq> take (unat digits_size div sizeof_digit) digits
                 then Some False
                 else Some (low_digits_are_zero
                              (take (unat zero_size div sizeof_digit) (bigint_digits left_value_p)))
      })"


section \<open>Ordering\<close>

definition ECMA_BIGINT_TO_SIGN :: "32 word \<Rightarrow> int" where
  "ECMA_BIGINT_TO_SIGN v = 1 - 2 * sint v"

definition ecma_bigint_compare_to_bigint :: "ecma_value_t \<Rightarrow> ecma_value_t \<Rightarrow> int option" where
  "ecma_bigint_compare_to_bigint left_value right_value =
     (if \<not> (ecma_is_value_bigint left_value \<and> ecma_is_value_bigint right_value) then None
      else do {
        left_p \<leftarrow> ecma_get_extended_primitive_from_value left_value;
        right_p \<leftarrow> ecma_get_extended_primitive_from_value right_value;
        let left_sign = bigint_sign_and_size left_p AND ECMA_BIGINT_SIGN;
        let right_sign = bigint_sign_and_size right_p AND ECMA_BIGINT_SIGN;
        if left_sign XOR right_sign \<noteq> 0 then Some (ECMA_BIGINT_TO_SIGN left_sign)
        else Some (ecma_big_uint_compare left_p right_p)
      })"

text \<open>
  The \<open>do ... while\<close> loop of \<open>ecma_bigint_compare_to_number\<close> over the digits of the
  number, from the most significant one down: \<open>left_p\<close> and \<open>digits_p\<close> are digit
  indices, \<open>n\<close> the digits left to compare. \<open>None\<close>: all of them are equal.
\<close>

fun compare_high_digits :: "ecma_bigint_digit_t list \<Rightarrow> nat \<Rightarrow> ecma_bigint_digit_t list \<Rightarrow> nat \<Rightarrow> nat \<Rightarrow> int \<Rightarrow> int option" where
  "compare_high_digits left_digits left_p digits digits_p 0 left_sign = None"
| "compare_high_digits left_digits left_p digits digits_p (Suc n) left_sign =
     (let left = left_digits ! (left_p - 1);
          right = digits ! (digits_p - 1)
      in if left \<noteq> right then Some (if left > right then left_sign else - left_sign)
         else compare_high_digits left_digits (left_p - 1) digits (digits_p - 1) n left_sign)"

text \<open>The loop \<open>while (left_p > left_end_p) if (*(--left_p) != 0) return left_sign\<close>
  over the low digits, from index \<open>left_p\<close> down to 0.\<close>

fun low_digit_is_set :: "ecma_bigint_digit_t list \<Rightarrow> nat \<Rightarrow> bool" where
  "low_digit_is_set left_digits 0 = False"
| "low_digit_is_set left_digits (Suc left_p) =
     (if left_digits ! left_p \<noteq> 0 then True else low_digit_is_set left_digits left_p)"

definition ecma_bigint_compare_to_number :: "ecma_value_t \<Rightarrow> ecma_number_t \<Rightarrow> int option" where
  "ecma_bigint_compare_to_number left_value right_value =
     (if \<not> ecma_is_value_bigint left_value then None
      else if ecma_number_is_nan right_value then None
      else
        let right_invert_sign = ECMA_BIGINT_TO_SIGN (if number_gt_zero right_value then 1 else 0)
        in if left_value = ECMA_BIGINT_ZERO
           then (if number_is_zero right_value then Some 0 else Some right_invert_sign)
           else do {
             left_value_p \<leftarrow> ecma_get_extended_primitive_from_value left_value;
             let left_sign = ECMA_BIGINT_TO_SIGN (bigint_sign_and_size left_value_p AND ECMA_BIGINT_SIGN);
             if number_is_zero right_value \<or> left_sign = right_invert_sign then Some left_sign
             else if ecma_number_is_infinity right_value then Some right_invert_sign
             else case ecma_bigint_number_to_digits right_value digits_array of
               (result, digits) \<Rightarrow>
                 if \<not> number_to_digits_assert result digits then None
                 else
                   let digits_size = ECMA_BIGINT_NUMBER_TO_DIGITS_GET_DIGITS_SIZE result
                   in if digits_size = 0
                      then (if result AND ECMA_BIGINT_NUMBER_TO_DIGITS_HAS_FRACTION = 0 then None
                            else Some left_sign)
                      else
                        let left_size = ECMA_BIGINT_GET_SIZE left_value_p;
                            right_size = digits_size + ECMA_BIGINT_NUMBER_TO_DIGITS_GET_ZERO_SIZE result
                        in if left_size \<noteq> right_size
                           then Some (if left_size > right_size then left_sign else - left_sign)
                           else
                             case compare_high_digits (bigint_digits left_value_p)
                                    (unat right_size div sizeof_digit) digits
                                    (unat digits_size div sizeof_digit)
                                    (unat digits_size div sizeof_digit) left_sign of
                               Some r \<Rightarrow> Some r
                             | None \<Rightarrow>
                                 if low_digit_is_set (bigint_digits left_value_p)
                                      (unat right_size div sizeof_digit - unat digits_size div sizeof_digit)
                                 then Some left_sign
                                 else Some (if result AND ECMA_BIGINT_NUMBER_TO_DIGITS_HAS_FRACTION \<noteq> 0
                                            then - left_sign else 0)
           })"

section \<open>Negate, add and subtract, multiply, divide, shift\<close>

definition ecma_bigint_negate :: "jmem_heap_t \<Rightarrow> ecma_extended_primitive_t \<Rightarrow> ecma_value_t option" where
  "ecma_bigint_negate heap value_p =
     (let sz = ECMA_BIGINT_GET_SIZE value_p
      in if \<not> (sz > 0 \<and> ECMA_BIGINT_GET_LAST_DIGIT value_p (unat sz) \<noteq> 0) then None
         else case ecma_bigint_create heap (unat sz) of
                None \<Rightarrow> Some ecma_bigint_raise_memory_error
              | Some result_p \<Rightarrow>
                  Some (ecma_make_extended_primitive_value
                          (result_p\<lparr>bigint_digits := take (unat sz div sizeof_digit) (bigint_digits value_p),
                                    bigint_sign_and_size := bigint_sign_and_size value_p XOR ECMA_BIGINT_SIGN\<rparr>)))"

definition ecma_bigint_add_sub :: "jmem_heap_t \<Rightarrow> ecma_value_t \<Rightarrow> ecma_value_t \<Rightarrow> bool \<Rightarrow> ecma_value_t option" where
  "ecma_bigint_add_sub heap left_value right_value is_add =
     (if \<not> (ecma_is_value_bigint left_value \<and> ecma_is_value_bigint right_value) then None
      else if right_value = ECMA_BIGINT_ZERO then Some (ecma_copy_value left_value)
      else do {
        right_p \<leftarrow> ecma_get_extended_primitive_from_value right_value;
        if left_value = ECMA_BIGINT_ZERO
        then (if \<not> is_add then ecma_bigint_negate heap right_p else Some right_value)
        else do {
          left_p \<leftarrow> ecma_get_extended_primitive_from_value left_value;
          let sign = (if is_add then 0 else ECMA_BIGINT_SIGN);
          if (bigint_sign_and_size left_p XOR bigint_sign_and_size right_p) AND ECMA_BIGINT_SIGN = sign
          then (case ecma_big_uint_add heap left_p right_p of
                  None \<Rightarrow> Some ecma_bigint_raise_memory_error
                | Some result_p \<Rightarrow>
                    Some (ecma_make_extended_primitive_value
                            (result_p\<lparr>bigint_sign_and_size := bigint_sign_and_size result_p
                                        OR (bigint_sign_and_size left_p AND ECMA_BIGINT_SIGN)\<rparr>)))
          else
            let compare_result = ecma_big_uint_compare left_p right_p
            in if compare_result = 0 then Some ECMA_BIGINT_ZERO
               else
                 let (sign, result_p) =
                       (if compare_result > 0
                        then (bigint_sign_and_size left_p AND ECMA_BIGINT_SIGN,
                              ecma_big_uint_sub heap left_p right_p)
                        else ((if \<not> is_add
                               then (bigint_sign_and_size right_p AND ECMA_BIGINT_SIGN) XOR ECMA_BIGINT_SIGN
                               else bigint_sign_and_size right_p AND ECMA_BIGINT_SIGN),
                              ecma_big_uint_sub heap right_p left_p))
                 in case result_p of
                      None \<Rightarrow> Some ecma_bigint_raise_memory_error
                    | Some result_p \<Rightarrow>
                        Some (ecma_make_extended_primitive_value
                                (result_p\<lparr>bigint_sign_and_size := bigint_sign_and_size result_p OR sign\<rparr>))
        }
      })"

definition ecma_bigint_mul :: "jmem_heap_t \<Rightarrow> ecma_value_t \<Rightarrow> ecma_value_t \<Rightarrow> ecma_value_t option" where
  "ecma_bigint_mul heap left_value right_value =
     (if \<not> (ecma_is_value_bigint left_value \<and> ecma_is_value_bigint right_value) then None
      else if left_value = ECMA_BIGINT_ZERO \<or> right_value = ECMA_BIGINT_ZERO then Some ECMA_BIGINT_ZERO
      else do {
        left_p \<leftarrow> ecma_get_extended_primitive_from_value left_value;
        right_p \<leftarrow> ecma_get_extended_primitive_from_value right_value;
        let left_size = ECMA_BIGINT_GET_SIZE left_p;
        let right_size = ECMA_BIGINT_GET_SIZE right_p;
        if left_size = word_of_nat sizeof_digit \<and> ECMA_BIGINT_GET_LAST_DIGIT left_p sizeof_digit = 1
        then (if bigint_sign_and_size left_p AND ECMA_BIGINT_SIGN \<noteq> 0
              then ecma_bigint_negate heap right_p else Some right_value)
        else if right_size = word_of_nat sizeof_digit \<and> ECMA_BIGINT_GET_LAST_DIGIT right_p sizeof_digit = 1
        then (if bigint_sign_and_size right_p AND ECMA_BIGINT_SIGN \<noteq> 0
              then ecma_bigint_negate heap left_p else Some left_value)
        else case ecma_big_uint_mul heap left_p right_p of
               None \<Rightarrow> Some ecma_bigint_raise_memory_error
             | Some result_p \<Rightarrow>
                 let sign = (bigint_sign_and_size left_p XOR bigint_sign_and_size right_p) AND ECMA_BIGINT_SIGN
                 in Some (ecma_make_extended_primitive_value
                            (result_p\<lparr>bigint_sign_and_size := bigint_sign_and_size result_p OR sign\<rparr>))
      })"

definition ecma_bigint_div_mod :: "jmem_heap_t \<Rightarrow> ecma_value_t \<Rightarrow> ecma_value_t \<Rightarrow> bool \<Rightarrow> ecma_value_t option" where
  "ecma_bigint_div_mod heap left_value right_value is_mod =
     (if \<not> (ecma_is_value_bigint left_value \<and> ecma_is_value_bigint right_value) then None
      else if right_value = ECMA_BIGINT_ZERO then Some (ecma_raise_range_error ''BigInt division by zero'')
      else if left_value = ECMA_BIGINT_ZERO then Some left_value
      else do {
        left_p \<leftarrow> ecma_get_extended_primitive_from_value left_value;
        right_p \<leftarrow> ecma_get_extended_primitive_from_value right_value;
        let compare_result = ecma_big_uint_compare left_p right_p;
        if compare_result < 0 then (if \<not> is_mod then Some ECMA_BIGINT_ZERO else Some left_value)
        else if compare_result = 0 \<and> is_mod then Some ECMA_BIGINT_ZERO
        else
          let result_p =
                (if compare_result = 0
                 then (case ecma_bigint_create heap sizeof_digit of
                         None \<Rightarrow> BIG_UINT_NULL
                       | Some result_p \<Rightarrow>
                           BIG_UINT_PTR (result_p\<lparr>bigint_digits := (bigint_digits result_p)[0 := 1]\<rparr>))
                 else ecma_big_uint_div_mod heap left_p right_p is_mod)
          in case result_p of
               BIG_UINT_POINTER_TO_ZERO \<Rightarrow> Some ECMA_BIGINT_ZERO
             | BIG_UINT_NULL \<Rightarrow> Some ecma_bigint_raise_memory_error
             | BIG_UINT_PTR result_p \<Rightarrow>
                 if is_mod
                 then Some (ecma_make_extended_primitive_value
                              (result_p\<lparr>bigint_sign_and_size := bigint_sign_and_size result_p
                                          OR (bigint_sign_and_size left_p AND ECMA_BIGINT_SIGN)\<rparr>))
                 else
                   let sign = (bigint_sign_and_size left_p XOR bigint_sign_and_size right_p) AND ECMA_BIGINT_SIGN
                   in Some (ecma_make_extended_primitive_value
                              (result_p\<lparr>bigint_sign_and_size := bigint_sign_and_size result_p OR sign\<rparr>))
      })"

definition ecma_bigint_shift :: "jmem_heap_t \<Rightarrow> ecma_value_t \<Rightarrow> ecma_value_t \<Rightarrow> bool \<Rightarrow> ecma_value_t option" where
  "ecma_bigint_shift heap left_value right_value is_left =
     (if \<not> (ecma_is_value_bigint left_value \<and> ecma_is_value_bigint right_value) then None
      else if left_value = ECMA_BIGINT_ZERO then Some ECMA_BIGINT_ZERO
      else do {
        left_p \<leftarrow> ecma_get_extended_primitive_from_value left_value;
        if right_value = ECMA_BIGINT_ZERO then Some left_value
        else do {
          right_p \<leftarrow> ecma_get_extended_primitive_from_value right_value;
          let is_left = (if bigint_sign_and_size right_p AND ECMA_BIGINT_SIGN \<noteq> 0 then \<not> is_left else is_left);
          if ECMA_BIGINT_GET_SIZE right_p > word_of_nat sizeof_digit
          then (if is_left then Some ecma_bigint_raise_memory_error else Some ECMA_BIGINT_ZERO)
          else
            let shift = ECMA_BIGINT_GET_LAST_DIGIT right_p sizeof_digit;
                result_p = (if is_left
                            then (case ecma_big_uint_shift_left heap left_p shift of
                                    None \<Rightarrow> BIG_UINT_NULL | Some p \<Rightarrow> BIG_UINT_PTR p)
                            else ecma_big_uint_shift_right heap left_p shift)
            in case result_p of
                 BIG_UINT_POINTER_TO_ZERO \<Rightarrow> Some ECMA_BIGINT_ZERO
               | BIG_UINT_NULL \<Rightarrow> Some ecma_bigint_raise_memory_error
               | BIG_UINT_PTR result_p \<Rightarrow>
                   Some (ecma_make_extended_primitive_value
                           (result_p\<lparr>bigint_sign_and_size := bigint_sign_and_size result_p
                                       OR (bigint_sign_and_size left_p AND ECMA_BIGINT_SIGN)\<rparr>))
        }
      })"

section \<open>Bitwise and, or, xor\<close>

definition ecma_bigint_bitwise_op :: "jmem_heap_t \<Rightarrow> 32 word \<Rightarrow> ecma_extended_primitive_t \<Rightarrow> ecma_extended_primitive_t \<Rightarrow> ecma_value_t" where
  "ecma_bigint_bitwise_op heap operation_and_options left_value_p right_value_p =
     (case ecma_big_uint_bitwise_op heap operation_and_options left_value_p right_value_p of
        BIG_UINT_NULL \<Rightarrow> ecma_bigint_raise_memory_error
      | BIG_UINT_POINTER_TO_ZERO \<Rightarrow> ECMA_BIGINT_ZERO
      | BIG_UINT_PTR result_p \<Rightarrow>
          ecma_make_extended_primitive_value
            (if operation_and_options AND ECMA_BIG_UINT_BITWISE_INCREASE_RESULT \<noteq> 0
             then result_p\<lparr>bigint_sign_and_size := bigint_sign_and_size result_p OR ECMA_BIGINT_SIGN\<rparr>
             else result_p))"

definition ecma_bigint_and :: "jmem_heap_t \<Rightarrow> ecma_value_t \<Rightarrow> ecma_value_t \<Rightarrow> ecma_value_t option" where
  "ecma_bigint_and heap left_value right_value =
     (if left_value = ECMA_BIGINT_ZERO \<or> right_value = ECMA_BIGINT_ZERO then Some ECMA_BIGINT_ZERO
      else do {
        left_p \<leftarrow> ecma_get_extended_primitive_from_value left_value;
        right_p \<leftarrow> ecma_get_extended_primitive_from_value right_value;
        if bigint_sign_and_size left_p AND ECMA_BIGINT_SIGN = 0
        then (if bigint_sign_and_size right_p AND ECMA_BIGINT_SIGN = 0
              then Some (ecma_bigint_bitwise_op heap ECMA_BIG_UINT_BITWISE_AND left_p right_p)
              else Some (ecma_bigint_bitwise_op heap
                           (ECMA_BIG_UINT_BITWISE_AND_NOT OR ECMA_BIG_UINT_BITWISE_DECREASE_RIGHT) left_p right_p))
        else if bigint_sign_and_size right_p AND ECMA_BIGINT_SIGN = 0
        then Some (ecma_bigint_bitwise_op heap
                     (ECMA_BIG_UINT_BITWISE_AND_NOT OR ECMA_BIG_UINT_BITWISE_DECREASE_RIGHT) right_p left_p)
        else Some (ecma_bigint_bitwise_op heap
                     (ECMA_BIG_UINT_BITWISE_OR OR ECMA_BIG_UINT_BITWISE_DECREASE_BOTH
                      OR ECMA_BIG_UINT_BITWISE_INCREASE_RESULT) left_p right_p)
      })"

definition ecma_bigint_or :: "jmem_heap_t \<Rightarrow> ecma_value_t \<Rightarrow> ecma_value_t \<Rightarrow> ecma_value_t option" where
  "ecma_bigint_or heap left_value right_value =
     (if left_value = ECMA_BIGINT_ZERO then Some (ecma_copy_value right_value)
      else if right_value = ECMA_BIGINT_ZERO then Some (ecma_copy_value left_value)
      else do {
        left_p \<leftarrow> ecma_get_extended_primitive_from_value left_value;
        right_p \<leftarrow> ecma_get_extended_primitive_from_value right_value;
        if bigint_sign_and_size left_p AND ECMA_BIGINT_SIGN = 0
        then (if bigint_sign_and_size right_p AND ECMA_BIGINT_SIGN = 0
              then Some (ecma_bigint_bitwise_op heap ECMA_BIG_UINT_BITWISE_OR left_p right_p)
              else Some (ecma_bigint_bitwise_op heap
                           (ECMA_BIG_UINT_BITWISE_AND_NOT OR ECMA_BIG_UINT_BITWISE_DECREASE_LEFT
                            OR ECMA_BIG_UINT_BITWISE_INCREASE_RESULT) right_p left_p))
        else if bigint_sign_and_size right_p AND ECMA_BIGINT_SIGN = 0
        then Some (ecma_bigint_bitwise_op heap
                     (ECMA_BIG_UINT_BITWISE_AND_NOT OR ECMA_BIG_UINT_BITWISE_DECREASE_LEFT
                      OR ECMA_BIG_UINT_BITWISE_INCREASE_RESULT) left_p right_p)
        else Some (ecma_bigint_bitwise_op heap
                     (ECMA_BIG_UINT_BITWISE_AND OR ECMA_BIG_UINT_BITWISE_DECREASE_BOTH
                      OR ECMA_BIG_UINT_BITWISE_INCREASE_RESULT) left_p right_p)
      })"

definition ecma_bigint_xor :: "jmem_heap_t \<Rightarrow> ecma_value_t \<Rightarrow> ecma_value_t \<Rightarrow> ecma_value_t option" where
  "ecma_bigint_xor heap left_value right_value =
     (if left_value = ECMA_BIGINT_ZERO then Some (ecma_copy_value right_value)
      else if right_value = ECMA_BIGINT_ZERO then Some (ecma_copy_value left_value)
      else do {
        left_p \<leftarrow> ecma_get_extended_primitive_from_value left_value;
        right_p \<leftarrow> ecma_get_extended_primitive_from_value right_value;
        if bigint_sign_and_size left_p AND ECMA_BIGINT_SIGN = 0
        then (if bigint_sign_and_size right_p AND ECMA_BIGINT_SIGN = 0
              then Some (ecma_bigint_bitwise_op heap ECMA_BIG_UINT_BITWISE_XOR left_p right_p)
              else Some (ecma_bigint_bitwise_op heap
                           (ECMA_BIG_UINT_BITWISE_XOR OR ECMA_BIG_UINT_BITWISE_DECREASE_RIGHT
                            OR ECMA_BIG_UINT_BITWISE_INCREASE_RESULT) left_p right_p))
        else if bigint_sign_and_size right_p AND ECMA_BIGINT_SIGN = 0
        then Some (ecma_bigint_bitwise_op heap
                     (ECMA_BIG_UINT_BITWISE_XOR OR ECMA_BIG_UINT_BITWISE_DECREASE_LEFT
                      OR ECMA_BIG_UINT_BITWISE_INCREASE_RESULT) left_p right_p)
        else Some (ecma_bigint_bitwise_op heap
                     (ECMA_BIG_UINT_BITWISE_XOR OR ECMA_BIG_UINT_BITWISE_DECREASE_BOTH) left_p right_p)
      })"


section \<open>Specification predicates\<close>

text \<open>
  \<open>bigint_result heap negative n res\<close>: the operation has returned the BigInt of
  magnitude \<open>n\<close> with the given sign, in a well-formed record, or, when the kernel's
  allocation for that magnitude fails, the memory error.
\<close>

definition bigint_result :: "jmem_heap_t \<Rightarrow> bool \<Rightarrow> nat \<Rightarrow> ecma_value_t option \<Rightarrow> bool" where
  "bigint_result heap negative n res =
     (case res of
        Some (ECMA_BIGINT_PTR p) \<Rightarrow>
          big_uint_alloc heap (big_uint_digits n) \<noteq> None
          \<and> bigint_wf p \<and> magnitude p = n \<and> is_negative p = negative
      | Some v \<Rightarrow> v = ecma_bigint_raise_memory_error \<and> big_uint_alloc heap (big_uint_digits n) = None
      | None \<Rightarrow> False)"


text \<open>Operands used as concrete inputs: 5, 3, -5 and -3 in one digit each.\<close>

definition bigint_5 :: ecma_extended_primitive_t where
  "bigint_5 = \<lparr>bigint_sign_and_size = 4, bigint_digits = [5]\<rparr>"

definition bigint_3 :: ecma_extended_primitive_t where
  "bigint_3 = \<lparr>bigint_sign_and_size = 4, bigint_digits = [3]\<rparr>"

definition bigint_neg_5 :: ecma_extended_primitive_t where
  "bigint_neg_5 = \<lparr>bigint_sign_and_size = 5, bigint_digits = [5]\<rparr>"

definition bigint_neg_3 :: ecma_extended_primitive_t where
  "bigint_neg_3 = \<lparr>bigint_sign_and_size = 5, bigint_digits = [3]\<rparr>"

definition heap_unbounded :: jmem_heap_t where
  "heap_unbounded = (\<lambda>n. True)"

definition heap_exhausted :: jmem_heap_t where
  "heap_exhausted = (\<lambda>n. False)"


text \<open>The magnitude \<open>2 ^ 32\<close>, which takes two digits.\<close>

definition bigint_2_pow_32 :: ecma_extended_primitive_t where
  "bigint_2_pow_32 = \<lparr>bigint_sign_and_size = 8, bigint_digits = [0, 1]\<rparr>"

text \<open>
  The table of section 4.13 of the specification, in its words: for each signed operator
  and each combination of operand signs (\<open>True\<close> is negative), with \<open>x\<close> and \<open>y\<close> the
  magnitudes of the operands, the sign and the magnitude of the result.
\<close>

datatype bitwise_operator = BITWISE_AND | BITWISE_OR | BITWISE_XOR

definition and_not :: "nat \<Rightarrow> nat \<Rightarrow> nat" where
  "and_not a b = nat (int a AND NOT (int b))"

fun twos_complement_table :: "bitwise_operator \<Rightarrow> bool \<Rightarrow> bool \<Rightarrow> nat \<Rightarrow> nat \<Rightarrow> bool \<times> nat" where
  "twos_complement_table BITWISE_AND False False x y = (False, x AND y)"
| "twos_complement_table BITWISE_AND False True x y = (False, and_not x (y - 1))"
| "twos_complement_table BITWISE_AND True False x y = (False, and_not y (x - 1))"
| "twos_complement_table BITWISE_AND True True x y = (True, ((x - 1) OR (y - 1)) + 1)"
| "twos_complement_table BITWISE_OR False False x y = (False, x OR y)"
| "twos_complement_table BITWISE_OR False True x y = (True, and_not (y - 1) x + 1)"
| "twos_complement_table BITWISE_OR True False x y = (True, and_not (x - 1) y + 1)"
| "twos_complement_table BITWISE_OR True True x y = (True, ((x - 1) AND (y - 1)) + 1)"
| "twos_complement_table BITWISE_XOR False False x y = (False, x XOR y)"
| "twos_complement_table BITWISE_XOR False True x y = (True, (x XOR (y - 1)) + 1)"
| "twos_complement_table BITWISE_XOR True False x y = (True, ((x - 1) XOR y) + 1)"
| "twos_complement_table BITWISE_XOR True True x y = (False, (x - 1) XOR (y - 1))"

text \<open>
  \<open>bigint_or_zero_result heap (negative, n) res\<close>: the zero sentinel for \<open>n = 0\<close>, else as
  \<open>bigint_result\<close>.
\<close>

definition bigint_or_zero_result :: "jmem_heap_t \<Rightarrow> bool \<times> nat \<Rightarrow> ecma_value_t option \<Rightarrow> bool" where
  "bigint_or_zero_result heap expected res =
     (if snd expected = 0 then res = Some ECMA_BIGINT_ZERO
      else bigint_result heap (fst expected) (snd expected) res)"

text \<open>Doubles as bit patterns, and BigInt records to compare them with: 10.5, 9.5 and
  \<open>2 ^ 85\<close>; 10 and \<open>2 ^ 85 + 5\<close>.\<close>

definition bigint_10 :: ecma_extended_primitive_t where
  "bigint_10 = \<lparr>bigint_sign_and_size = 4, bigint_digits = [10]\<rparr>"

definition number_10_5 :: ecma_number_t where
  "number_10_5 = 0x4025000000000000"

definition number_9_5 :: ecma_number_t where
  "number_9_5 = 0x4023000000000000"

definition number_2_pow_85 :: ecma_number_t where
  "number_2_pow_85 = 0x4540000000000000"

definition bigint_2_pow_85_plus_5 :: ecma_extended_primitive_t where
  "bigint_2_pow_85_plus_5 = \<lparr>bigint_sign_and_size = 12, bigint_digits = [5, 0, 0x200000]\<rparr>"

text \<open>What every caller of the decoder relies on: three digits in the array, at most
  three of them counted, and the asserted non-zero top digit.\<close>

definition decoded_ok :: "32 word \<times> ecma_bigint_digit_t list \<Rightarrow> bool" where
  "decoded_ok rd =
     (length (snd rd) = 3
      \<and> unat (ECMA_BIGINT_NUMBER_TO_DIGITS_GET_DIGITS (fst rd)) \<le> 3
      \<and> number_to_digits_assert (fst rd) (snd rd))"

text \<open>
  The real number that a finite double stands for (IEEE 754 binary64): the fraction
  scaled by \<open>2 ^ -1074\<close> for a biased exponent of 0 (zero and the denormals), the
  fraction with its implicit leading bit scaled by \<open>2 ^ (biased_exp - 1075)\<close> otherwise.
  A double has a non-zero fractional part when this value is not an integer.
\<close>

definition number_value :: "ecma_number_t \<Rightarrow> real" where
  "number_value number =
     (case ecma_number_unpack number of
        (s, biased_exp, fraction) \<Rightarrow>
          (if s then - 1 else 1)
          * (if biased_exp = 0 then real (unat fraction) / 2 ^ 1074
             else real (2 ^ 52 + unat fraction) * 2 ^ unat biased_exp / 2 ^ 1075))"

text \<open>The smallest denormal, \<open>2 ^ -1074\<close> (about 4.9e-324).\<close>

definition number_min_denormal :: ecma_number_t where
  "number_min_denormal = 0x0000000000000001"




text \<open>
  The zero invariant. \<open>result_wf res\<close>: the operation has returned, and a record it
  returns is well formed. \<open>no_zero_record res\<close>: the operation has returned, and a
  record it returns is well formed and of a magnitude above 0.
\<close>

definition result_wf :: "ecma_value_t option \<Rightarrow> bool" where
  "result_wf res = (case res of Some v \<Rightarrow> value_wf v | None \<Rightarrow> False)"

definition no_zero_record :: "ecma_value_t option \<Rightarrow> bool" where
  "no_zero_record res =
     (case res of
        None \<Rightarrow> False
      | Some v \<Rightarrow> (case v of ECMA_BIGINT_PTR p \<Rightarrow> bigint_wf p \<and> 0 < magnitude p | _ \<Rightarrow> True))"

text \<open>The bitwise operators on the integers, and the integer of a sign and a magnitude.\<close>

definition bitwise_int :: "bitwise_operator \<Rightarrow> int \<Rightarrow> int \<Rightarrow> int" where
  "bitwise_int operator a b =
     (case operator of BITWISE_AND \<Rightarrow> a AND b | BITWISE_OR \<Rightarrow> a OR b | BITWISE_XOR \<Rightarrow> a XOR b)"

definition signed_magnitude :: "bool \<times> nat \<Rightarrow> int" where
  "signed_magnitude sn = (if fst sn then - int (snd sn) else int (snd sn))"

section \<open>Properties\<close>

subsection \<open>Magnitudes, sizes and signs\<close>

lemma big_uint_digits_0 [simp]: "big_uint_digits 0 = []"
  by (simp add: big_uint_digits.simps)

lemma big_uint_digits_pos:
  "0 < n \<Longrightarrow> big_uint_digits n = word_of_nat (n mod 2 ^ 32) # big_uint_digits (n div 2 ^ 32)"
  by (subst big_uint_digits.simps) simp

lemma unat_digit_of_nat: "m < 2 ^ 32 \<Longrightarrow> unat (word_of_nat m :: 32 word) = m"
  by (simp add: unat_of_nat)

lemma big_uint_value_digits [simp]: "big_uint_value (big_uint_digits n) = n"
proof (induction n rule: big_uint_digits.induct)
  case (1 n)
  show ?case
  proof (cases "n = 0")
    case True
    then show ?thesis by simp
  next
    case False
    have u: "unat (word_of_nat (n mod 2 ^ 32) :: 32 word) = n mod 2 ^ 32"
      by (rule unat_digit_of_nat) simp
    have "big_uint_value (big_uint_digits n)
          = unat (word_of_nat (n mod 2 ^ 32) :: 32 word) + 2 ^ 32 * big_uint_value (big_uint_digits (n div 2 ^ 32))"
      using False by (subst big_uint_digits_pos) simp_all
    also have "\<dots> = n mod 2 ^ 32 + 2 ^ 32 * (n div 2 ^ 32)"
      using False 1 u by presburger
    also have "\<dots> = n" by simp
    finally show ?thesis .
  qed
qed

lemma big_uint_digits_nonempty: "0 < n \<Longrightarrow> big_uint_digits n \<noteq> []"
  by (simp add: big_uint_digits_pos)

lemma big_uint_digits_last: "0 < n \<Longrightarrow> last (big_uint_digits n) \<noteq> 0"
proof (induction n rule: big_uint_digits.induct)
  case (1 n)
  show ?case
  proof (cases "n div 2 ^ 32 = 0")
    case True
    with 1(2) have lt: "n < 2 ^ 32" by (simp add: div_eq_0_iff)
    have "unat (word_of_nat n :: 32 word) = n"
      using lt by (rule unat_digit_of_nat)
    with 1(2) have "(word_of_nat n :: 32 word) \<noteq> 0" by auto
    moreover have "big_uint_digits n = [word_of_nat n]"
      using True 1(2) lt by (subst big_uint_digits_pos) simp_all
    ultimately show ?thesis by simp
  next
    case False
    then have "big_uint_digits (n div 2 ^ 32) \<noteq> []" "last (big_uint_digits (n div 2 ^ 32)) \<noteq> 0"
      using 1 by (simp_all add: big_uint_digits_nonempty)
    moreover have "big_uint_digits n = word_of_nat (n mod 2 ^ 32) # big_uint_digits (n div 2 ^ 32)"
      using 1(2) by (rule big_uint_digits_pos)
    ultimately show ?thesis by simp
  qed
qed

lemma big_uint_value_pos: "ds \<noteq> [] \<Longrightarrow> last ds \<noteq> 0 \<Longrightarrow> 0 < big_uint_value ds"
proof (induction ds)
  case Nil
  then show ?case by simp
next
  case (Cons d ds)
  then show ?case by (cases "ds = []") (auto simp: unat_gt_0)
qed

lemma three_mask: "(3 :: 32 word) = mask 2"
  by (simp add: mask_eq_exp_minus_1)


lemma word_of_nat_mask_size:
  assumes "4 dvd m"
  shows "(word_of_nat m :: 32 word) AND NOT 3 = word_of_nat m"
proof -
  from assms obtain k where m: "m = 4 * k" by (auto elim: dvdE)
  have e: "(word_of_nat m :: 32 word) = push_bit 2 (word_of_nat k)"
    unfolding m by (simp add: push_bit_eq_mult)
  show ?thesis
    unfolding e three_mask by (rule bit_word_eqI) (auto simp: bit_simps)
qed

lemma word_of_nat_sign_clear:
  assumes "4 dvd m"
  shows "(word_of_nat m :: 32 word) AND 1 = 0"
proof -
  from assms obtain k where m: "m = 4 * k" by (auto elim: dvdE)
  have e: "(word_of_nat m :: 32 word) = push_bit 2 (word_of_nat k)"
    unfolding m by (simp add: push_bit_eq_mult)
  show ?thesis
    unfolding e by (rule bit_word_eqI) (auto simp: bit_simps)
qed

lemma sign_cases: "(x :: 32 word) AND ECMA_BIGINT_SIGN = 0 \<or> x AND ECMA_BIGINT_SIGN = 1"
  by (simp add: ECMA_BIGINT_SIGN_def and_one_eq mod_2_eq_odd)

lemma get_size_bits:
  "bit (ECMA_BIGINT_GET_SIZE p) n = (2 \<le> n \<and> bit (bigint_sign_and_size p) n)"
  unfolding ECMA_BIGINT_GET_SIZE_def three_mask by (auto simp: bit_simps dest: bit_imp_le_length)

lemma get_size_or_sign:
  "ECMA_BIGINT_GET_SIZE (p\<lparr>bigint_sign_and_size := bigint_sign_and_size p OR 1\<rparr>) = ECMA_BIGINT_GET_SIZE p"
  by (rule bit_word_eqI) (auto simp: get_size_bits bit_simps)

lemma get_size_xor_sign:
  "ECMA_BIGINT_GET_SIZE (q\<lparr>bigint_sign_and_size := bigint_sign_and_size p XOR 1\<rparr>) = ECMA_BIGINT_GET_SIZE p"
  by (rule bit_word_eqI) (auto simp: get_size_bits bit_simps)

lemma or_one_and_one: "((w :: 32 word) OR 1) AND 1 = 1"
  by (rule bit_word_eqI) (auto simp: bit_simps)

lemma sign_bit_even: "((w :: 32 word) AND ECMA_BIGINT_SIGN = 0) = even w"
  by (simp add: ECMA_BIGINT_SIGN_def and_one_eq mod_2_eq_odd)

lemma sign_bit_value: "(w :: 32 word) AND ECMA_BIGINT_SIGN = (if even w then 0 else 1)"
  by (simp add: ECMA_BIGINT_SIGN_def and_one_eq mod_2_eq_odd)

lemma is_negative_odd: "is_negative p = odd (bigint_sign_and_size p)"
  by (simp add: is_negative_def sign_bit_even)

lemma get_size_set_sign:
  "s = 0 \<or> s = 1 \<Longrightarrow>
   ECMA_BIGINT_GET_SIZE (p\<lparr>bigint_sign_and_size := bigint_sign_and_size p OR s\<rparr>) = ECMA_BIGINT_GET_SIZE p"
  using get_size_or_sign[of p] by (auto simp: ECMA_BIGINT_GET_SIZE_def)

lemma big_uint_alloc_Some:
  assumes "big_uint_alloc heap ds = Some p"
  shows "bigint_digits p = ds"
    and "unat (ECMA_BIGINT_GET_SIZE p) = sizeof_digit * length ds"
    and "bigint_sign_and_size p AND ECMA_BIGINT_SIGN = 0"
    and "heap (sizeof_digit * length ds)"
proof -
  from assms have lt: "sizeof_digit * length ds < 2 ^ 32" and h: "heap (sizeof_digit * length ds)"
    and p: "p = \<lparr>bigint_sign_and_size = word_of_nat (sizeof_digit * length ds), bigint_digits = ds\<rparr>"
    by (auto simp: big_uint_alloc_def split: if_splits)
  have d: "4 dvd sizeof_digit * length ds" by (simp add: sizeof_digit_def)
  show "bigint_digits p = ds" by (simp add: p)
  show "heap (sizeof_digit * length ds)" by (rule h)
  show "unat (ECMA_BIGINT_GET_SIZE p) = sizeof_digit * length ds"
    unfolding ECMA_BIGINT_GET_SIZE_def p
    by (simp only: ecma_extended_primitive_t.simps word_of_nat_mask_size[OF d] unat_digit_of_nat[OF lt])
  show "bigint_sign_and_size p AND ECMA_BIGINT_SIGN = 0"
    unfolding ECMA_BIGINT_SIGN_def p
    by (simp only: ecma_extended_primitive_t.simps word_of_nat_sign_clear[OF d])
qed

lemma bigint_wf_magnitude_pos: "bigint_wf p \<Longrightarrow> 0 < magnitude p"
  by (simp add: bigint_wf_def magnitude_def big_uint_value_pos)

lemma big_uint_alloc_digits_wf:
  assumes "big_uint_alloc heap (big_uint_digits n) = Some p" and "0 < n"
  shows "bigint_wf p" and "magnitude p = n"
  using big_uint_alloc_Some[OF assms(1)] assms(2)
  by (simp_all add: bigint_wf_def magnitude_def big_uint_digits_nonempty big_uint_digits_last)

lemma set_sign_wf:
  assumes "bigint_wf p" and "s = 0 \<or> s = 1"
  shows "bigint_wf (p\<lparr>bigint_sign_and_size := bigint_sign_and_size p OR s\<rparr>)"
  using assms by (simp add: bigint_wf_def get_size_set_sign)

lemma set_sign_magnitude [simp]:
  "magnitude (p\<lparr>bigint_sign_and_size := w\<rparr>) = magnitude p"
  by (simp add: magnitude_def)

lemma set_sign_is_negative:
  assumes "bigint_sign_and_size p AND ECMA_BIGINT_SIGN = 0" and "s = 0 \<or> s = 1"
  shows "is_negative (p\<lparr>bigint_sign_and_size := bigint_sign_and_size p OR s\<rparr>) = (s = 1)"
  using assms by (auto simp: is_negative_def ECMA_BIGINT_SIGN_def or_one_and_one)

lemma memory_error_simps [simp]:
  "ecma_bigint_raise_memory_error \<noteq> ECMA_BIGINT_ZERO"
  "ecma_bigint_raise_memory_error \<noteq> ECMA_BIGINT_PTR p"
  "ecma_bigint_raise_memory_error \<noteq> ECMA_VALUE_FALSE"
  "ecma_bigint_raise_memory_error \<noteq> ECMA_VALUE_NULL"
  by (simp_all add: ecma_bigint_raise_memory_error_def ecma_raise_range_error_def)

lemma bigint_result_alloc:
  assumes "0 < n" and "s = 0 \<or> s = 1"
  shows "bigint_result heap (s = 1) n
           (case big_uint_alloc heap (big_uint_digits n) of
              None \<Rightarrow> Some ecma_bigint_raise_memory_error
            | Some result_p \<Rightarrow>
                Some (ecma_make_extended_primitive_value
                        (result_p\<lparr>bigint_sign_and_size := bigint_sign_and_size result_p OR s\<rparr>)))"
proof (cases "big_uint_alloc heap (big_uint_digits n)")
  case None
  then show ?thesis
    by (simp add: bigint_result_def ecma_bigint_raise_memory_error_def ecma_raise_range_error_def)
next
  case (Some p)
  note wf = big_uint_alloc_digits_wf[OF Some assms(1)]
  note al = big_uint_alloc_Some[OF Some]
  show ?thesis
    using Some wf al(3) assms(2)
    by (simp add: bigint_result_def ecma_make_extended_primitive_value_def set_sign_wf set_sign_is_negative)
qed

lemma get_prim [simp]:
  "ecma_get_extended_primitive_from_value (ECMA_BIGINT_PTR p) = Some p"
  "ecma_is_value_bigint (ECMA_BIGINT_PTR p)"
  "ecma_is_value_bigint ECMA_BIGINT_ZERO"
  "ecma_get_extended_primitive_from_value ECMA_BIGINT_ZERO = None"
  by (simp_all add: ecma_get_extended_primitive_from_value_def ecma_is_value_bigint_def)

lemma compare_simps:
  "(ecma_big_uint_compare l r = 0) = (magnitude l = magnitude r)"
  "(ecma_big_uint_compare l r > 0) = (magnitude l > magnitude r)"
  "(ecma_big_uint_compare l r < 0) = (magnitude l < magnitude r)"
  by (auto simp: ecma_big_uint_compare_def)

lemma bigint_value_cases:
  "ecma_is_value_bigint v \<Longrightarrow> v = ECMA_BIGINT_ZERO \<or> (\<exists>p. v = ECMA_BIGINT_PTR p)"
  by (cases v) (simp_all add: ecma_is_value_bigint_def)

lemma bigint_wf_size:
  assumes "bigint_wf p"
  shows "0 < ECMA_BIGINT_GET_SIZE p"
    and "unat (ECMA_BIGINT_GET_SIZE p) div sizeof_digit = length (bigint_digits p)"
    and "ECMA_BIGINT_GET_LAST_DIGIT p (unat (ECMA_BIGINT_GET_SIZE p)) = last (bigint_digits p)"
proof -
  from assms have ne: "bigint_digits p \<noteq> []"
    and sz: "unat (ECMA_BIGINT_GET_SIZE p) = sizeof_digit * length (bigint_digits p)"
    by (simp_all add: bigint_wf_def)
  from ne sz have "0 < unat (ECMA_BIGINT_GET_SIZE p)" by (simp add: sizeof_digit_def)
  then show "0 < ECMA_BIGINT_GET_SIZE p" by (simp add: word_greater_zero_iff unat_gt_0)
  show d: "unat (ECMA_BIGINT_GET_SIZE p) div sizeof_digit = length (bigint_digits p)"
    by (simp add: sz sizeof_digit_def)
  show "ECMA_BIGINT_GET_LAST_DIGIT p (unat (ECMA_BIGINT_GET_SIZE p)) = last (bigint_digits p)"
    using ne by (simp add: ECMA_BIGINT_GET_LAST_DIGIT_def d last_conv_nth)
qed

lemma negate_defined: "bigint_wf p \<Longrightarrow> \<exists>y. ecma_bigint_negate heap p = Some y"
  using bigint_wf_size[of p]
  by (auto simp: ecma_bigint_negate_def Let_def bigint_wf_def split: option.splits)

lemma add_sub_defined:
  assumes "ecma_is_value_bigint l" "ecma_is_value_bigint r" "value_wf l" "value_wf r"
  shows "ecma_bigint_add_sub heap l r is_add \<noteq> None"
  using assms bigint_value_cases[of l] bigint_value_cases[of r]
  by (auto simp: ecma_bigint_add_sub_def value_wf_def Let_def negate_defined
      split: option.splits prod.splits)

lemma mul_defined:
  assumes "ecma_is_value_bigint l" "ecma_is_value_bigint r" "value_wf l" "value_wf r"
  shows "ecma_bigint_mul heap l r \<noteq> None"
  using assms bigint_value_cases[of l] bigint_value_cases[of r]
  by (auto simp: ecma_bigint_mul_def value_wf_def Let_def negate_defined
      split: option.splits prod.splits)

lemma div_mod_defined:
  assumes "ecma_is_value_bigint l" "ecma_is_value_bigint r"
  shows "ecma_bigint_div_mod heap l r is_mod \<noteq> None"
  using assms bigint_value_cases[of l] bigint_value_cases[of r]
  by (auto simp: ecma_bigint_div_mod_def Let_def
      split: option.splits prod.splits big_uint_result.splits)

lemma shift_defined:
  assumes "ecma_is_value_bigint l" "ecma_is_value_bigint r"
  shows "ecma_bigint_shift heap l r is_left \<noteq> None"
  using assms bigint_value_cases[of l] bigint_value_cases[of r]
  by (auto simp: ecma_bigint_shift_def Let_def
      split: option.splits prod.splits big_uint_result.splits)

lemma is_equal_to_bigint_defined:
  assumes "ecma_is_value_bigint l" "ecma_is_value_bigint r"
  shows "ecma_bigint_is_equal_to_bigint l r \<noteq> None"
  using assms bigint_value_cases[of l] bigint_value_cases[of r]
  by (auto simp: ecma_bigint_is_equal_to_bigint_def Let_def)

lemma bitwise_defined:
  assumes "ecma_is_value_bigint l" "ecma_is_value_bigint r"
  shows "ecma_bigint_and heap l r \<noteq> None" "ecma_bigint_or heap l r \<noteq> None" "ecma_bigint_xor heap l r \<noteq> None"
  using assms bigint_value_cases[of l] bigint_value_cases[of r]
  by (auto simp: ecma_bigint_and_def ecma_bigint_or_def ecma_bigint_xor_def)


lemma concrete_wf:
  "bigint_wf bigint_5" "bigint_wf bigint_3" "bigint_wf bigint_neg_5" "bigint_wf bigint_neg_3"
  by (simp_all add: bigint_wf_def bigint_5_def bigint_3_def bigint_neg_5_def bigint_neg_3_def
      ECMA_BIGINT_GET_SIZE_def sizeof_digit_def)

lemma concrete_magnitude:
  "magnitude bigint_5 = 5" "magnitude bigint_3 = 3" "magnitude bigint_neg_5 = 5" "magnitude bigint_neg_3 = 3"
  by (simp_all add: magnitude_def bigint_5_def bigint_3_def bigint_neg_5_def bigint_neg_3_def)

lemma concrete_sign:
  "bigint_sign_and_size bigint_5 AND ECMA_BIGINT_SIGN = 0"
  "bigint_sign_and_size bigint_3 AND ECMA_BIGINT_SIGN = 0"
  "bigint_sign_and_size bigint_neg_5 AND ECMA_BIGINT_SIGN = 1"
  "bigint_sign_and_size bigint_neg_3 AND ECMA_BIGINT_SIGN = 1"
  by (simp_all add: ECMA_BIGINT_SIGN_def bigint_5_def bigint_3_def bigint_neg_5_def bigint_neg_3_def)

lemma concrete_negative:
  "\<not> is_negative bigint_5" "\<not> is_negative bigint_3" "is_negative bigint_neg_5" "is_negative bigint_neg_3"
  by (simp_all add: is_negative_def concrete_sign)

subsection \<open>Ordering of two BigInt values\<close>

text \<open>
  C1. The claim: for two non-zero BigInt values, \<open>compare_to_bigint\<close> returns +1 or -1
  after the left operand's sign when the signs differ, and the kernel's magnitude
  comparison when they agree, flipped when both are negative. The code does not flip:
  for -5 and -3 it returns the kernel's answer for 5 and 3, which is +1, although
  -5 is less than -3 and the function is documented to return -1 then.
\<close>

theorem compare_to_bigint_two_negatives_not_flipped:
  "ecma_bigint_compare_to_bigint (ECMA_BIGINT_PTR bigint_neg_5) (ECMA_BIGINT_PTR bigint_neg_3) = Some 1
   \<and> bigint_to_int (ECMA_BIGINT_PTR bigint_neg_5) < bigint_to_int (ECMA_BIGINT_PTR bigint_neg_3)"
  by (simp add: ecma_bigint_compare_to_bigint_def ecma_big_uint_compare_def concrete_sign
      concrete_magnitude concrete_negative bigint_to_int_def)

subsection \<open>Add and subtract\<close>

text \<open>
  C4. For two non-zero operands of \<open>add_sub\<close>: when the exclusive or of the sign bits
  is 0 for an addition (the sign mask for a subtraction), the result has magnitude
  \<open>|left| + |right|\<close> and the sign of the left operand; otherwise equal magnitudes give
  the zero sentinel, \<open>|left| > |right|\<close> gives \<open>|left| - |right|\<close> with the left sign and
  \<open>|left| < |right|\<close> gives \<open>|right| - |left|\<close> with the right sign for an addition and
  the opposite sign for a subtraction.
\<close>

theorem add_sub_signs_and_magnitudes:
  assumes "bigint_wf l" and "bigint_wf r"
  shows "let res = ecma_bigint_add_sub heap (ECMA_BIGINT_PTR l) (ECMA_BIGINT_PTR r) is_add
         in if (bigint_sign_and_size l XOR bigint_sign_and_size r) AND ECMA_BIGINT_SIGN
               = (if is_add then 0 else ECMA_BIGINT_SIGN)
            then bigint_result heap (is_negative l) (magnitude l + magnitude r) res
            else if magnitude l = magnitude r then res = Some ECMA_BIGINT_ZERO
            else if magnitude l > magnitude r
            then bigint_result heap (is_negative l) (magnitude l - magnitude r) res
            else bigint_result heap (if is_add then is_negative r else \<not> is_negative r)
                   (magnitude r - magnitude l) res"
proof -
  have pl: "0 < magnitude l" and pr: "0 < magnitude r"
    using assms by (simp_all add: bigint_wf_magnitude_pos)
  let ?sl = "bigint_sign_and_size l AND ECMA_BIGINT_SIGN"
  let ?sr = "bigint_sign_and_size r AND ECMA_BIGINT_SIGN"
  have sl: "?sl = 0 \<or> ?sl = 1" and sr: "?sr = 0 \<or> ?sr = 1" by (rule sign_cases)+
  have nl: "is_negative l = (?sl = 1)" and nr: "is_negative r = (?sr = 1)"
    using sl sr by (auto simp: is_negative_def)
  have srx: "?sr XOR ECMA_BIGINT_SIGN = 0 \<or> ?sr XOR ECMA_BIGINT_SIGN = 1"
    using sr by (auto simp: ECMA_BIGINT_SIGN_def)
  have nrx: "(\<not> is_negative r) = (?sr XOR ECMA_BIGINT_SIGN = 1)"
    using sr by (auto simp: is_negative_def ECMA_BIGINT_SIGN_def)
  show ?thesis
  proof (cases "(bigint_sign_and_size l XOR bigint_sign_and_size r) AND ECMA_BIGINT_SIGN
               = (if is_add then 0 else ECMA_BIGINT_SIGN)")
    case True
    have "0 < magnitude l + magnitude r" using pl by simp
    from bigint_result_alloc[OF this sl, of heap] True show ?thesis
      by (simp add: ecma_bigint_add_sub_def ecma_big_uint_add_def nl Let_def)
  next
    case False
    show ?thesis
    proof (cases "magnitude l = magnitude r")
      case True
      with False show ?thesis
        by (simp add: ecma_bigint_add_sub_def Let_def compare_simps)
    next
      case ne: False
      show ?thesis
      proof (cases "magnitude l > magnitude r")
        case True
        then have "0 < magnitude l - magnitude r" by simp
        from bigint_result_alloc[OF this sl, of heap] True False ne show ?thesis
          by (simp add: ecma_bigint_add_sub_def ecma_big_uint_sub_def nl Let_def compare_simps)
      next
        case lt: False
        with ne have p: "0 < magnitude r - magnitude l" by simp
        show ?thesis
        proof (cases is_add)
          case True
          from bigint_result_alloc[OF p sr, of heap] True False ne lt show ?thesis
            by (simp add: ecma_bigint_add_sub_def ecma_big_uint_sub_def nr Let_def compare_simps)
        next
          case na: False
          from bigint_result_alloc[OF p srx, of heap] na False ne lt show ?thesis
            by (simp add: ecma_bigint_add_sub_def ecma_big_uint_sub_def nrx Let_def compare_simps)
        qed
      qed
    qed
  qed
qed


theorem add_sub_signs_and_magnitudes_witness:
  "bigint_wf bigint_5 \<and> bigint_wf bigint_neg_3
   \<and> bigint_result heap_unbounded False 2
        (ecma_bigint_add_sub heap_unbounded (ECMA_BIGINT_PTR bigint_5) (ECMA_BIGINT_PTR bigint_neg_3) True)"
  using add_sub_signs_and_magnitudes [OF concrete_wf(1) concrete_wf(4), of heap_unbounded True]
  by (simp add: bigint_5_def bigint_neg_3_def magnitude_def is_negative_def ECMA_BIGINT_SIGN_def
      bigint_wf_def ECMA_BIGINT_GET_SIZE_def sizeof_digit_def Let_def)

subsection \<open>The zero sentinel as an operand\<close>

text \<open>
  C10. \<open>compare_to_bigint\<close> has no branch for the zero sentinel: it takes both operands
  for heap records at once, so it has a result exactly when neither operand is the zero
  sentinel. \<open>is_equal_to_bigint\<close> and every other binary operation have a result for
  all BigInt operands, the zero sentinel included.
\<close>

theorem compare_to_bigint_defined_iff_no_zero:
  assumes "ecma_is_value_bigint l" and "ecma_is_value_bigint r" and "value_wf l" and "value_wf r"
  shows "((ecma_bigint_compare_to_bigint l r \<noteq> None) = (l \<noteq> ECMA_BIGINT_ZERO \<and> r \<noteq> ECMA_BIGINT_ZERO))
       \<and> ecma_bigint_is_equal_to_bigint l r \<noteq> None
       \<and> ecma_bigint_add_sub heap l r is_add \<noteq> None
       \<and> ecma_bigint_mul heap l r \<noteq> None
       \<and> ecma_bigint_div_mod heap l r is_mod \<noteq> None
       \<and> ecma_bigint_shift heap l r is_left \<noteq> None
       \<and> ecma_bigint_and heap l r \<noteq> None
       \<and> ecma_bigint_or heap l r \<noteq> None
       \<and> ecma_bigint_xor heap l r \<noteq> None"
proof -
  have "(ecma_bigint_compare_to_bigint l r \<noteq> None) = (l \<noteq> ECMA_BIGINT_ZERO \<and> r \<noteq> ECMA_BIGINT_ZERO)"
    using assms(1,2) bigint_value_cases[of l] bigint_value_cases[of r]
    by (auto simp: ecma_bigint_compare_to_bigint_def Let_def)
  then show ?thesis
    using assms add_sub_defined mul_defined div_mod_defined shift_defined
      is_equal_to_bigint_defined bitwise_defined
    by simp
qed


theorem compare_to_bigint_defined_iff_no_zero_witness:
  "ecma_is_value_bigint (ECMA_BIGINT_PTR bigint_5) \<and> ecma_is_value_bigint ECMA_BIGINT_ZERO
   \<and> value_wf (ECMA_BIGINT_PTR bigint_5) \<and> value_wf ECMA_BIGINT_ZERO
   \<and> ecma_bigint_compare_to_bigint (ECMA_BIGINT_PTR bigint_5) ECMA_BIGINT_ZERO = None
   \<and> ecma_bigint_add_sub heap_unbounded (ECMA_BIGINT_PTR bigint_5) ECMA_BIGINT_ZERO True \<noteq> None"
  using compare_to_bigint_defined_iff_no_zero [of "ECMA_BIGINT_PTR bigint_5" ECMA_BIGINT_ZERO heap_unbounded True]
  by (simp add: value_wf_def concrete_wf)

subsection \<open>Divide and modulo\<close>

lemma big_uint_digits_1: "big_uint_digits 1 = [1]" "big_uint_digits (Suc 0) = [1]"
  by (subst big_uint_digits.simps, simp)+

lemma big_uint_alloc_length:
  "length ds = length ds' \<Longrightarrow> (big_uint_alloc heap ds = None) = (big_uint_alloc heap ds' = None)"
  by (simp add: big_uint_alloc_def)

lemma sign_xor_negative:
  "((bigint_sign_and_size l XOR bigint_sign_and_size r) AND ECMA_BIGINT_SIGN = 1)
   = (is_negative l \<noteq> is_negative r)"
  by (auto simp: is_negative_odd sign_bit_value even_xor_iff)

lemma sign_negative: "(bigint_sign_and_size l AND ECMA_BIGINT_SIGN = 1) = is_negative l"
  by (simp add: is_negative_odd sign_bit_value)

lemma div_mod_zero_right:
  "ecma_is_value_bigint left_value \<Longrightarrow>
   ecma_bigint_div_mod heap left_value ECMA_BIGINT_ZERO is_mod = Some (ecma_raise_range_error ''BigInt division by zero'')"
  by (simp add: ecma_bigint_div_mod_def)

lemma div_mod_zero_left:
  "ecma_bigint_div_mod heap ECMA_BIGINT_ZERO (ECMA_BIGINT_PTR r) is_mod = Some ECMA_BIGINT_ZERO"
  by (simp add: ecma_bigint_div_mod_def)

lemma div_mod_less:
  "magnitude l < magnitude r \<Longrightarrow>
   ecma_bigint_div_mod heap (ECMA_BIGINT_PTR l) (ECMA_BIGINT_PTR r) is_mod
     = Some (if is_mod then ECMA_BIGINT_PTR l else ECMA_BIGINT_ZERO)"
  by (simp add: ecma_bigint_div_mod_def compare_simps)

lemma bigint_result_make:
  assumes "s = 0 \<or> s = 1"
  shows "case big_uint_make heap n of
           BIG_UINT_POINTER_TO_ZERO \<Rightarrow> n = 0
         | BIG_UINT_NULL \<Rightarrow> 0 < n \<and> bigint_result heap (s = 1) n (Some ecma_bigint_raise_memory_error)
         | BIG_UINT_PTR result_p \<Rightarrow>
             0 < n \<and> bigint_result heap (s = 1) n
               (Some (ecma_make_extended_primitive_value
                  (result_p\<lparr>bigint_sign_and_size := bigint_sign_and_size result_p OR s\<rparr>)))"
proof (cases "n = 0")
  case True
  then show ?thesis by (simp add: big_uint_make_def)
next
  case False
  then have p: "0 < n" by simp
  from bigint_result_alloc[OF p assms, of heap] False show ?thesis
    by (simp add: big_uint_make_def split: option.splits)
qed

lemma div_mod_equal:
  assumes "magnitude l = magnitude r"
  shows "if is_mod
         then ecma_bigint_div_mod heap (ECMA_BIGINT_PTR l) (ECMA_BIGINT_PTR r) is_mod = Some ECMA_BIGINT_ZERO
         else bigint_result heap (is_negative l \<noteq> is_negative r) 1
                (ecma_bigint_div_mod heap (ECMA_BIGINT_PTR l) (ECMA_BIGINT_PTR r) is_mod)"
proof (cases is_mod)
  case True
  with assms show ?thesis by (simp add: ecma_bigint_div_mod_def compare_simps)
next
  case False
  let ?s = "(bigint_sign_and_size l XOR bigint_sign_and_size r) AND ECMA_BIGINT_SIGN"
  have s: "?s = 0 \<or> ?s = 1" by (rule sign_cases)
  have n: "(is_negative l \<noteq> is_negative r) = (?s = 1)"
    by (simp add: sign_xor_negative)
  have c: "ecma_bigint_create heap sizeof_digit = big_uint_alloc heap [0]"
    by (simp add: ecma_bigint_create_def sizeof_digit_def)
  show ?thesis
  proof (cases "big_uint_alloc heap [0]")
    case None
    then have "big_uint_alloc heap (big_uint_digits 1) = None"
      using big_uint_alloc_length[of "[0]" "[1]" heap] by (simp add: big_uint_digits_1)
    with None False assms show ?thesis
      by (simp add: ecma_bigint_div_mod_def compare_simps c bigint_result_def
          ecma_bigint_raise_memory_error_def ecma_raise_range_error_def)
  next
    case (Some q)
    from Some have a1: "big_uint_alloc heap (big_uint_digits 1) = Some (q\<lparr>bigint_digits := [1]\<rparr>)"
      by (auto simp: big_uint_digits_1 big_uint_alloc_def split: if_splits)
    from bigint_result_alloc[of 1 ?s heap] s a1
    have "bigint_result heap (?s = 1) 1
            (Some (ecma_make_extended_primitive_value
               (q\<lparr>bigint_digits := [1], bigint_sign_and_size := bigint_sign_and_size q OR ?s\<rparr>)))"
      by simp
    moreover from Some have "bigint_digits q = [0]" by (auto simp: big_uint_alloc_def split: if_splits)
    ultimately show ?thesis
      using Some False assms
      by (simp add: ecma_bigint_div_mod_def compare_simps c sign_xor_negative)
  qed
qed

lemma div_mod_greater:
  assumes "magnitude l > magnitude r"
  shows "let n = (if is_mod then magnitude l mod magnitude r else magnitude l div magnitude r);
             res = ecma_bigint_div_mod heap (ECMA_BIGINT_PTR l) (ECMA_BIGINT_PTR r) is_mod
         in if n = 0 then res = Some ECMA_BIGINT_ZERO
            else bigint_result heap (if is_mod then is_negative l else is_negative l \<noteq> is_negative r) n res"
proof -
  let ?n = "if is_mod then magnitude l mod magnitude r else magnitude l div magnitude r"
  let ?sl = "bigint_sign_and_size l AND ECMA_BIGINT_SIGN"
  let ?s = "(bigint_sign_and_size l XOR bigint_sign_and_size r) AND ECMA_BIGINT_SIGN"
  have s: "?s = 0 \<or> ?s = 1" and sl: "?sl = 0 \<or> ?sl = 1" by (rule sign_cases)+
  have n: "(is_negative l \<noteq> is_negative r) = (?s = 1)" "is_negative l = (?sl = 1)"
    by (simp_all add: sign_xor_negative sign_negative)
  show ?thesis
  proof (cases is_mod)
    case True
    from bigint_result_make[OF sl, where heap=heap and n="?n"] True assms show ?thesis
      by (auto simp: ecma_bigint_div_mod_def ecma_big_uint_div_mod_def compare_simps Let_def
          sign_xor_negative sign_negative split: big_uint_result.splits)
  next
    case False
    from bigint_result_make[OF s, where heap=heap and n="?n"] False assms show ?thesis
      by (auto simp: ecma_bigint_div_mod_def ecma_big_uint_div_mod_def compare_simps Let_def
          sign_xor_negative sign_negative split: big_uint_result.splits)
  qed
qed

lemmas bigint_eval =
  ecma_bigint_compare_to_bigint_def ecma_bigint_add_sub_def ecma_bigint_mul_def ecma_bigint_div_mod_def
  ecma_bigint_shift_def ecma_bigint_and_def ecma_bigint_or_def ecma_bigint_xor_def ecma_bigint_bitwise_op_def
  ecma_bigint_negate_def ecma_bigint_is_equal_to_bigint_def
  ecma_big_uint_compare_def ecma_big_uint_add_def ecma_big_uint_sub_def ecma_big_uint_mul_def
  ecma_big_uint_div_mod_def ecma_big_uint_shift_left_def ecma_big_uint_shift_right_def
  ecma_big_uint_bitwise_op_def big_uint_bitwise_value_def big_uint_make_def big_uint_alloc_def
  ecma_bigint_create_def big_uint_digits_pos magnitude_def is_negative_def bigint_wf_def value_wf_def
  ECMA_BIGINT_SIGN_def ECMA_BIGINT_GET_SIZE_def ECMA_BIGINT_GET_LAST_DIGIT_def sizeof_digit_def
  ecma_make_extended_primitive_value_def ecma_copy_value_def
  ecma_bigint_raise_memory_error_def ecma_raise_range_error_def
  ECMA_BIG_UINT_BITWISE_AND_def ECMA_BIG_UINT_BITWISE_OR_def ECMA_BIG_UINT_BITWISE_XOR_def
  ECMA_BIG_UINT_BITWISE_AND_NOT_def ECMA_BIG_UINT_BITWISE_DECREASE_LEFT_def
  ECMA_BIG_UINT_BITWISE_DECREASE_RIGHT_def ECMA_BIG_UINT_BITWISE_DECREASE_BOTH_def
  ECMA_BIG_UINT_BITWISE_INCREASE_RESULT_def
  bigint_5_def bigint_3_def bigint_neg_5_def bigint_neg_3_def heap_unbounded_def heap_exhausted_def
  bigint_result_def Let_def

lemma bigint_result_PTR:
  "bigint_result heap s n (Some (ECMA_BIGINT_PTR p)) \<Longrightarrow> bigint_wf p \<and> magnitude p = n \<and> is_negative p = s"
  by (simp add: bigint_result_def)

lemma bigint_result_cases:
  "bigint_result heap s n res \<Longrightarrow>
   res = Some ecma_bigint_raise_memory_error
   \<or> (\<exists>p. res = Some (ECMA_BIGINT_PTR p) \<and> bigint_wf p \<and> magnitude p = n \<and> is_negative p = s)"
  by (auto simp: bigint_result_def split: option.splits ecma_value_t.splits)

lemma division_error_distinct [simp]:
  "ecma_raise_range_error ''BigInt division by zero'' \<noteq> ecma_bigint_raise_memory_error"
  "ecma_raise_range_error ''BigInt division by zero'' \<noteq> ECMA_BIGINT_ZERO"
  "ecma_raise_range_error ''BigInt division by zero'' \<noteq> ECMA_BIGINT_PTR p"
  by (simp_all add: ecma_bigint_raise_memory_error_def ecma_raise_range_error_def)

lemma bigint_result_memory_error_iff:
  assumes "bigint_result heap s n res"
  shows "(res = Some ecma_bigint_raise_memory_error) = (big_uint_alloc heap (big_uint_digits n) = None)"
  using assms
  by (auto simp: bigint_result_def ecma_bigint_raise_memory_error_def ecma_raise_range_error_def
      split: option.splits ecma_value_t.splits)

lemma memory_error_not_zero:
  "ECMA_BIGINT_ZERO \<noteq> ecma_bigint_raise_memory_error"
  "ECMA_BIGINT_PTR p \<noteq> ecma_bigint_raise_memory_error"
  by (simp_all add: ecma_bigint_raise_memory_error_def ecma_raise_range_error_def)

text \<open>
  C5, as amended. \<open>div_mod\<close> raises the division-by-zero range error if and only if
  the right operand is the zero sentinel, which is checked before the left operand. For
  a non-zero right operand the only error is the memory error, a range error too, and
  it is raised exactly when the allocation of a non-zero result fails. Otherwise
  \<open>0 / x\<close> returns the zero left value, \<open>|left| < |right|\<close> gives quotient 0 and
  remainder left, \<open>|left| = |right|\<close> gives a quotient of magnitude 1 and remainder 0,
  \<open>|left| > |right|\<close> gives the quotient or the remainder of the magnitudes (the zero
  sentinel when that is 0), and wherever the result is a record, the sign of a
  quotient is the exclusive or of the operands' signs and the sign of a remainder is
  the left sign.
\<close>

theorem div_mod_errors_and_signs:
  assumes "ecma_is_value_bigint left_value" and "ecma_is_value_bigint right_value"
  shows "let res = ecma_bigint_div_mod heap left_value right_value is_mod
         in ((res = Some (ecma_raise_range_error ''BigInt division by zero''))
               = (right_value = ECMA_BIGINT_ZERO))
            \<and> (right_value \<noteq> ECMA_BIGINT_ZERO \<and> left_value = ECMA_BIGINT_ZERO \<longrightarrow> res = Some left_value)
            \<and> (\<forall>l r. left_value = ECMA_BIGINT_PTR l \<and> right_value = ECMA_BIGINT_PTR r \<longrightarrow>
                  (magnitude l < magnitude r \<longrightarrow>
                     res = Some (if is_mod then left_value else ECMA_BIGINT_ZERO))
                \<and> (magnitude l = magnitude r \<longrightarrow>
                     (if is_mod then res = Some ECMA_BIGINT_ZERO
                      else bigint_result heap (is_negative l \<noteq> is_negative r) 1 res))
                \<and> (magnitude r < magnitude l \<longrightarrow>
                     (let n = (if is_mod then magnitude l mod magnitude r
                               else magnitude l div magnitude r)
                      in if n = 0 then res = Some ECMA_BIGINT_ZERO
                         else bigint_result heap
                                (if is_mod then is_negative l else is_negative l \<noteq> is_negative r) n res))
                \<and> ((res = Some ecma_bigint_raise_memory_error)
                     = (magnitude l = magnitude r \<and> \<not> is_mod
                          \<and> big_uint_alloc heap (big_uint_digits 1) = None
                        \<or> magnitude r < magnitude l
                          \<and> (if is_mod then magnitude l mod magnitude r
                              else magnitude l div magnitude r) \<noteq> 0
                          \<and> big_uint_alloc heap
                               (big_uint_digits (if is_mod then magnitude l mod magnitude r
                                                 else magnitude l div magnitude r)) = None))
                \<and> (res = Some ecma_bigint_raise_memory_error
                      \<or> res = Some ECMA_BIGINT_ZERO
                      \<or> (\<exists>p. res = Some (ECMA_BIGINT_PTR p)
                             \<and> is_negative p = (if is_mod then is_negative l
                                                else is_negative l \<noteq> is_negative r))))"
proof -
  from assms(2) consider (zero) "right_value = ECMA_BIGINT_ZERO"
    | (ptr) r where "right_value = ECMA_BIGINT_PTR r"
    using bigint_value_cases by blast
  then show ?thesis
  proof cases
    case zero
    with assms(1) show ?thesis by (simp add: div_mod_zero_right)
  next
    case ptr
    from assms(1) consider (lzero) "left_value = ECMA_BIGINT_ZERO"
      | (lptr) l where "left_value = ECMA_BIGINT_PTR l"
      using bigint_value_cases by blast
    then show ?thesis
    proof cases
      case lzero
      with ptr show ?thesis by (simp add: div_mod_zero_left ecma_raise_range_error_def)
    next
      case lptr
      let ?res = "ecma_bigint_div_mod heap (ECMA_BIGINT_PTR l) (ECMA_BIGINT_PTR r) is_mod"
      let ?sign = "if is_mod then is_negative l else is_negative l \<noteq> is_negative r"
      let ?n = "if is_mod then magnitude l mod magnitude r else magnitude l div magnitude r"
      let ?mem = "magnitude l = magnitude r \<and> \<not> is_mod
                          \<and> big_uint_alloc heap (big_uint_digits 1) = None
                        \<or> magnitude r < magnitude l \<and> ?n \<noteq> 0
                          \<and> big_uint_alloc heap (big_uint_digits ?n) = None"
      have c1: "magnitude l < magnitude r \<longrightarrow>
                  ?res = Some (if is_mod then ECMA_BIGINT_PTR l else ECMA_BIGINT_ZERO)"
        by (simp add: div_mod_less)
      have c2: "magnitude l = magnitude r \<longrightarrow>
                  (if is_mod then ?res = Some ECMA_BIGINT_ZERO
                   else bigint_result heap (is_negative l \<noteq> is_negative r) 1 ?res)"
        using div_mod_equal[of l r is_mod heap] by blast
      have c3: "magnitude r < magnitude l \<longrightarrow>
                  (if ?n = 0 then ?res = Some ECMA_BIGINT_ZERO else bigint_result heap ?sign ?n ?res)"
        using div_mod_greater[of r l is_mod heap] by (simp add: Let_def)
      have tri: "magnitude l < magnitude r \<or> magnitude l = magnitude r \<or> magnitude r < magnitude l"
        by linarith
      then consider (lt) "magnitude l < magnitude r" | (eq) "magnitude l = magnitude r"
        | (gt) "magnitude r < magnitude l" by blast
      then have c4: "(?res = Some ecma_bigint_raise_memory_error) = ?mem"
      proof cases
        case lt
        with c1 show ?thesis by (simp add: memory_error_not_zero)
      next
        case eq
        show ?thesis
        proof (cases is_mod)
          case True
          with c2 eq show ?thesis by (simp add: memory_error_not_zero)
        next
          case False
          with c2 eq have b: "bigint_result heap (is_negative l \<noteq> is_negative r) 1 ?res" by simp
          from bigint_result_memory_error_iff[OF b] False eq show ?thesis by simp
        qed
      next
        case gt
        show ?thesis
        proof (cases "?n = 0")
          case True
          with c3 gt have "?res = Some ECMA_BIGINT_ZERO" by simp
          with True gt show ?thesis by (simp add: memory_error_not_zero)
        next
          case False
          with c3 gt have b: "bigint_result heap ?sign ?n ?res" by simp
          from bigint_result_memory_error_iff[OF b] False gt show ?thesis by simp
        qed
      qed
      from tri
      have c5: "?res = Some ecma_bigint_raise_memory_error
                      \<or> ?res = Some ECMA_BIGINT_ZERO
                      \<or> (\<exists>p. ?res = Some (ECMA_BIGINT_PTR p) \<and> is_negative p = ?sign)"
      proof (elim disjE)
        assume "magnitude l < magnitude r"
        with c1 show ?thesis by simp
      next
        assume "magnitude l = magnitude r"
        with c2 show ?thesis by (auto dest: bigint_result_cases split: if_splits)
      next
        assume "magnitude r < magnitude l"
        with c3 show ?thesis by (auto dest: bigint_result_cases split: if_splits)
      qed
      have c0: "?res \<noteq> Some (ecma_raise_range_error ''BigInt division by zero'')"
        using c5
        by (auto simp: ecma_raise_range_error_def ecma_bigint_raise_memory_error_def)
      have c3': "magnitude r < magnitude l \<longrightarrow>
                     (let n = ?n
                      in if n = 0 then ?res = Some ECMA_BIGINT_ZERO
                         else bigint_result heap ?sign n ?res)"
        using c3 by (simp add: Let_def)
      from c0 c1 c2 c3' c4 c5 show ?thesis
        unfolding lptr ptr Let_def by (cases is_mod) simp_all
    qed
  qed
qed

text \<open>
  C5 as stated fails: with equal non-zero operands and no memory left, the quotient
  cannot be allocated and the result is a range error although the right operand is not
  the zero sentinel.
\<close>

theorem div_mod_range_error_counterexample:
  "ecma_bigint_div_mod heap_exhausted (ECMA_BIGINT_PTR bigint_5) (ECMA_BIGINT_PTR bigint_5) False
     = Some (ECMA_VALUE_ERROR (RangeError ''Cannot allocate memory for a BigInt value''))
   \<and> ECMA_BIGINT_PTR bigint_5 \<noteq> ECMA_BIGINT_ZERO"
  by (simp add: ecma_bigint_div_mod_def compare_simps ecma_bigint_create_def big_uint_alloc_def
      heap_exhausted_def ecma_bigint_raise_memory_error_def ecma_raise_range_error_def)

theorem div_mod_errors_and_signs_witness:
  "ecma_is_value_bigint (ECMA_BIGINT_PTR bigint_neg_5) \<and> ecma_is_value_bigint (ECMA_BIGINT_PTR bigint_3)
   \<and> ecma_bigint_div_mod heap_unbounded (ECMA_BIGINT_PTR bigint_neg_5) (ECMA_BIGINT_PTR bigint_3) True
       \<noteq> Some (ecma_raise_range_error ''BigInt division by zero'')
   \<and> bigint_result heap_unbounded True 2
        (ecma_bigint_div_mod heap_unbounded (ECMA_BIGINT_PTR bigint_neg_5) (ECMA_BIGINT_PTR bigint_3) True)
   \<and> (\<exists>p. ecma_bigint_div_mod heap_unbounded (ECMA_BIGINT_PTR bigint_neg_5) (ECMA_BIGINT_PTR bigint_3) True
            = Some (ECMA_BIGINT_PTR p) \<and> is_negative p)"
proof -
  have m: "ecma_bigint_div_mod heap_unbounded (ECMA_BIGINT_PTR bigint_neg_5) (ECMA_BIGINT_PTR bigint_3) True
           = Some (ECMA_BIGINT_PTR \<lparr>bigint_sign_and_size = 5, bigint_digits = [2]\<rparr>)"
    by (simp add: bigint_eval)
  have v: "magnitude bigint_neg_5 = 5" "magnitude bigint_3 = 3" "is_negative bigint_neg_5"
    by (simp_all add: concrete_magnitude concrete_negative)
  from div_mod_errors_and_signs [of "ECMA_BIGINT_PTR bigint_neg_5" "ECMA_BIGINT_PTR bigint_3" heap_unbounded True]
  have "bigint_result heap_unbounded True 2
        (ecma_bigint_div_mod heap_unbounded (ECMA_BIGINT_PTR bigint_neg_5) (ECMA_BIGINT_PTR bigint_3) True)"
    by (simp add: Let_def v ecma_is_value_bigint_def)
  moreover from div_mod_errors_and_signs [of "ECMA_BIGINT_PTR bigint_neg_5" "ECMA_BIGINT_PTR bigint_3" heap_unbounded True]
  have "ecma_bigint_div_mod heap_unbounded (ECMA_BIGINT_PTR bigint_neg_5) (ECMA_BIGINT_PTR bigint_3) True
       \<noteq> Some (ecma_raise_range_error ''BigInt division by zero'')"
    by (simp add: Let_def ecma_is_value_bigint_def)
  ultimately show ?thesis
    by (simp add: m is_negative_def ECMA_BIGINT_SIGN_def ecma_is_value_bigint_def)
qed

subsection \<open>Shift\<close>

lemmas concrete_eval =
  bigint_5_def bigint_3_def bigint_neg_5_def bigint_neg_3_def magnitude_def is_negative_def
  ECMA_BIGINT_SIGN_def bigint_wf_def value_wf_def ECMA_BIGINT_GET_SIZE_def sizeof_digit_def Let_def

lemma bigint_wf_more_than_one_digit:
  assumes "bigint_wf r"
  shows "(ECMA_BIGINT_GET_SIZE r > word_of_nat sizeof_digit) = (1 < length (bigint_digits r))"
proof -
  from assms have sz: "unat (ECMA_BIGINT_GET_SIZE r) = sizeof_digit * length (bigint_digits r)"
    by (simp add: bigint_wf_def)
  have "(ECMA_BIGINT_GET_SIZE r > word_of_nat sizeof_digit) = (unat (ECMA_BIGINT_GET_SIZE r) > 4)"
    by (simp add: word_less_nat_alt sizeof_digit_def)
  then show ?thesis by (simp add: sz sizeof_digit_def)
qed

lemma get_first_digit: "ECMA_BIGINT_GET_LAST_DIGIT r sizeof_digit = bigint_digits r ! 0"
  by (simp add: ECMA_BIGINT_GET_LAST_DIGIT_def sizeof_digit_def)

text \<open>
  C7, as amended. \<open>shift(left, right, is_left)\<close> returns zero for a zero left operand
  and the left operand for a zero right operand, before anything else. For non-zero
  operands: a negative right operand inverts the direction; when the magnitude of the
  right operand takes more than one digit, a left shift (after the inversion) returns
  the memory error and a right shift the zero sentinel; otherwise the low digit of the
  right operand is the shift amount and a non-zero result has the sign of the left operand.
\<close>

theorem shift_direction_and_amount:
  assumes "bigint_wf l" and "bigint_wf r"
  shows "ecma_bigint_shift heap ECMA_BIGINT_ZERO (ECMA_BIGINT_PTR r) is_left = Some ECMA_BIGINT_ZERO
       \<and> ecma_bigint_shift heap (ECMA_BIGINT_PTR l) ECMA_BIGINT_ZERO is_left = Some (ECMA_BIGINT_PTR l)
       \<and> (let res = ecma_bigint_shift heap (ECMA_BIGINT_PTR l) (ECMA_BIGINT_PTR r) is_left;
               effective_left = (if is_negative r then \<not> is_left else is_left)
           in if 1 < length (bigint_digits r)
              then res = Some (if effective_left then ecma_bigint_raise_memory_error else ECMA_BIGINT_ZERO)
              else let shift = unat (bigint_digits r ! 0);
                       n = (if effective_left then magnitude l * 2 ^ shift else magnitude l div 2 ^ shift)
                   in if n = 0 then res = Some ECMA_BIGINT_ZERO
                      else bigint_result heap (is_negative l) n res)"
proof -
  let ?eff = "if is_negative r then \<not> is_left else is_left"
  let ?sl = "bigint_sign_and_size l AND ECMA_BIGINT_SIGN"
  have sl: "?sl = 0 \<or> ?sl = 1" by (rule sign_cases)
  have pl: "0 < magnitude l" using assms(1) by (rule bigint_wf_magnitude_pos)
  have eff: "(if bigint_sign_and_size r AND ECMA_BIGINT_SIGN \<noteq> 0 then \<not> is_left else is_left) = ?eff"
    by (simp add: is_negative_def)
  have z: "ecma_bigint_shift heap ECMA_BIGINT_ZERO (ECMA_BIGINT_PTR r) is_left = Some ECMA_BIGINT_ZERO"
    "ecma_bigint_shift heap (ECMA_BIGINT_PTR l) ECMA_BIGINT_ZERO is_left = Some (ECMA_BIGINT_PTR l)"
    by (simp_all add: ecma_bigint_shift_def)
  have main: "let res = ecma_bigint_shift heap (ECMA_BIGINT_PTR l) (ECMA_BIGINT_PTR r) is_left
           in if 1 < length (bigint_digits r)
              then res = Some (if ?eff then ecma_bigint_raise_memory_error else ECMA_BIGINT_ZERO)
              else let shift = unat (bigint_digits r ! 0);
                       n = (if ?eff then magnitude l * 2 ^ shift else magnitude l div 2 ^ shift)
                   in if n = 0 then res = Some ECMA_BIGINT_ZERO
                      else bigint_result heap (is_negative l) n res"
  proof (cases "1 < length (bigint_digits r)")
    case True
    then show ?thesis
      by (simp add: ecma_bigint_shift_def bigint_wf_more_than_one_digit[OF assms(2)] eff Let_def)
  next
    case False
    let ?shift = "unat (bigint_digits r ! 0)"
    show ?thesis
    proof (cases ?eff)
      case True
      have "0 < magnitude l * 2 ^ ?shift" using pl by simp
      from bigint_result_alloc[OF this sl, of heap] False True pl show ?thesis
        by (simp add: ecma_bigint_shift_def bigint_wf_more_than_one_digit[OF assms(2)] eff Let_def
            get_first_digit ecma_big_uint_shift_left_def sign_negative split: option.splits)
    next
      case right: False
      from bigint_result_make[OF sl, where heap=heap and n="magnitude l div 2 ^ ?shift"] False right
      show ?thesis
        by (auto simp: ecma_bigint_shift_def bigint_wf_more_than_one_digit[OF assms(2)] eff Let_def
            get_first_digit ecma_big_uint_shift_right_def sign_negative split: big_uint_result.splits)
    qed
  qed
  from z main show ?thesis by (simp add: Let_def)
qed

text \<open>
  C7 as stated fails for a zero left operand: a left shift by \<open>2 ^ 32\<close>, a right
  operand of two digits, returns the zero sentinel and no memory error.
\<close>

theorem shift_zero_left_counterexample:
  "1 < length (bigint_digits bigint_2_pow_32) \<and> \<not> is_negative bigint_2_pow_32
   \<and> ecma_bigint_shift heap_unbounded ECMA_BIGINT_ZERO (ECMA_BIGINT_PTR bigint_2_pow_32) True
       = Some ECMA_BIGINT_ZERO
   \<and> ECMA_BIGINT_ZERO \<noteq> ecma_bigint_raise_memory_error"
  by (simp add: bigint_eval bigint_2_pow_32_def)

theorem shift_direction_and_amount_witness:
  "bigint_wf bigint_neg_5 \<and> bigint_wf bigint_3
   \<and> bigint_result heap_unbounded True 40
        (ecma_bigint_shift heap_unbounded (ECMA_BIGINT_PTR bigint_neg_5) (ECMA_BIGINT_PTR bigint_3) True)"
  using shift_direction_and_amount [OF concrete_wf(3) concrete_wf(2), of heap_unbounded True]
  by (simp add: concrete_eval)

subsection \<open>Bitwise operators\<close>

lemmas bitwise_options =
  ECMA_BIG_UINT_BITWISE_AND_def ECMA_BIG_UINT_BITWISE_OR_def ECMA_BIG_UINT_BITWISE_XOR_def
  ECMA_BIG_UINT_BITWISE_AND_NOT_def ECMA_BIG_UINT_BITWISE_DECREASE_LEFT_def
  ECMA_BIG_UINT_BITWISE_DECREASE_RIGHT_def ECMA_BIG_UINT_BITWISE_DECREASE_BOTH_def
  ECMA_BIG_UINT_BITWISE_INCREASE_RESULT_def

lemma bitwise_value_simps:
  "big_uint_bitwise_value ECMA_BIG_UINT_BITWISE_AND x y = x AND y"
  "big_uint_bitwise_value ECMA_BIG_UINT_BITWISE_OR x y = x OR y"
  "big_uint_bitwise_value ECMA_BIG_UINT_BITWISE_XOR x y = x XOR y"
  "big_uint_bitwise_value (ECMA_BIG_UINT_BITWISE_AND_NOT OR ECMA_BIG_UINT_BITWISE_DECREASE_RIGHT) x y
     = and_not x (y - 1)"
  "big_uint_bitwise_value (ECMA_BIG_UINT_BITWISE_OR OR ECMA_BIG_UINT_BITWISE_DECREASE_BOTH
                           OR ECMA_BIG_UINT_BITWISE_INCREASE_RESULT) x y
     = ((x - 1) OR (y - 1)) + 1"
  "big_uint_bitwise_value (ECMA_BIG_UINT_BITWISE_AND_NOT OR ECMA_BIG_UINT_BITWISE_DECREASE_LEFT
                           OR ECMA_BIG_UINT_BITWISE_INCREASE_RESULT) x y
     = and_not (x - 1) y + 1"
  "big_uint_bitwise_value (ECMA_BIG_UINT_BITWISE_AND OR ECMA_BIG_UINT_BITWISE_DECREASE_BOTH
                           OR ECMA_BIG_UINT_BITWISE_INCREASE_RESULT) x y
     = ((x - 1) AND (y - 1)) + 1"
  "big_uint_bitwise_value (ECMA_BIG_UINT_BITWISE_XOR OR ECMA_BIG_UINT_BITWISE_DECREASE_RIGHT
                           OR ECMA_BIG_UINT_BITWISE_INCREASE_RESULT) x y
     = (x XOR (y - 1)) + 1"
  "big_uint_bitwise_value (ECMA_BIG_UINT_BITWISE_XOR OR ECMA_BIG_UINT_BITWISE_DECREASE_LEFT
                           OR ECMA_BIG_UINT_BITWISE_INCREASE_RESULT) x y
     = ((x - 1) XOR y) + 1"
  "big_uint_bitwise_value (ECMA_BIG_UINT_BITWISE_XOR OR ECMA_BIG_UINT_BITWISE_DECREASE_BOTH) x y
     = (x - 1) XOR (y - 1)"
  by (simp_all add: big_uint_bitwise_value_def bitwise_options and_not_def Let_def)

lemma increase_flag_simps:
  "ECMA_BIG_UINT_BITWISE_AND AND ECMA_BIG_UINT_BITWISE_INCREASE_RESULT = 0"
  "ECMA_BIG_UINT_BITWISE_OR AND ECMA_BIG_UINT_BITWISE_INCREASE_RESULT = 0"
  "ECMA_BIG_UINT_BITWISE_XOR AND ECMA_BIG_UINT_BITWISE_INCREASE_RESULT = 0"
  "(ECMA_BIG_UINT_BITWISE_AND_NOT OR ECMA_BIG_UINT_BITWISE_DECREASE_RIGHT)
     AND ECMA_BIG_UINT_BITWISE_INCREASE_RESULT = 0"
  "(ECMA_BIG_UINT_BITWISE_XOR OR ECMA_BIG_UINT_BITWISE_DECREASE_BOTH)
     AND ECMA_BIG_UINT_BITWISE_INCREASE_RESULT = 0"
  "(ECMA_BIG_UINT_BITWISE_OR OR ECMA_BIG_UINT_BITWISE_DECREASE_BOTH
      OR ECMA_BIG_UINT_BITWISE_INCREASE_RESULT) AND ECMA_BIG_UINT_BITWISE_INCREASE_RESULT \<noteq> 0"
  "(ECMA_BIG_UINT_BITWISE_AND_NOT OR ECMA_BIG_UINT_BITWISE_DECREASE_LEFT
      OR ECMA_BIG_UINT_BITWISE_INCREASE_RESULT) AND ECMA_BIG_UINT_BITWISE_INCREASE_RESULT \<noteq> 0"
  "(ECMA_BIG_UINT_BITWISE_AND OR ECMA_BIG_UINT_BITWISE_DECREASE_BOTH
      OR ECMA_BIG_UINT_BITWISE_INCREASE_RESULT) AND ECMA_BIG_UINT_BITWISE_INCREASE_RESULT \<noteq> 0"
  "(ECMA_BIG_UINT_BITWISE_XOR OR ECMA_BIG_UINT_BITWISE_DECREASE_RIGHT
      OR ECMA_BIG_UINT_BITWISE_INCREASE_RESULT) AND ECMA_BIG_UINT_BITWISE_INCREASE_RESULT \<noteq> 0"
  "(ECMA_BIG_UINT_BITWISE_XOR OR ECMA_BIG_UINT_BITWISE_DECREASE_LEFT
      OR ECMA_BIG_UINT_BITWISE_INCREASE_RESULT) AND ECMA_BIG_UINT_BITWISE_INCREASE_RESULT \<noteq> 0"
  by (simp_all add: bitwise_options)

text \<open>The wrapper over the kernel: zero for a zero magnitude, else the record with the
  sign that INCREASE_RESULT asks for.\<close>

lemma bitwise_op_result:
  "bigint_or_zero_result heap
     (options AND ECMA_BIG_UINT_BITWISE_INCREASE_RESULT \<noteq> 0,
      big_uint_bitwise_value options (magnitude l) (magnitude r))
     (Some (ecma_bigint_bitwise_op heap options l r))"
proof -
  let ?n = "big_uint_bitwise_value options (magnitude l) (magnitude r)"
  let ?s = "if options AND ECMA_BIG_UINT_BITWISE_INCREASE_RESULT \<noteq> 0 then 1 else 0 :: 32 word"
  have s: "?s = 0 \<or> ?s = 1" by simp
  from bigint_result_make[OF s, where heap=heap and n="?n"] show ?thesis
    by (auto simp: bigint_or_zero_result_def ecma_bigint_bitwise_op_def ecma_big_uint_bitwise_op_def
        ECMA_BIGINT_SIGN_def split: big_uint_result.splits if_splits)
qed


lemma bigint_and_table:
  "ecma_bigint_and heap (ECMA_BIGINT_PTR l) (ECMA_BIGINT_PTR r)
   = Some (if \<not> is_negative l
           then (if \<not> is_negative r
                 then ecma_bigint_bitwise_op heap ECMA_BIG_UINT_BITWISE_AND l r
                 else ecma_bigint_bitwise_op heap
                        (ECMA_BIG_UINT_BITWISE_AND_NOT OR ECMA_BIG_UINT_BITWISE_DECREASE_RIGHT) l r)
           else if \<not> is_negative r
           then ecma_bigint_bitwise_op heap
                  (ECMA_BIG_UINT_BITWISE_AND_NOT OR ECMA_BIG_UINT_BITWISE_DECREASE_RIGHT) r l
           else ecma_bigint_bitwise_op heap
                  (ECMA_BIG_UINT_BITWISE_OR OR ECMA_BIG_UINT_BITWISE_DECREASE_BOTH
                   OR ECMA_BIG_UINT_BITWISE_INCREASE_RESULT) l r)"
  by (simp add: ecma_bigint_and_def is_negative_def)

lemma bigint_or_table:
  "ecma_bigint_or heap (ECMA_BIGINT_PTR l) (ECMA_BIGINT_PTR r)
   = Some (if \<not> is_negative l
           then (if \<not> is_negative r
                 then ecma_bigint_bitwise_op heap ECMA_BIG_UINT_BITWISE_OR l r
                 else ecma_bigint_bitwise_op heap
                        (ECMA_BIG_UINT_BITWISE_AND_NOT OR ECMA_BIG_UINT_BITWISE_DECREASE_LEFT
                         OR ECMA_BIG_UINT_BITWISE_INCREASE_RESULT) r l)
           else if \<not> is_negative r
           then ecma_bigint_bitwise_op heap
                  (ECMA_BIG_UINT_BITWISE_AND_NOT OR ECMA_BIG_UINT_BITWISE_DECREASE_LEFT
                   OR ECMA_BIG_UINT_BITWISE_INCREASE_RESULT) l r
           else ecma_bigint_bitwise_op heap
                  (ECMA_BIG_UINT_BITWISE_AND OR ECMA_BIG_UINT_BITWISE_DECREASE_BOTH
                   OR ECMA_BIG_UINT_BITWISE_INCREASE_RESULT) l r)"
  by (simp add: ecma_bigint_or_def is_negative_def)

lemma bigint_xor_table:
  "ecma_bigint_xor heap (ECMA_BIGINT_PTR l) (ECMA_BIGINT_PTR r)
   = Some (if \<not> is_negative l
           then (if \<not> is_negative r
                 then ecma_bigint_bitwise_op heap ECMA_BIG_UINT_BITWISE_XOR l r
                 else ecma_bigint_bitwise_op heap
                        (ECMA_BIG_UINT_BITWISE_XOR OR ECMA_BIG_UINT_BITWISE_DECREASE_RIGHT
                         OR ECMA_BIG_UINT_BITWISE_INCREASE_RESULT) l r)
           else if \<not> is_negative r
           then ecma_bigint_bitwise_op heap
                  (ECMA_BIG_UINT_BITWISE_XOR OR ECMA_BIG_UINT_BITWISE_DECREASE_LEFT
                   OR ECMA_BIG_UINT_BITWISE_INCREASE_RESULT) l r
           else ecma_bigint_bitwise_op heap
                  (ECMA_BIG_UINT_BITWISE_XOR OR ECMA_BIG_UINT_BITWISE_DECREASE_BOTH) l r)"
  by (simp add: ecma_bigint_xor_def is_negative_def)

lemma bigint_and_identities:
  "bigint_or_zero_result heap
     (twos_complement_table BITWISE_AND (is_negative l) (is_negative r) (magnitude l) (magnitude r))
     (ecma_bigint_and heap (ECMA_BIGINT_PTR l) (ECMA_BIGINT_PTR r))"
  using bitwise_op_result[of heap ECMA_BIG_UINT_BITWISE_AND l r]
    bitwise_op_result[of heap "ECMA_BIG_UINT_BITWISE_AND_NOT OR ECMA_BIG_UINT_BITWISE_DECREASE_RIGHT" l r]
    bitwise_op_result[of heap "ECMA_BIG_UINT_BITWISE_AND_NOT OR ECMA_BIG_UINT_BITWISE_DECREASE_RIGHT" r l]
    bitwise_op_result[of heap "ECMA_BIG_UINT_BITWISE_OR OR ECMA_BIG_UINT_BITWISE_DECREASE_BOTH
                   OR ECMA_BIG_UINT_BITWISE_INCREASE_RESULT" l r]
  by (simp add: bigint_and_table bitwise_value_simps increase_flag_simps)

lemma bigint_or_identities:
  "bigint_or_zero_result heap
     (twos_complement_table BITWISE_OR (is_negative l) (is_negative r) (magnitude l) (magnitude r))
     (ecma_bigint_or heap (ECMA_BIGINT_PTR l) (ECMA_BIGINT_PTR r))"
  using bitwise_op_result[of heap ECMA_BIG_UINT_BITWISE_OR l r]
    bitwise_op_result[of heap "ECMA_BIG_UINT_BITWISE_AND_NOT OR ECMA_BIG_UINT_BITWISE_DECREASE_LEFT
                         OR ECMA_BIG_UINT_BITWISE_INCREASE_RESULT" r l]
    bitwise_op_result[of heap "ECMA_BIG_UINT_BITWISE_AND_NOT OR ECMA_BIG_UINT_BITWISE_DECREASE_LEFT
                         OR ECMA_BIG_UINT_BITWISE_INCREASE_RESULT" l r]
    bitwise_op_result[of heap "ECMA_BIG_UINT_BITWISE_AND OR ECMA_BIG_UINT_BITWISE_DECREASE_BOTH
                   OR ECMA_BIG_UINT_BITWISE_INCREASE_RESULT" l r]
  by (simp add: bigint_or_table bitwise_value_simps increase_flag_simps)

lemma bigint_xor_identities:
  "bigint_or_zero_result heap
     (twos_complement_table BITWISE_XOR (is_negative l) (is_negative r) (magnitude l) (magnitude r))
     (ecma_bigint_xor heap (ECMA_BIGINT_PTR l) (ECMA_BIGINT_PTR r))"
  using bitwise_op_result[of heap ECMA_BIG_UINT_BITWISE_XOR l r]
    bitwise_op_result[of heap "ECMA_BIG_UINT_BITWISE_XOR OR ECMA_BIG_UINT_BITWISE_DECREASE_RIGHT
                         OR ECMA_BIG_UINT_BITWISE_INCREASE_RESULT" l r]
    bitwise_op_result[of heap "ECMA_BIG_UINT_BITWISE_XOR OR ECMA_BIG_UINT_BITWISE_DECREASE_LEFT
                         OR ECMA_BIG_UINT_BITWISE_INCREASE_RESULT" l r]
    bitwise_op_result[of heap "ECMA_BIG_UINT_BITWISE_XOR OR ECMA_BIG_UINT_BITWISE_DECREASE_BOTH" l r]
  by (simp add: bigint_xor_table bitwise_value_simps increase_flag_simps)

lemma increase_result_sets_sign:
  assumes "options AND ECMA_BIG_UINT_BITWISE_INCREASE_RESULT \<noteq> 0"
    and "ecma_big_uint_bitwise_op heap options l r = BIG_UINT_PTR p"
  shows "\<exists>q. ecma_bigint_bitwise_op heap options l r = ECMA_BIGINT_PTR q \<and> is_negative q \<and> magnitude q = magnitude p"
  using assms
  by (simp add: ecma_bigint_bitwise_op_def ecma_make_extended_primitive_value_def is_negative_def
      ECMA_BIGINT_SIGN_def or_one_and_one)

text \<open>
  C3. For non-zero operands, \<open>and\<close>, \<open>or\<close> and \<open>xor\<close> compute the sign and magnitude that
  the table of the two's-complement emulation gives for the signs of the operands; for
  two negative operands \<open>and\<close> is the kernel's OR with DECREASE_BOTH and INCREASE_RESULT,
  and \<open>xor\<close> the kernel's XOR with DECREASE_BOTH and no INCREASE_RESULT (a non-negative
  result); and whenever INCREASE_RESULT is passed, a record that the kernel returns gets
  the sign bit set.
\<close>

theorem bitwise_sign_selected_identities:
  "bigint_or_zero_result heap
     (twos_complement_table BITWISE_AND (is_negative l) (is_negative r) (magnitude l) (magnitude r))
     (ecma_bigint_and heap (ECMA_BIGINT_PTR l) (ECMA_BIGINT_PTR r))
   \<and> bigint_or_zero_result heap
     (twos_complement_table BITWISE_OR (is_negative l) (is_negative r) (magnitude l) (magnitude r))
     (ecma_bigint_or heap (ECMA_BIGINT_PTR l) (ECMA_BIGINT_PTR r))
   \<and> bigint_or_zero_result heap
     (twos_complement_table BITWISE_XOR (is_negative l) (is_negative r) (magnitude l) (magnitude r))
     (ecma_bigint_xor heap (ECMA_BIGINT_PTR l) (ECMA_BIGINT_PTR r))
   \<and> (is_negative l \<and> is_negative r \<longrightarrow>
        ecma_bigint_and heap (ECMA_BIGINT_PTR l) (ECMA_BIGINT_PTR r)
          = Some (ecma_bigint_bitwise_op heap
                    (ECMA_BIG_UINT_BITWISE_OR OR ECMA_BIG_UINT_BITWISE_DECREASE_BOTH
                     OR ECMA_BIG_UINT_BITWISE_INCREASE_RESULT) l r)
        \<and> ecma_bigint_xor heap (ECMA_BIGINT_PTR l) (ECMA_BIGINT_PTR r)
          = Some (ecma_bigint_bitwise_op heap
                    (ECMA_BIG_UINT_BITWISE_XOR OR ECMA_BIG_UINT_BITWISE_DECREASE_BOTH) l r))
   \<and> (\<forall>options p. options AND ECMA_BIG_UINT_BITWISE_INCREASE_RESULT \<noteq> 0
          \<and> ecma_big_uint_bitwise_op heap options l r = BIG_UINT_PTR p
        \<longrightarrow> (\<exists>q. ecma_bigint_bitwise_op heap options l r = ECMA_BIGINT_PTR q
                 \<and> is_negative q \<and> magnitude q = magnitude p))"
  using bigint_and_identities[of heap l r] bigint_or_identities[of heap l r]
    bigint_xor_identities[of heap l r] increase_result_sets_sign[of _ heap l r]
  by (simp add: bigint_and_table bigint_xor_table)

theorem bitwise_sign_selected_identities_witness:
  "is_negative bigint_neg_3 \<and> is_negative bigint_neg_5
   \<and> bigint_result heap_unbounded False 6
        (ecma_bigint_xor heap_unbounded (ECMA_BIGINT_PTR bigint_neg_3) (ECMA_BIGINT_PTR bigint_neg_5))
   \<and> bigint_result heap_unbounded True 7
        (ecma_bigint_and heap_unbounded (ECMA_BIGINT_PTR bigint_neg_3) (ECMA_BIGINT_PTR bigint_neg_5))"
  using bitwise_sign_selected_identities [of heap_unbounded bigint_neg_3 bigint_neg_5]
  by (auto simp: concrete_negative concrete_magnitude bigint_or_zero_result_def)

subsection \<open>The number decoder and the comparison with a number\<close>

lemma unat_get_digits_bound: "unat (ECMA_BIGINT_NUMBER_TO_DIGITS_GET_DIGITS result) < 2 ^ 12"
proof -
  have "unat (drop_bit 20 result) = unat result div 2 ^ 20"
    by (simp add: drop_bit_eq_div unat_div)
  moreover have "unat result < 2 ^ 32" using unsigned_less[of result] by simp
  ultimately show ?thesis
    by (simp add: ECMA_BIGINT_NUMBER_TO_DIGITS_GET_DIGITS_def less_mult_imp_div_less)
qed

lemma unat_zero_digits_bound: "unat (result AND (0xffff :: 32 word)) < 2 ^ 16"
proof -
  have "unat (result AND 0xffff) \<le> unat (0xffff :: 32 word)"
    by (rule word_and_le1 [THEN word_le_nat_alt [THEN iffD1]])
  then show ?thesis by simp
qed

lemma unat_digits_size:
  "unat (ECMA_BIGINT_NUMBER_TO_DIGITS_GET_DIGITS_SIZE result)
   = sizeof_digit * unat (ECMA_BIGINT_NUMBER_TO_DIGITS_GET_DIGITS result)"
  using unat_get_digits_bound[of result]
  by (simp add: ECMA_BIGINT_NUMBER_TO_DIGITS_GET_DIGITS_SIZE_def unat_word_ariths sizeof_digit_def)

lemma unat_zero_size:
  "unat (ECMA_BIGINT_NUMBER_TO_DIGITS_GET_ZERO_SIZE result) = sizeof_digit * unat (result AND 0xffff)"
  using unat_zero_digits_bound[of result]
  by (simp add: ECMA_BIGINT_NUMBER_TO_DIGITS_GET_ZERO_SIZE_def unat_word_ariths sizeof_digit_def)

lemma unat_right_size:
  "unat (ECMA_BIGINT_NUMBER_TO_DIGITS_GET_DIGITS_SIZE result + ECMA_BIGINT_NUMBER_TO_DIGITS_GET_ZERO_SIZE result)
   = sizeof_digit * (unat (ECMA_BIGINT_NUMBER_TO_DIGITS_GET_DIGITS result) + unat (result AND 0xffff))"
  using unat_get_digits_bound[of result] unat_zero_digits_bound[of result]
  by (simp add: unat_word_ariths unat_digits_size unat_zero_size sizeof_digit_def)

lemma digits_size_zero_iff:
  "(ECMA_BIGINT_NUMBER_TO_DIGITS_GET_DIGITS_SIZE result = 0)
   = (unat (ECMA_BIGINT_NUMBER_TO_DIGITS_GET_DIGITS result) = 0)"
  using unat_digits_size[of result] by (simp add: unat_eq_0 sizeof_digit_def flip: unat_eq_0)

text \<open>The loop over the high digits finds no difference exactly when the high digits
  of the BigInt are the digits of the number.\<close>

lemma compare_high_digits_None:
  assumes "zc + n \<le> length ld" and "n \<le> length dd"
  shows "(compare_high_digits ld (zc + n) dd n n s = None) = (take n (drop zc ld) = take n dd)"
  using assms
proof (induction n)
  case 0
  then show ?case by simp
next
  case (Suc n)
  have l: "take (Suc n) (drop zc ld) = take n (drop zc ld) @ [ld ! (zc + n)]"
    using Suc.prems by (simp add: take_Suc_conv_app_nth)
  have d: "take (Suc n) dd = take n dd @ [dd ! n]"
    using Suc.prems by (simp add: take_Suc_conv_app_nth)
  have len: "length (take n (drop zc ld)) = length (take n dd)"
    using Suc.prems by simp
  from Suc show ?case
    by (auto simp: l d Let_def len)
qed

lemma low_digit_is_set_iff:
  "zc \<le> length ld \<Longrightarrow> low_digit_is_set ld zc = (\<exists>d \<in> set (take zc ld). d \<noteq> 0)"
proof (induction zc)
  case 0
  then show ?case by simp
next
  case (Suc zc)
  then have "take (Suc zc) ld = take zc ld @ [ld ! zc]"
    by (simp add: take_Suc_conv_app_nth)
  with Suc show ?case by auto
qed

lemma get_digits_pack:
  assumes "h < 2 ^ 20" and "c < 2 ^ 12"
  shows "ECMA_BIGINT_NUMBER_TO_DIGITS_GET_DIGITS (h OR ECMA_BIGINT_NUMBER_TO_DIGITS_SET_DIGITS c) = c"
    and "ECMA_BIGINT_NUMBER_TO_DIGITS_GET_DIGITS (ECMA_BIGINT_NUMBER_TO_DIGITS_SET_DIGITS c OR h) = c"
proof -
  have h: "take_bit 20 h = h" using assms(1) by (simp add: take_bit_eq_mask less_mask_eq)
  have c: "take_bit 12 c = c" using assms(2) by (simp add: take_bit_eq_mask less_mask_eq)
  have "drop_bit 20 (take_bit 20 h OR push_bit 20 (take_bit 12 c)) = take_bit 12 c"
    by (rule bit_word_eqI) (auto simp: bit_simps)
  then show "ECMA_BIGINT_NUMBER_TO_DIGITS_GET_DIGITS (h OR ECMA_BIGINT_NUMBER_TO_DIGITS_SET_DIGITS c) = c"
    by (simp add: h c ECMA_BIGINT_NUMBER_TO_DIGITS_GET_DIGITS_def ECMA_BIGINT_NUMBER_TO_DIGITS_SET_DIGITS_def)
  then show "ECMA_BIGINT_NUMBER_TO_DIGITS_GET_DIGITS (ECMA_BIGINT_NUMBER_TO_DIGITS_SET_DIGITS c OR h) = c"
    by (simp add: or.commute)
qed

lemma word64_halves_zero:
  "ucast w = (0 :: 32 word) \<Longrightarrow> ucast (drop_bit 32 w) = (0 :: 32 word) \<Longrightarrow> (w :: 64 word) = 0"
proof (rule bit_word_eqI)
  fix n assume a: "ucast w = (0 :: 32 word)" "ucast (drop_bit 32 w) = (0 :: 32 word)" and n: "n < LENGTH(64)"
  show "bit w n = bit (0 :: 64 word) n"
  proof (cases "n < 32")
    case True
    have "bit (ucast w :: 32 word) n = bit w n" using True by (simp add: bit_simps)
    with a(1) show ?thesis by simp
  next
    case False
    then have "bit (ucast (drop_bit 32 w) :: 32 word) (n - 32) = bit w n"
      using n by (auto simp: bit_simps)
    with a(2) show ?thesis by simp
  qed
qed

lemma unpack_bounds:
  assumes "ecma_number_unpack number = (s, be, fr)"
  shows "be < 2 ^ 11" and "fr < 2 ^ 52"
proof -
  from assms have be: "be = ucast (drop_bit 52 number AND 0x7FF)" and fr: "fr = number AND 0xFFFFFFFFFFFFF"
    by (simp_all add: ecma_number_unpack_def)
  have m: "(0x7FF :: 64 word) = mask 11" by (simp add: mask_eq_exp_minus_1)
  have "be = (ucast (drop_bit 52 number) :: 32 word) AND mask 11"
    unfolding be m by (rule bit_word_eqI) (auto simp: bit_simps)
  then show "be < 2 ^ 11"
    using and_mask_less'[of 11 "ucast (drop_bit 52 number) :: 32 word"] by simp
  have "fr \<le> 0xFFFFFFFFFFFFF" unfolding fr by (rule word_and_le1)
  then show "fr < 2 ^ 52" by (simp add: word_le_nat_alt word_less_nat_alt)
qed

lemma mantissa_bit:
  fixes fr :: "64 word"
  shows "bit (fr OR push_bit ECMA_NUMBER_FRACTION_WIDTH 1) 52"
  by (simp add: bit_simps ECMA_NUMBER_FRACTION_WIDTH_def)

lemma nonzero_bit: "bit (w :: 'a::len word) n \<Longrightarrow> w \<noteq> 0"
  by auto

text \<open>Branch: the exponent does not exceed the fraction width.\<close>

lemma small_exponent_digits:
  fixes m :: "64 word" and k :: nat
  assumes "bit m 52" and "k \<le> 52"
    and "ucast (drop_bit 32 (drop_bit k m)) = (0 :: 32 word)"
  shows "(ucast (drop_bit k m) :: 32 word) \<noteq> 0"
proof
  assume z: "(ucast (drop_bit k m) :: 32 word) = 0"
  from word64_halves_zero[OF z assms(3)] have "drop_bit k m = 0" .
  moreover have "bit (drop_bit k m) (52 - k)" using assms(1,2) by (simp add: bit_simps)
  ultimately show False by auto
qed

lemma high_digit_bit:
  fixes m :: "64 word"
  assumes "bit m 52"
  shows "bit (ucast (drop_bit 32 m) :: 32 word) 20"
  using assms by (simp add: bit_simps)

text \<open>Branch: the digits are shifted left by \<open>sl\<close> bits, \<open>0 < sl < 32\<close>.\<close>

lemma shifted_digits:
  fixes d0 d1 :: "32 word"
  assumes "bit d1 20" and "0 < sl" and "sl < 32" and "drop_bit (32 - sl) d1 = 0"
  shows "push_bit sl d1 OR drop_bit (32 - sl) d0 \<noteq> 0"
proof (cases "sl + 20 < 32")
  case True
  then have "bit (push_bit sl d1 OR drop_bit (32 - sl) d0) (sl + 20)"
    using assms(1) by (simp add: bit_simps)
  then show ?thesis by (rule nonzero_bit)
next
  case False
  then have "bit (drop_bit (32 - sl) d1) (20 - (32 - sl))"
    using assms(1,3) by (simp add: bit_simps)
  with assms(4) show ?thesis by simp
qed

lemma set_digits_values:
  "ECMA_BIGINT_NUMBER_TO_DIGITS_GET_DIGITS (ECMA_BIGINT_NUMBER_TO_DIGITS_SET_DIGITS 0) = 0"
  "ECMA_BIGINT_NUMBER_TO_DIGITS_GET_DIGITS
     (ECMA_BIGINT_NUMBER_TO_DIGITS_SET_DIGITS 0 OR ECMA_BIGINT_NUMBER_TO_DIGITS_HAS_FRACTION) = 0"
  "ECMA_BIGINT_NUMBER_TO_DIGITS_GET_DIGITS
     (ECMA_BIGINT_NUMBER_TO_DIGITS_SET_DIGITS c OR 0) = ECMA_BIGINT_NUMBER_TO_DIGITS_GET_DIGITS
     (ECMA_BIGINT_NUMBER_TO_DIGITS_SET_DIGITS c)"
  "ECMA_BIGINT_NUMBER_TO_DIGITS_GET_DIGITS (ECMA_BIGINT_NUMBER_TO_DIGITS_SET_DIGITS 1) = 1"
  "ECMA_BIGINT_NUMBER_TO_DIGITS_GET_DIGITS (ECMA_BIGINT_NUMBER_TO_DIGITS_SET_DIGITS 2) = 2"
  "ECMA_BIGINT_NUMBER_TO_DIGITS_GET_DIGITS
     (ECMA_BIGINT_NUMBER_TO_DIGITS_SET_DIGITS 1 OR ECMA_BIGINT_NUMBER_TO_DIGITS_HAS_FRACTION) = 1"
  "ECMA_BIGINT_NUMBER_TO_DIGITS_GET_DIGITS
     (ECMA_BIGINT_NUMBER_TO_DIGITS_SET_DIGITS 2 OR ECMA_BIGINT_NUMBER_TO_DIGITS_HAS_FRACTION) = 2"
  by (simp_all add: ECMA_BIGINT_NUMBER_TO_DIGITS_GET_DIGITS_def ECMA_BIGINT_NUMBER_TO_DIGITS_SET_DIGITS_def
      ECMA_BIGINT_NUMBER_TO_DIGITS_HAS_FRACTION_def)

lemma integer_part_ok:
  assumes "bit m 52" and "unat e \<le> 52"
  shows "decoded_ok (number_to_digits_integer_part e m digits_array)"
proof -
  let ?k = "52 - unat e"
  from small_exponent_digits[OF assms(1), of ?k]
  have d0: "ucast (drop_bit 32 (drop_bit ?k m)) = (0 :: 32 word)
            \<Longrightarrow> (ucast (drop_bit ?k m) :: 32 word) \<noteq> 0"
    by simp
  then show ?thesis
    by (auto simp: decoded_ok_def number_to_digits_integer_part_def digits_array_def
        number_to_digits_assert_def set_digits_values ECMA_NUMBER_FRACTION_WIDTH_def Let_def
        word_greater_zero_iff)
qed

lemma shifted_ok:
  assumes "bit m 52" and "52 < e" and "e < 2 ^ 11"
  shows "decoded_ok (number_to_digits_shifted e m digits_array)"
proof -
  let ?e2 = "e - 52"
  let ?sl = "?e2 AND 31"
  let ?zc = "drop_bit 5 ?e2"
  let ?d0 = "ucast m :: 32 word"
  let ?d1 = "ucast (drop_bit 32 m) :: 32 word"
  have d1: "bit ?d1 20" using assms(1) by (rule high_digit_bit)
  then have d1nz: "?d1 \<noteq> 0" by (rule nonzero_bit)
  have ue: "unat ?e2 = unat e - 52"
    using assms(2) by (simp add: unat_sub word_le_nat_alt word_less_nat_alt)
  have "unat ?zc = unat ?e2 div 32" by (simp add: drop_bit_eq_div unat_div)
  with ue assms(3) have "unat ?zc < 2 ^ 20" by (simp add: word_less_nat_alt)
  then have zc: "?zc < 2 ^ 20" by (simp add: word_less_nat_alt)
  have sl31: "?sl \<le> 31" by (rule word_and_le1)
  then have usl: "unat ?sl < 32" by (simp add: word_le_nat_alt)
  show ?thesis
  proof (cases "?sl = 0")
    case True
    with d1nz get_digits_pack(1)[OF zc, of 2] show ?thesis
      by (simp add: decoded_ok_def number_to_digits_shifted_def digits_array_def
          number_to_digits_assert_def ECMA_NUMBER_FRACTION_WIDTH_def ECMA_BIGINT_DIGIT_SHIFT_def Let_def
          word_greater_zero_iff)
  next
    case False
    then have pos: "0 < unat ?sl" by (simp add: unat_gt_0)
    have "?sl \<le> 32" using usl by (simp add: word_le_nat_alt)
    then have usr: "unat (32 - ?sl) = 32 - unat ?sl"
      using unat_sub[of ?sl 32] by simp
    from shifted_digits[OF d1 pos usl, of ?d0]
    have top: "drop_bit (32 - unat ?sl) ?d1 = 0
               \<Longrightarrow> push_bit (unat ?sl) ?d1 OR drop_bit (32 - unat ?sl) ?d0 \<noteq> 0" .
    from False top get_digits_pack(1)[OF zc, of 2] get_digits_pack(1)[OF zc, of 3] show ?thesis
      by (auto simp: decoded_ok_def number_to_digits_shifted_def digits_array_def
          number_to_digits_assert_def ECMA_NUMBER_FRACTION_WIDTH_def ECMA_BIGINT_DIGIT_SHIFT_def Let_def
          word_greater_zero_iff usr)
  qed
qed

lemma number_to_digits_ok: "decoded_ok (ecma_bigint_number_to_digits number digits_array)"
proof -
  obtain s be fr where u: "ecma_number_unpack number = (s, be, fr)"
    by (cases "ecma_number_unpack number") auto
  note b = unpack_bounds[OF u]
  let ?m = "fr OR push_bit ECMA_NUMBER_FRACTION_WIDTH 1"
  have mb: "bit ?m 52" by (rule mantissa_bit)
  show ?thesis
  proof (cases "be = 0 \<or> be < 1023")
    case True
    with u show ?thesis
      by (auto simp: ecma_bigint_number_to_digits_def digits_array_def number_to_digits_assert_def
          set_digits_values ECMA_NUMBER_BIASED_EXP_WIDTH_def decoded_ok_def)
  next
    case False
    then have ge: "\<not> be < 1023" and nz: "be \<noteq> 0" by simp_all
    let ?e = "be - 1023"
    have ue: "unat ?e = unat be - 1023"
      using ge by (simp add: unat_sub word_le_nat_alt not_less)
    have e11: "?e < 2 ^ 11" using b(1) ue by (simp add: word_less_nat_alt)
    have eq: "ecma_bigint_number_to_digits number digits_array
              = (if ?e \<le> 52 then number_to_digits_integer_part ?e ?m digits_array
                 else number_to_digits_shifted ?e ?m digits_array)"
      using u ge nz
      by (simp add: ecma_bigint_number_to_digits_def ECMA_NUMBER_BIASED_EXP_WIDTH_def
          ECMA_NUMBER_FRACTION_WIDTH_def Let_def)
    show ?thesis
    proof (cases "?e \<le> 52")
      case True
      then have "unat ?e \<le> 52" by (simp add: word_le_nat_alt)
      from integer_part_ok[OF mb this] True show ?thesis by (simp only: eq if_True)
    next
      case False
      then have "52 < ?e" by simp
      from shifted_ok[OF mb this e11] False show ?thesis by (simp only: eq if_False)
    qed
  qed
qed

lemma number_to_digits_props:
  assumes "ecma_bigint_number_to_digits number digits_array = (result, digits)"
  shows "length digits = 3"
    and "unat (ECMA_BIGINT_NUMBER_TO_DIGITS_GET_DIGITS result) \<le> 3"
    and "number_to_digits_assert result digits"
  using number_to_digits_ok[of number] assms by (simp_all add: decoded_ok_def)

lemma to_sign_values:
  "ECMA_BIGINT_TO_SIGN (w AND ECMA_BIGINT_SIGN) = (if w AND ECMA_BIGINT_SIGN \<noteq> 0 then - 1 else 1)"
  "ECMA_BIGINT_TO_SIGN 1 = - 1" "ECMA_BIGINT_TO_SIGN 0 = 1"
  using sign_cases[of w] by (auto simp: ECMA_BIGINT_TO_SIGN_def)

text \<open>
  C9. In \<open>compare_to_number\<close>, for a non-zero BigInt and a finite non-zero number of
  the same sign: when the sizes match and the high digits of the BigInt are the decoded
  digits of the number, the result is the sign of the left operand if a remaining low
  digit of the BigInt is not zero; otherwise it is 0 when the number has no fractional
  part and the negated left sign when it has one. So comparing 10 with 10.5 gives -1,
  and comparing 10 with 9.5 gives +1.
\<close>

theorem compare_to_number_equal_high_digits:
  assumes wf: "bigint_wf l"
    and nan: "\<not> ecma_number_is_nan right_value"
    and nz: "\<not> number_is_zero right_value"
    and inf: "\<not> ecma_number_is_infinity right_value"
    and sg: "is_negative l = number_lt_zero right_value"
    and dec: "ecma_bigint_number_to_digits right_value digits_array = (result, digits)"
    and cnt: "unat (ECMA_BIGINT_NUMBER_TO_DIGITS_GET_DIGITS result) \<noteq> 0"
    and len: "length (bigint_digits l)
              = unat (result AND 0xffff) + unat (ECMA_BIGINT_NUMBER_TO_DIGITS_GET_DIGITS result)"
    and high: "drop (unat (result AND 0xffff)) (bigint_digits l)
               = take (unat (ECMA_BIGINT_NUMBER_TO_DIGITS_GET_DIGITS result)) digits"
  shows "ecma_bigint_compare_to_number (ECMA_BIGINT_PTR l) right_value
         = Some (let left_sign = (if is_negative l then - 1 else 1)
                 in if \<exists>d \<in> set (take (unat (result AND 0xffff)) (bigint_digits l)). d \<noteq> 0
                    then left_sign
                    else if result AND ECMA_BIGINT_NUMBER_TO_DIGITS_HAS_FRACTION \<noteq> 0
                    then - left_sign else 0)
         \<and> ecma_bigint_compare_to_number (ECMA_BIGINT_PTR bigint_10) number_10_5 = Some (- 1)
         \<and> ecma_bigint_compare_to_number (ECMA_BIGINT_PTR bigint_10) number_9_5 = Some 1"
proof -
  let ?count = "unat (ECMA_BIGINT_NUMBER_TO_DIGITS_GET_DIGITS result)"
  let ?zc = "unat (result AND 0xffff)"
  let ?ld = "bigint_digits l"
  let ?ls = "if is_negative l then - 1 else 1 :: int"
  note props = number_to_digits_props[OF dec]
  have ls: "ECMA_BIGINT_TO_SIGN (bigint_sign_and_size l AND ECMA_BIGINT_SIGN) = ?ls"
    by (simp add: to_sign_values is_negative_def)
  have ris: "ECMA_BIGINT_TO_SIGN (if number_gt_zero right_value then 1 else 0)
             = (if number_gt_zero right_value then - 1 else 1)"
    by (simp add: to_sign_values)
  have gt: "number_gt_zero right_value = (\<not> number_lt_zero right_value)"
    using nan nz by (auto simp: number_gt_zero_def number_lt_zero_def)
  have ne: "?ls \<noteq> (if number_gt_zero right_value then - 1 else 1)"
    using sg gt by simp
  have ds: "ECMA_BIGINT_NUMBER_TO_DIGITS_GET_DIGITS_SIZE result \<noteq> 0"
    using cnt by (simp add: digits_size_zero_iff)
  have sz: "ECMA_BIGINT_GET_SIZE l
            = ECMA_BIGINT_NUMBER_TO_DIGITS_GET_DIGITS_SIZE result
              + ECMA_BIGINT_NUMBER_TO_DIGITS_GET_ZERO_SIZE result"
  proof -
    have "unat (ECMA_BIGINT_GET_SIZE l) = sizeof_digit * length ?ld"
      using wf by (simp add: bigint_wf_def)
    then have "unat (ECMA_BIGINT_GET_SIZE l)
               = unat (ECMA_BIGINT_NUMBER_TO_DIGITS_GET_DIGITS_SIZE result
                       + ECMA_BIGINT_NUMBER_TO_DIGITS_GET_ZERO_SIZE result)"
      by (simp add: unat_right_size len add.commute)
    then show ?thesis by (simp add: word_unat_eq_iff)
  qed
  have idx: "unat (ECMA_BIGINT_NUMBER_TO_DIGITS_GET_DIGITS_SIZE result
                   + ECMA_BIGINT_NUMBER_TO_DIGITS_GET_ZERO_SIZE result) div sizeof_digit = ?zc + ?count"
    "unat (ECMA_BIGINT_NUMBER_TO_DIGITS_GET_DIGITS_SIZE result) div sizeof_digit = ?count"
    by (simp_all add: unat_right_size unat_digits_size sizeof_digit_def)
  have hi: "compare_high_digits ?ld (?zc + ?count) digits ?count ?count ?ls = None"
    using compare_high_digits_None[of ?zc ?count ?ld digits ?ls] props(1,2) len high by simp
  have lo: "low_digit_is_set ?ld ?zc = (\<exists>d \<in> set (take ?zc ?ld). d \<noteq> 0)"
    using len by (simp add: low_digit_is_set_iff)
  have "ecma_bigint_compare_to_number (ECMA_BIGINT_PTR l) right_value
         = Some (if \<exists>d \<in> set (take ?zc ?ld). d \<noteq> 0 then ?ls
                 else if result AND ECMA_BIGINT_NUMBER_TO_DIGITS_HAS_FRACTION \<noteq> 0 then - ?ls else 0)"
    unfolding ecma_bigint_compare_to_number_def
    using nan nz inf ne props(3) ds
    by (simp add: dec ls ris Let_def sz idx hi lo)
  moreover have "ecma_bigint_compare_to_number (ECMA_BIGINT_PTR bigint_10) number_10_5 = Some (- 1)"
    by code_simp
  moreover have "ecma_bigint_compare_to_number (ECMA_BIGINT_PTR bigint_10) number_9_5 = Some 1"
    by code_simp
  ultimately show ?thesis by (simp add: Let_def)
qed

theorem compare_to_number_equal_high_digits_witness:
  "bigint_wf bigint_2_pow_85_plus_5
   \<and> \<not> ecma_number_is_nan number_2_pow_85
   \<and> \<not> number_is_zero number_2_pow_85
   \<and> \<not> ecma_number_is_infinity number_2_pow_85
   \<and> is_negative bigint_2_pow_85_plus_5 = number_lt_zero number_2_pow_85
   \<and> ecma_bigint_number_to_digits number_2_pow_85 digits_array = (0x200001, [0, 0x200000, 0])
   \<and> ecma_bigint_compare_to_number (ECMA_BIGINT_PTR bigint_2_pow_85_plus_5) number_2_pow_85 = Some 1"
proof -
  have h1: "bigint_wf bigint_2_pow_85_plus_5" by code_simp
  have h2: "\<not> ecma_number_is_nan number_2_pow_85" by code_simp
  have h3: "\<not> number_is_zero number_2_pow_85" by code_simp
  have h4: "\<not> ecma_number_is_infinity number_2_pow_85" by code_simp
  have h5: "is_negative bigint_2_pow_85_plus_5 = number_lt_zero number_2_pow_85" by code_simp
  have h6: "ecma_bigint_number_to_digits number_2_pow_85 digits_array = (0x200001, [0, 0x200000, 0])"
    by code_simp
  have h7: "unat (ECMA_BIGINT_NUMBER_TO_DIGITS_GET_DIGITS (0x200001 :: 32 word)) \<noteq> 0" by code_simp
  have h8: "length (bigint_digits bigint_2_pow_85_plus_5)
            = unat ((0x200001 :: 32 word) AND 0xffff)
              + unat (ECMA_BIGINT_NUMBER_TO_DIGITS_GET_DIGITS (0x200001 :: 32 word))"
    by code_simp
  have h9: "drop (unat ((0x200001 :: 32 word) AND 0xffff)) (bigint_digits bigint_2_pow_85_plus_5)
            = take (unat (ECMA_BIGINT_NUMBER_TO_DIGITS_GET_DIGITS (0x200001 :: 32 word)))
                [0, 0x200000, 0]"
    by code_simp
  have s: "(let left_sign = (if is_negative bigint_2_pow_85_plus_5 then - 1 else 1)
            in if \<exists>d \<in> set (take (unat ((0x200001 :: 32 word) AND 0xffff))
                               (bigint_digits bigint_2_pow_85_plus_5)). d \<noteq> 0
               then left_sign
               else if (0x200001 :: 32 word) AND ECMA_BIGINT_NUMBER_TO_DIGITS_HAS_FRACTION \<noteq> 0
               then - left_sign else 0) = (1 :: int)"
    by code_simp
  from compare_to_number_equal_high_digits [OF h1 h2 h3 h4 h5 h6 h7 h8 h9]
  have "ecma_bigint_compare_to_number (ECMA_BIGINT_PTR bigint_2_pow_85_plus_5) number_2_pow_85 = Some 1"
    by (simp only: s)
  with h1 h2 h3 h4 h5 h6 show ?thesis by simp
qed

subsection \<open>Number to BigInt\<close>

lemma unpack_min_denormal: "ecma_number_unpack number_min_denormal = (False, 0, 1)"
  by (simp add: ecma_number_unpack_def number_min_denormal_def)

lemma value_min_denormal: "number_value number_min_denormal = 1 / 2 ^ 1074"
  by (simp add: number_value_def unpack_min_denormal)

lemma fraction_not_int:
  fixes x :: real
  assumes "0 < x" and "x < 1"
  shows "x \<notin> \<int>"
proof
  assume "x \<in> \<int>"
  then obtain k :: int where "x = of_int k" by (auto elim: Ints_cases)
  with assms show False by simp
qed

text \<open>
  C2. The claim: for every finite double with a non-zero fractional part, the denormals
  included, \<open>number_to_bigint\<close> raises a range error and \<open>is_equal_to_number\<close> is false
  for every BigInt. The decoder takes a biased exponent of 0 for the number zero, so
  for the smallest denormal, which is finite and no integer, \<open>number_to_bigint\<close> returns
  the zero sentinel and raises nothing; in \<open>compare_to_number\<close> the assertion that a
  non-zero number without digits has a fraction fails for it.
\<close>

theorem number_to_bigint_denormal_is_zero:
  "ecma_number_is_finite number_min_denormal
   \<and> number_value number_min_denormal = 1 / 2 ^ 1074
   \<and> number_value number_min_denormal \<notin> \<int>
   \<and> ecma_bigint_number_to_bigint heap_unbounded number_min_denormal = Some ECMA_BIGINT_ZERO
   \<and> ecma_bigint_compare_to_number (ECMA_BIGINT_PTR bigint_10) number_min_denormal = None"
proof -
  have "(0 :: real) < 1 / 2 ^ 1074" by simp
  moreover have "(1 :: real) / 2 ^ 1074 < 1"
    by (simp add: one_less_power)
  ultimately have "number_value number_min_denormal \<notin> \<int>"
    unfolding value_min_denormal by (rule fraction_not_int)
  moreover have "ecma_number_is_finite number_min_denormal" by code_simp
  moreover have "ecma_bigint_number_to_bigint heap_unbounded number_min_denormal = Some ECMA_BIGINT_ZERO"
    by code_simp
  moreover have "ecma_bigint_compare_to_number (ECMA_BIGINT_PTR bigint_10) number_min_denormal = None"
    by code_simp
  ultimately show ?thesis by (simp only: value_min_denormal simp_thms)
qed

subsection \<open>String parse\<close>












subsection \<open>The zero sentinel as the only zero\<close>

text \<open>Every operation returns a well-formed value.\<close>

lemma result_wf_simps [simp]:
  "result_wf (Some ECMA_BIGINT_ZERO)"
  "result_wf (Some ecma_bigint_raise_memory_error)"
  "result_wf (Some (ecma_raise_range_error msg))"
  "result_wf (Some (ecma_raise_syntax_error msg))"
  "result_wf (Some (ecma_raise_type_error msg))"
  "result_wf (Some ECMA_VALUE_FALSE)"
  "result_wf (Some ECMA_VALUE_NULL)"
  "result_wf (Some (ECMA_BIGINT_PTR p)) = bigint_wf p"
  by (simp_all add: result_wf_def value_wf_def ecma_bigint_raise_memory_error_def
      ecma_raise_range_error_def ecma_raise_syntax_error_def ecma_raise_type_error_def)

lemma bigint_result_wf: "bigint_result heap s n res \<Longrightarrow> result_wf res"
  by (auto dest: bigint_result_cases)

lemma bigint_or_zero_result_wf: "bigint_or_zero_result heap sn res \<Longrightarrow> result_wf res"
  by (auto simp: bigint_or_zero_result_def dest: bigint_result_wf split: if_splits)

lemma negate_wf:
  assumes "bigint_wf p"
  shows "result_wf (ecma_bigint_negate heap p)"
proof (cases "ecma_bigint_create heap (unat (ECMA_BIGINT_GET_SIZE p))")
  case None
  with bigint_wf_size[OF assms] assms show ?thesis
    by (simp add: ecma_bigint_negate_def Let_def bigint_wf_def)
next
  case (Some q)
  have "bigint_wf (q\<lparr>bigint_digits := bigint_digits p,
                     bigint_sign_and_size := bigint_sign_and_size p XOR ECMA_BIGINT_SIGN\<rparr>)"
    using assms get_size_xor_sign[where q="q\<lparr>bigint_digits := bigint_digits p\<rparr>" and p=p]
    by (simp add: bigint_wf_def ECMA_BIGINT_SIGN_def)
  with Some bigint_wf_size[OF assms] assms show ?thesis
    by (simp add: ecma_bigint_negate_def Let_def ecma_make_extended_primitive_value_def bigint_wf_def)
qed

lemma add_sub_cancel:
  assumes "(bigint_sign_and_size p XOR bigint_sign_and_size q) AND ECMA_BIGINT_SIGN
           \<noteq> (if is_add then 0 else ECMA_BIGINT_SIGN)"
    and "magnitude p = magnitude q"
  shows "ecma_bigint_add_sub heap (ECMA_BIGINT_PTR p) (ECMA_BIGINT_PTR q) is_add = Some ECMA_BIGINT_ZERO"
  using assms by (simp add: ecma_bigint_add_sub_def Let_def compare_simps)

lemma add_sub_ptr_wf:
  assumes "bigint_wf p" and "bigint_wf q"
  shows "result_wf (ecma_bigint_add_sub heap (ECMA_BIGINT_PTR p) (ECMA_BIGINT_PTR q) is_add)"
proof -
  have pp: "0 < magnitude p" and pq: "0 < magnitude q"
    using assms by (simp_all add: bigint_wf_magnitude_pos)
  let ?sp = "bigint_sign_and_size p AND ECMA_BIGINT_SIGN"
  let ?sq = "bigint_sign_and_size q AND ECMA_BIGINT_SIGN"
  let ?sx = "?sq XOR ECMA_BIGINT_SIGN"
  have sp: "?sp = 0 \<or> ?sp = 1" and sq: "?sq = 0 \<or> ?sq = 1" by (rule sign_cases)+
  have sx: "?sx = 0 \<or> ?sx = 1" using sq by (auto simp: ECMA_BIGINT_SIGN_def)
  show ?thesis
  proof (cases "(bigint_sign_and_size p XOR bigint_sign_and_size q) AND ECMA_BIGINT_SIGN
               = (if is_add then 0 else ECMA_BIGINT_SIGN)")
    case True
    have "0 < magnitude p + magnitude q" using pp by simp
    from bigint_result_alloc[OF this sp, of heap, THEN bigint_result_wf] True show ?thesis
      by (simp add: ecma_bigint_add_sub_def ecma_big_uint_add_def Let_def)
  next
    case False
    consider "magnitude p = magnitude q" | "magnitude p > magnitude q" | "magnitude p < magnitude q"
      by linarith
    then show ?thesis
    proof cases
      case 1
      with False show ?thesis by (simp add: add_sub_cancel)
    next
      case 2
      then have "0 < magnitude p - magnitude q" by simp
      from bigint_result_alloc[OF this sp, of heap, THEN bigint_result_wf] 2 False show ?thesis
        by (simp add: ecma_bigint_add_sub_def ecma_big_uint_sub_def Let_def compare_simps)
    next
      case 3
      then have "0 < magnitude q - magnitude p" by simp
      then have n: "0 < magnitude q - magnitude p" .
      show ?thesis
      proof (cases is_add)
        case True
        from bigint_result_alloc[OF n sq, of heap, THEN bigint_result_wf] True 3 False show ?thesis
          by (simp add: ecma_bigint_add_sub_def ecma_big_uint_sub_def Let_def compare_simps)
      next
        case na: False
        from bigint_result_alloc[OF n sx, of heap, THEN bigint_result_wf] na 3 False show ?thesis
          by (simp add: ecma_bigint_add_sub_def ecma_big_uint_sub_def Let_def compare_simps)
      qed
    qed
  qed
qed

lemma add_sub_wf:
  assumes "ecma_is_value_bigint l" "ecma_is_value_bigint r" "value_wf l" "value_wf r"
  shows "result_wf (ecma_bigint_add_sub heap l r is_add)"
proof (cases r)
  case ECMA_BIGINT_ZERO
  with assms show ?thesis
    by (simp add: ecma_bigint_add_sub_def ecma_copy_value_def result_wf_def)
next
  case rp: (ECMA_BIGINT_PTR q)
  with assms(4) have wq: "bigint_wf q" by (simp add: value_wf_def)
  show ?thesis
  proof (cases l)
    case ECMA_BIGINT_ZERO
    with rp wq negate_wf[of q heap] show ?thesis
      by (simp add: ecma_bigint_add_sub_def ecma_copy_value_def)
  next
    case lp: (ECMA_BIGINT_PTR p)
    with assms(3) have "bigint_wf p" by (simp add: value_wf_def)
    then show ?thesis unfolding lp rp using wq by (rule add_sub_ptr_wf)
  qed (use assms(1) in \<open>simp_all add: ecma_is_value_bigint_def\<close>)
qed (use assms(2) in \<open>simp_all add: ecma_is_value_bigint_def\<close>)

lemma mul_wf:
  assumes "ecma_is_value_bigint l" "ecma_is_value_bigint r" "value_wf l" "value_wf r"
  shows "result_wf (ecma_bigint_mul heap l r)"
proof -
  from assms(1,2) consider (z) "l = ECMA_BIGINT_ZERO \<or> r = ECMA_BIGINT_ZERO"
    | (pp) p q where "l = ECMA_BIGINT_PTR p" "r = ECMA_BIGINT_PTR q"
    using bigint_value_cases by blast
  then show ?thesis
  proof cases
    case z
    with assms show ?thesis by (auto simp: ecma_bigint_mul_def)
  next
    case pp
    with assms have wf: "bigint_wf p" "bigint_wf q" by (simp_all add: value_wf_def)
    let ?s = "(bigint_sign_and_size p XOR bigint_sign_and_size q) AND ECMA_BIGINT_SIGN"
    have s: "?s = 0 \<or> ?s = 1" by (rule sign_cases)
    have "0 < magnitude p * magnitude q"
      using wf by (simp add: bigint_wf_magnitude_pos)
    from bigint_result_alloc[OF this s, of heap]
    have "result_wf (case ecma_big_uint_mul heap p q of
                       None \<Rightarrow> Some ecma_bigint_raise_memory_error
                     | Some result_p \<Rightarrow>
                         Some (ecma_make_extended_primitive_value
                                 (result_p\<lparr>bigint_sign_and_size := bigint_sign_and_size result_p OR ?s\<rparr>)))"
      unfolding ecma_big_uint_mul_def by (rule bigint_result_wf)
    with pp wf negate_wf[of p heap] negate_wf[of q heap] show ?thesis
      by (simp add: ecma_bigint_mul_def Let_def split: option.splits)
  qed
qed

lemma div_mod_wf:
  assumes "ecma_is_value_bigint l" "ecma_is_value_bigint r" "value_wf l" "value_wf r"
  shows "result_wf (ecma_bigint_div_mod heap l r is_mod)"
proof -
  from assms(1,2) consider (z) "l = ECMA_BIGINT_ZERO \<or> r = ECMA_BIGINT_ZERO"
    | (pp) p q where "l = ECMA_BIGINT_PTR p" "r = ECMA_BIGINT_PTR q"
    using bigint_value_cases by blast
  then show ?thesis
  proof cases
    case z
    with assms(1,2) show ?thesis by (auto simp: ecma_bigint_div_mod_def)
  next
    case pp
    with assms have wf: "bigint_wf p" "bigint_wf q" by (simp_all add: value_wf_def)
    consider "magnitude p < magnitude q" | "magnitude p = magnitude q" | "magnitude p > magnitude q"
      by linarith
    then show ?thesis
    proof cases
      case 1
      then show ?thesis using wf by (simp add: pp div_mod_less)
    next
      case 2
      from div_mod_equal[OF 2, of is_mod heap] show ?thesis
        unfolding pp by (auto dest: bigint_result_wf split: if_splits)
    next
      case 3
      from div_mod_greater[OF 3, of is_mod heap] show ?thesis
        unfolding pp Let_def by (auto dest: bigint_result_wf split: if_splits)
    qed
  qed
qed

lemma shift_left_wf:
  assumes wf: "bigint_wf p"
  shows "result_wf (case ecma_big_uint_shift_left heap p shift of
                       None \<Rightarrow> Some ecma_bigint_raise_memory_error
                     | Some result_p \<Rightarrow>
                         Some (ecma_make_extended_primitive_value
                                 (result_p\<lparr>bigint_sign_and_size := bigint_sign_and_size result_p
                                     OR (bigint_sign_and_size p AND ECMA_BIGINT_SIGN)\<rparr>)))"
proof -
  let ?s = "bigint_sign_and_size p AND ECMA_BIGINT_SIGN"
  have s: "?s = 0 \<or> ?s = 1" by (rule sign_cases)
  have "0 < magnitude p * 2 ^ unat shift"
    using wf by (simp add: bigint_wf_magnitude_pos)
  from bigint_result_alloc[OF this s, of heap]
  show ?thesis
    unfolding ecma_big_uint_shift_left_def by (rule bigint_result_wf)
qed

lemma shift_right_wf:
  "case ecma_big_uint_shift_right heap p shift of
     BIG_UINT_PTR result_p \<Rightarrow>
       bigint_wf (result_p\<lparr>bigint_sign_and_size := bigint_sign_and_size result_p
                     OR (bigint_sign_and_size p AND ECMA_BIGINT_SIGN)\<rparr>)
   | _ \<Rightarrow> True"
proof -
  let ?s = "bigint_sign_and_size p AND ECMA_BIGINT_SIGN"
  let ?n = "magnitude p div 2 ^ unat shift"
  have s: "?s = 0 \<or> ?s = 1" by (rule sign_cases)
  show ?thesis
  proof (cases "big_uint_make heap ?n")
    case BIG_UINT_NULL
    then show ?thesis by (simp add: ecma_big_uint_shift_right_def)
  next
    case BIG_UINT_POINTER_TO_ZERO
    then show ?thesis by (simp add: ecma_big_uint_shift_right_def)
  next
    case (BIG_UINT_PTR q)
    with bigint_result_make[OF s, where heap=heap and n="?n"]
    have "bigint_result heap (?s = 1) ?n
            (Some (ecma_make_extended_primitive_value
                     (q\<lparr>bigint_sign_and_size := bigint_sign_and_size q OR ?s\<rparr>)))"
      by simp
    then have "bigint_wf (q\<lparr>bigint_sign_and_size := bigint_sign_and_size q OR ?s\<rparr>)"
      by (simp add: bigint_result_def ecma_make_extended_primitive_value_def)
    with BIG_UINT_PTR show ?thesis by (simp add: ecma_big_uint_shift_right_def)
  qed
qed

lemma shift_ptr_big:
  assumes "ECMA_BIGINT_GET_SIZE q > word_of_nat sizeof_digit"
  shows "result_wf (ecma_bigint_shift heap (ECMA_BIGINT_PTR p) (ECMA_BIGINT_PTR q) is_left)"
  using assms by (simp add: ecma_bigint_shift_def Let_def)

lemma shift_ptr_left:
  assumes "bigint_wf p" and "\<not> ECMA_BIGINT_GET_SIZE q > word_of_nat sizeof_digit"
    and "if bigint_sign_and_size q AND ECMA_BIGINT_SIGN \<noteq> 0 then \<not> is_left else is_left"
  shows "result_wf (ecma_bigint_shift heap (ECMA_BIGINT_PTR p) (ECMA_BIGINT_PTR q) is_left)"
proof -
  have "ecma_bigint_shift heap (ECMA_BIGINT_PTR p) (ECMA_BIGINT_PTR q) is_left
        = (case ecma_big_uint_shift_left heap p (ECMA_BIGINT_GET_LAST_DIGIT q sizeof_digit) of
                       None \<Rightarrow> Some ecma_bigint_raise_memory_error
                     | Some result_p \<Rightarrow>
                         Some (ecma_make_extended_primitive_value
                                 (result_p\<lparr>bigint_sign_and_size := bigint_sign_and_size result_p
                                     OR (bigint_sign_and_size p AND ECMA_BIGINT_SIGN)\<rparr>)))"
    using assms(2,3) by (simp add: ecma_bigint_shift_def Let_def split: option.splits)
  then show ?thesis using shift_left_wf[OF assms(1)] by simp
qed

lemma shift_ptr_right:
  assumes "\<not> ECMA_BIGINT_GET_SIZE q > word_of_nat sizeof_digit"
    and "\<not> (if bigint_sign_and_size q AND ECMA_BIGINT_SIGN \<noteq> 0 then \<not> is_left else is_left)"
  shows "result_wf (ecma_bigint_shift heap (ECMA_BIGINT_PTR p) (ECMA_BIGINT_PTR q) is_left)"
proof -
  have e: "ecma_bigint_shift heap (ECMA_BIGINT_PTR p) (ECMA_BIGINT_PTR q) is_left
        = (case ecma_big_uint_shift_right heap p (ECMA_BIGINT_GET_LAST_DIGIT q sizeof_digit) of
             BIG_UINT_POINTER_TO_ZERO \<Rightarrow> Some ECMA_BIGINT_ZERO
           | BIG_UINT_NULL \<Rightarrow> Some ecma_bigint_raise_memory_error
           | BIG_UINT_PTR result_p \<Rightarrow>
               Some (ecma_make_extended_primitive_value
                       (result_p\<lparr>bigint_sign_and_size := bigint_sign_and_size result_p
                           OR (bigint_sign_and_size p AND ECMA_BIGINT_SIGN)\<rparr>)))"
    using assms by (simp add: ecma_bigint_shift_def Let_def)
  show ?thesis
    unfolding e
    using shift_right_wf[where heap=heap and p=p and shift="ECMA_BIGINT_GET_LAST_DIGIT q sizeof_digit"]
    by (cases "ecma_big_uint_shift_right heap p (ECMA_BIGINT_GET_LAST_DIGIT q sizeof_digit)")
       (simp_all add: ecma_make_extended_primitive_value_def)
qed

lemma shift_z1: "ecma_is_value_bigint r \<Longrightarrow> result_wf (ecma_bigint_shift heap ECMA_BIGINT_ZERO r is_left)"
  by (simp add: ecma_bigint_shift_def)

lemma shift_z2: "bigint_wf p \<Longrightarrow> result_wf (ecma_bigint_shift heap (ECMA_BIGINT_PTR p) ECMA_BIGINT_ZERO is_left)"
  by (simp add: ecma_bigint_shift_def)

lemma shift_pp:
  assumes "bigint_wf p"
  shows "result_wf (ecma_bigint_shift heap (ECMA_BIGINT_PTR p) (ECMA_BIGINT_PTR q) is_left)"
proof (cases "ECMA_BIGINT_GET_SIZE q > word_of_nat sizeof_digit")
  case True
  then show ?thesis by (rule shift_ptr_big)
next
  case False
  show ?thesis
  proof (cases "if bigint_sign_and_size q AND ECMA_BIGINT_SIGN \<noteq> 0 then \<not> is_left else is_left")
    case True
    with assms False show ?thesis by (rule shift_ptr_left)
  next
    case right: False
    with False show ?thesis by (rule shift_ptr_right)
  qed
qed

lemma shift_wf:
  assumes "ecma_is_value_bigint l" "ecma_is_value_bigint r" "value_wf l" "value_wf r"
  shows "result_wf (ecma_bigint_shift heap l r is_left)"
proof (cases l)
  case ECMA_BIGINT_ZERO
  with assms(2) show ?thesis by (simp add: shift_z1)
next
  case lp: (ECMA_BIGINT_PTR p)
  with assms(3) have wf: "bigint_wf p" by (simp add: value_wf_def)
  show ?thesis
  proof (cases r)
    case ECMA_BIGINT_ZERO
    with lp wf show ?thesis by (simp add: shift_z2)
  next
    case (ECMA_BIGINT_PTR q)
    with lp wf show ?thesis by (simp add: shift_pp)
  qed (use assms(2) in \<open>simp_all add: ecma_is_value_bigint_def\<close>)
qed (use assms(1) in \<open>simp_all add: ecma_is_value_bigint_def\<close>)

lemma bitwise_wf:
  assumes "ecma_is_value_bigint l" "ecma_is_value_bigint r" "value_wf l" "value_wf r"
  shows "result_wf (ecma_bigint_and heap l r)"
    and "result_wf (ecma_bigint_or heap l r)"
    and "result_wf (ecma_bigint_xor heap l r)"
proof -
  from assms(1,2) consider (z) "l = ECMA_BIGINT_ZERO \<or> r = ECMA_BIGINT_ZERO"
    | (pp) p q where "l = ECMA_BIGINT_PTR p" "r = ECMA_BIGINT_PTR q"
    using bigint_value_cases by blast
  then have "result_wf (ecma_bigint_and heap l r) \<and> result_wf (ecma_bigint_or heap l r)
             \<and> result_wf (ecma_bigint_xor heap l r)"
  proof cases
    case z
    with assms show ?thesis
      by (auto simp: ecma_bigint_and_def ecma_bigint_or_def ecma_bigint_xor_def ecma_copy_value_def
          result_wf_def)
  next
    case pp
    from bigint_and_identities[of heap p q] bigint_or_identities[of heap p q]
      bigint_xor_identities[of heap p q]
    show ?thesis unfolding pp by (auto dest: bigint_or_zero_result_wf)
  qed
  then show "result_wf (ecma_bigint_and heap l r)"
    and "result_wf (ecma_bigint_or heap l r)"
    and "result_wf (ecma_bigint_xor heap l r)" by simp_all
qed

lemma to_bigint_true_wf:
  "result_wf (case ecma_bigint_create heap sizeof_digit of
                None \<Rightarrow> Some ecma_bigint_raise_memory_error
              | Some result_p \<Rightarrow>
                  Some (ecma_make_extended_primitive_value
                          (result_p\<lparr>bigint_digits := (bigint_digits result_p)[0 := 1]\<rparr>)))"
proof (cases "big_uint_alloc heap [0]")
  case None
  then show ?thesis by (simp add: ecma_bigint_create_def sizeof_digit_def)
next
  case (Some q)
  from big_uint_alloc_Some[OF Some] show ?thesis
    using Some
    by (simp add: ecma_bigint_create_def sizeof_digit_def ecma_make_extended_primitive_value_def
        bigint_wf_def ECMA_BIGINT_GET_SIZE_def)
qed

lemma number_to_bigint_wf: "result_wf (ecma_bigint_number_to_bigint heap number)"
proof (cases "ecma_number_is_finite number")
  case False
  then show ?thesis by (simp add: ecma_bigint_number_to_bigint_def)
next
  case True
  obtain result digits where dec: "ecma_bigint_number_to_digits number digits_array = (result, digits)"
    by (cases "ecma_bigint_number_to_digits number digits_array") auto
  note props = number_to_digits_props[OF dec]
  let ?count = "unat (ECMA_BIGINT_NUMBER_TO_DIGITS_GET_DIGITS result)"
  let ?zc = "unat (result AND 0xffff)"
  let ?dsz = "ECMA_BIGINT_NUMBER_TO_DIGITS_GET_DIGITS_SIZE result"
  let ?zsz = "ECMA_BIGINT_NUMBER_TO_DIGITS_GET_ZERO_SIZE result"
  let ?ds = "replicate (unat ?zsz div sizeof_digit) 0 @ take (unat ?dsz div sizeof_digit) digits"
  show ?thesis
  proof (cases "result AND ECMA_BIGINT_NUMBER_TO_DIGITS_HAS_FRACTION \<noteq> 0 \<or> ?dsz = 0")
    case True
    with \<open>ecma_number_is_finite number\<close> props(3) show ?thesis
      by (auto simp: ecma_bigint_number_to_bigint_def dec Let_def)
  next
    case False
    then have nf: "result AND ECMA_BIGINT_NUMBER_TO_DIGITS_HAS_FRACTION = 0" and dz: "?dsz \<noteq> 0"
      by simp_all
    from dz have cpos: "0 < ?count" by (simp add: digits_size_zero_iff)
    have ds: "?ds = replicate ?zc 0 @ take ?count digits"
      by (simp add: unat_zero_size unat_digits_size sizeof_digit_def)
    have len: "length ?ds = ?zc + ?count"
      using props(1,2) by (simp add: ds)
    have tne: "take ?count digits \<noteq> []" using cpos props(1) by auto
    have ne: "?ds \<noteq> []" using tne by (simp add: ds)
    have "last ?ds = last (take ?count digits)"
      using tne by (simp add: ds)
    also have "\<dots> = digits ! (?count - 1)"
      using cpos props(1,2) tne by (simp add: last_conv_nth min_def)
    finally have last: "last ?ds \<noteq> 0"
      using props(3) cpos by (auto simp: number_to_digits_assert_def unat_eq_0 word_greater_zero_iff)
    show ?thesis
    proof (cases "ecma_bigint_create heap (unat (?dsz + ?zsz))")
      case None
      with \<open>ecma_number_is_finite number\<close> props(3) nf dz show ?thesis
        by (simp add: ecma_bigint_number_to_bigint_def dec Let_def)
    next
      case (Some q)
      then have a: "big_uint_alloc heap (replicate (?count + ?zc) 0) = Some q"
        by (simp add: ecma_bigint_create_def unat_right_size sizeof_digit_def)
      from big_uint_alloc_Some[OF a]
      have sz: "unat (ECMA_BIGINT_GET_SIZE q) = sizeof_digit * (?count + ?zc)" by simp
      have wf1: "bigint_wf (q\<lparr>bigint_digits := ?ds\<rparr>)"
        using ne last sz len by (simp add: bigint_wf_def ECMA_BIGINT_GET_SIZE_def add.commute)
      have wf2: "bigint_wf (q\<lparr>bigint_digits := ?ds,
                              bigint_sign_and_size := bigint_sign_and_size q OR ECMA_BIGINT_SIGN\<rparr>)"
        using set_sign_wf[OF wf1, of 1] by (simp add: ECMA_BIGINT_SIGN_def)
      from Some \<open>ecma_number_is_finite number\<close> props(3) nf dz wf1 wf2 show ?thesis
        by (simp add: ecma_bigint_number_to_bigint_def dec Let_def ecma_make_extended_primitive_value_def)
    qed
  qed
qed

text \<open>The parser: the first byte after the leading zeros is not \<open>0\<close>, so the
  magnitude that the loop builds is above 0 from its first step.\<close>

lemma ucast_byte_eq_0: "(ucast (w :: 8 word) :: 32 word) = 0 \<longleftrightarrow> w = 0"
proof
  assume z: "(ucast w :: 32 word) = 0"
  show "w = 0"
  proof (rule bit_word_eqI)
    fix n assume "n < LENGTH(8)"
    then have "bit w n = bit (ucast w :: 32 word) n" by (simp add: bit_simps)
    with z show "bit w n = bit (0 :: 8 word) n" by simp
  qed
qed simp

lemma parse_digit_nonzero:
  assumes "c \<noteq> LIT_CHAR_0" and "radix \<noteq> 0"
  shows "parse_digit radix c \<noteq> 0"
proof (cases "c \<ge> LIT_CHAR_0 \<and> c \<le> LIT_CHAR_9")
  case True
  then have "parse_digit radix c = ucast (c - LIT_CHAR_0)" by (simp add: parse_digit_def)
  moreover have "c - LIT_CHAR_0 \<noteq> 0" using assms(1) by simp
  ultimately show ?thesis by (simp add: ucast_byte_eq_0)
next
  case False
  let ?ch = "LEXER_TO_ASCII_LOWERCASE c"
  show ?thesis
  proof (cases "?ch \<ge> LIT_CHAR_LOWERCASE_A \<and> ?ch \<le> LIT_CHAR_LOWERCASE_F")
    case True
    then have "unat ?ch \<ge> 0x61" by (simp add: word_le_nat_alt LIT_CHAR_LOWERCASE_A_def)
    then have "unat (?ch - (LIT_CHAR_LOWERCASE_A - 10)) = unat ?ch - 87"
      by (simp add: unat_sub word_le_nat_alt LIT_CHAR_LOWERCASE_A_def)
    with \<open>unat ?ch \<ge> 0x61\<close> have "?ch - (LIT_CHAR_LOWERCASE_A - 10) \<noteq> 0"
      by (auto simp: unat_eq_0[symmetric] simp del: unat_eq_0)
    moreover have "parse_digit radix c = ucast (?ch - (LIT_CHAR_LOWERCASE_A - 10))"
      using True False unfolding parse_digit_def Let_def by (simp only: if_False if_True simp_thms)
    ultimately show ?thesis
      by (simp only: ucast_byte_eq_0 not_False_eq_True)
  next
    case no: False
    have "parse_digit radix c = radix"
      using no False unfolding parse_digit_def Let_def by (simp only: if_False simp_thms)
    with assms(2) show ?thesis by simp
  qed
qed

lemma mul_digit_wf:
  assumes "radix \<noteq> 0"
    and "case result_p of None \<Rightarrow> digit \<noteq> 0 | Some p \<Rightarrow> bigint_wf p"
    and "ecma_big_uint_mul_digit heap result_p radix digit live = (Some q, live2)"
  shows "bigint_wf q"
proof -
  let ?old = "case result_p of None \<Rightarrow> 0 | Some p \<Rightarrow> magnitude p"
  have pos: "0 < ?old * unat radix + unat digit"
  proof (cases result_p)
    case None
    with assms(2) show ?thesis by (simp add: unat_gt_0)
  next
    case (Some p)
    with assms(1,2) show ?thesis by (simp add: bigint_wf_magnitude_pos unat_gt_0)
  qed
  from assms(3) have "big_uint_alloc heap (big_uint_digits (?old * unat radix + unat digit)) = Some q"
    by (auto simp: ecma_big_uint_mul_digit_def Let_def split: option.splits)
  from big_uint_alloc_digits_wf(1)[OF this pos] show ?thesis .
qed

lemma parse_loop_wf:
  assumes "radix \<noteq> 0" and "sign = 0 \<or> sign = 1"
    and "case result_p of None \<Rightarrow> cs \<noteq> [] \<and> hd cs \<noteq> LIT_CHAR_0 | Some p \<Rightarrow> bigint_wf p"
  shows "value_wf (fst (parse_string_loop heap radix sign options cs result_p live))"
  using assms(3)
proof (induction cs arbitrary: result_p live)
  case Nil
  then show ?case
    using assms(2)
    by (auto simp: value_wf_def ecma_make_extended_primitive_value_def set_sign_wf
        ecma_bigint_raise_memory_error_def ecma_raise_range_error_def split: option.splits)
next
  case (Cons c cs)
  show ?case
  proof (cases "parse_digit radix c \<ge> radix")
    case True
    then show ?thesis
      by (simp add: value_wf_def ecma_raise_syntax_error_def Let_def)
  next
    case False
    obtain q live2 where m: "ecma_big_uint_mul_digit heap result_p radix (parse_digit radix c) live = (q, live2)"
      by (cases "ecma_big_uint_mul_digit heap result_p radix (parse_digit radix c) live") auto
    show ?thesis
    proof (cases q)
      case None
      with m False show ?thesis
        by (simp add: value_wf_def Let_def ecma_bigint_raise_memory_error_def ecma_raise_range_error_def)
    next
      case (Some p)
      have "case result_p of None \<Rightarrow> parse_digit radix c \<noteq> 0 | Some p \<Rightarrow> bigint_wf p"
        using Cons.prems parse_digit_nonzero[OF _ assms(1), of c] by (auto split: option.splits)
      from mul_digit_wf[OF assms(1) this m[unfolded Some]] have "bigint_wf p" .
      then have "value_wf (fst (parse_string_loop heap radix sign options cs (Some p) live2))"
        using Cons.IH[where result_p="Some p" and live=live2] by simp
      with m Some False show ?thesis by (simp add: Let_def)
    qed
  qed
qed

lemma parse_prefix_radix_sign:
  assumes "parse_string_prefix string_p options = (radix, sign, rest, e)"
  shows "radix \<noteq> 0" and "sign = 0 \<or> sign = 1"
  using assms
  by (auto simp: parse_string_prefix_def Let_def ECMA_BIGINT_SIGN_def split: if_splits)

lemma parse_string_wf: "value_wf (fst (ecma_bigint_parse_string heap string_p options))"
proof -
  obtain radix sign rest e where pre: "parse_string_prefix string_p options = (radix, sign, rest, e)"
    by (cases "parse_string_prefix string_p options") auto
  note rs = parse_prefix_radix_sign[OF pre]
  let ?ds = "dropWhile (\<lambda>c. c = LIT_CHAR_0) rest"
  show ?thesis
  proof (cases "e \<or> ?ds = []")
    case True
    with pre show ?thesis
      unfolding ecma_bigint_parse_string_def
      by (auto simp: value_wf_def ecma_raise_syntax_error_def Let_def simp del: dropWhile_eq_Nil_conv)
  next
    case False
    then have ne: "?ds \<noteq> []" and e: "\<not> e" by simp_all
    from ne have "hd ?ds \<noteq> LIT_CHAR_0" using hd_dropWhile[of "\<lambda>c. c = LIT_CHAR_0" rest] by simp
    with ne have "value_wf (fst (parse_string_loop heap radix sign options ?ds None 0))"
      using parse_loop_wf[OF rs, where result_p=None and cs="?ds" and heap=heap and options=options
          and live=0] by simp
    with pre ne e show ?thesis
      unfolding ecma_bigint_parse_string_def by (simp add: Let_def value_wf_def)
  qed
qed

lemma parse_string_zeros:
  assumes "string_p \<noteq> []" and "\<forall>c \<in> set string_p. c = LIT_CHAR_0"
  shows "ecma_bigint_parse_string heap string_p options = (ECMA_BIGINT_ZERO, 0)"
proof -
  have nth: "\<And>i. i < length string_p \<Longrightarrow> string_p ! i = LIT_CHAR_0"
    using assms(2) by simp
  have d: "\<And>n. dropWhile (\<lambda>c. c = LIT_CHAR_0) (drop n string_p) = []"
    using assms(2) by (auto dest: in_set_dropD)
  have lit: "LIT_CHAR_0 \<noteq> LIT_CHAR_LOWERCASE_X" "LIT_CHAR_0 \<noteq> LIT_CHAR_UPPERCASE_X"
    "LIT_CHAR_0 \<noteq> LIT_CHAR_LOWERCASE_O" "LIT_CHAR_0 \<noteq> LIT_CHAR_UPPERCASE_O"
    "LIT_CHAR_0 \<noteq> LIT_CHAR_LOWERCASE_B" "LIT_CHAR_0 \<noteq> LIT_CHAR_UPPERCASE_B"
    "LIT_CHAR_0 \<noteq> LIT_CHAR_PLUS" "LIT_CHAR_0 \<noteq> LIT_CHAR_MINUS"
    by (simp_all add: LIT_CHAR_0_def LIT_CHAR_LOWERCASE_X_def LIT_CHAR_UPPERCASE_X_def
        LIT_CHAR_LOWERCASE_O_def LIT_CHAR_UPPERCASE_O_def LIT_CHAR_LOWERCASE_B_def
        LIT_CHAR_UPPERCASE_B_def LIT_CHAR_PLUS_def LIT_CHAR_MINUS_def)
  have "\<exists>radix sign. parse_string_prefix string_p options = (radix, sign, string_p, False)"
    using assms(1) nth[of 0] nth[of 1] lit
    by (auto simp: parse_string_prefix_def Let_def)
  then show ?thesis
    using d[of 0] by (auto simp: ecma_bigint_parse_string_def simp del: dropWhile_eq_Nil_conv)
qed

text \<open>The table of the two's-complement emulation computes the bitwise operator on
  the integers that the operands stand for.\<close>

lemma neg_as_not: "0 < x \<Longrightarrow> - int x = NOT (int (x - 1))"
  by (simp add: not_int_def of_nat_diff)

lemma neg_succ_as_not: "- int (n + 1) = NOT (int n)"
  by (simp add: not_int_def)

lemma int_and_not: "int (and_not a b) = int a AND NOT (int b)"
  by (simp add: and_not_def)

lemma twos_complement_table_value:
  assumes "0 < x" and "0 < y"
  shows "signed_magnitude (twos_complement_table operator nl nr x y)
         = bitwise_int operator (signed_magnitude (nl, x)) (signed_magnitude (nr, y))"
proof (cases operator)
  case BITWISE_AND
  then show ?thesis
    using assms
    by (cases nl; cases nr)
       (simp_all add: signed_magnitude_def bitwise_int_def neg_as_not neg_succ_as_not int_and_not
         of_nat_and_eq of_nat_or_eq of_nat_xor_eq and.commute del: of_nat_Suc of_nat_add)
next
  case BITWISE_OR
  then show ?thesis
    using assms
    by (cases nl; cases nr)
       (simp_all add: signed_magnitude_def bitwise_int_def neg_as_not neg_succ_as_not int_and_not
         of_nat_and_eq of_nat_or_eq of_nat_xor_eq and.commute or.commute del: of_nat_Suc of_nat_add)
next
  case BITWISE_XOR
  then show ?thesis
    using assms
    by (cases nl; cases nr)
       (simp_all add: signed_magnitude_def bitwise_int_def neg_as_not neg_succ_as_not int_and_not
         of_nat_and_eq of_nat_or_eq of_nat_xor_eq del: of_nat_Suc of_nat_add)
qed

text \<open>The results that are 0.\<close>

lemma result_wf_no_zero_record: "result_wf res \<Longrightarrow> no_zero_record res"
  by (auto simp: result_wf_def no_zero_record_def value_wf_def bigint_wf_magnitude_pos
      split: option.splits ecma_value_t.splits)

lemma bigint_to_int_simps:
  "bigint_to_int ECMA_BIGINT_ZERO = 0"
  "bigint_to_int (ECMA_BIGINT_PTR p) = (if is_negative p then - int (magnitude p) else int (magnitude p))"
  by (simp_all add: bigint_to_int_def)

lemma bigint_to_int_signed:
  "bigint_to_int (ECMA_BIGINT_PTR p) = signed_magnitude (is_negative p, magnitude p)"
  by (simp add: bigint_to_int_def signed_magnitude_def)

lemma bigint_to_int_zero_iff:
  assumes "ecma_is_value_bigint v" and "value_wf v"
  shows "bigint_to_int v = 0 \<longleftrightarrow> v = ECMA_BIGINT_ZERO"
proof (cases v)
  case (ECMA_BIGINT_PTR p)
  with assms(2) have "0 < magnitude p" by (simp add: value_wf_def bigint_wf_magnitude_pos)
  with ECMA_BIGINT_PTR show ?thesis by (simp add: bigint_to_int_simps)
qed (use assms(1) in \<open>simp_all add: ecma_is_value_bigint_def bigint_to_int_simps\<close>)

lemma add_sub_zero_result:
  assumes "ecma_is_value_bigint l" "ecma_is_value_bigint r" "value_wf l" "value_wf r"
    and "bigint_to_int l + (if is_add then bigint_to_int r else - bigint_to_int r) = 0"
  shows "ecma_bigint_add_sub heap l r is_add = Some ECMA_BIGINT_ZERO"
proof (cases r)
  case rz: ECMA_BIGINT_ZERO
  from rz assms(5) have "bigint_to_int l = 0" by (simp add: bigint_to_int_simps split: if_splits)
  with assms(1,3) have "l = ECMA_BIGINT_ZERO" by (simp add: bigint_to_int_zero_iff)
  with rz show ?thesis by (simp add: ecma_bigint_add_sub_def ecma_copy_value_def)
next
  case rp: (ECMA_BIGINT_PTR q)
  with assms(4) have wq: "bigint_wf q" by (simp add: value_wf_def)
  note pq = bigint_wf_magnitude_pos[OF wq]
  show ?thesis
  proof (cases l)
    case ECMA_BIGINT_ZERO
    from this rp pq assms(5) show ?thesis by (simp add: bigint_to_int_simps split: if_splits)
  next
    case lp: (ECMA_BIGINT_PTR p)
    with assms(3) have wp: "bigint_wf p" by (simp add: value_wf_def)
    note pp = bigint_wf_magnitude_pos[OF wp]
    from assms(5) pp pq have eq: "magnitude p = magnitude q"
      and sg: "(is_negative p = is_negative q) = (\<not> is_add)"
      unfolding lp rp by (auto simp: bigint_to_int_simps split: if_splits)
    have "(bigint_sign_and_size p XOR bigint_sign_and_size q) AND ECMA_BIGINT_SIGN
          \<noteq> (if is_add then 0 else ECMA_BIGINT_SIGN)"
      using sg sign_xor_negative[of p q] sign_cases[of "bigint_sign_and_size p XOR bigint_sign_and_size q"]
      by (auto simp: ECMA_BIGINT_SIGN_def)
    then show ?thesis unfolding lp rp using eq by (rule add_sub_cancel)
  qed (use assms(1) in \<open>simp_all add: ecma_is_value_bigint_def\<close>)
qed (use assms(2) in \<open>simp_all add: ecma_is_value_bigint_def\<close>)

lemma mul_zero_result:
  assumes "ecma_is_value_bigint l" "ecma_is_value_bigint r" "value_wf l" "value_wf r"
    and "bigint_to_int l * bigint_to_int r = 0"
  shows "ecma_bigint_mul heap l r = Some ECMA_BIGINT_ZERO"
proof -
  from assms(5) have "bigint_to_int l = 0 \<or> bigint_to_int r = 0" by simp
  then have "l = ECMA_BIGINT_ZERO \<or> r = ECMA_BIGINT_ZERO"
    using assms(1-4) by (simp add: bigint_to_int_zero_iff)
  with assms(1,2) show ?thesis by (auto simp: ecma_bigint_mul_def)
qed

lemma div_mod_zero_result:
  assumes "ecma_is_value_bigint l" "value_wf l" "bigint_wf q"
    and "(if is_mod then \<bar>bigint_to_int l\<bar> mod int (magnitude q)
          else \<bar>bigint_to_int l\<bar> div int (magnitude q)) = 0"
  shows "ecma_bigint_div_mod heap l (ECMA_BIGINT_PTR q) is_mod = Some ECMA_BIGINT_ZERO"
proof (cases l)
  case ECMA_BIGINT_ZERO
  then show ?thesis by (simp add: div_mod_zero_left)
next
  case lp: (ECMA_BIGINT_PTR p)
  with assms(2) have wp: "bigint_wf p" by (simp add: value_wf_def)
  note pp = bigint_wf_magnitude_pos[OF wp]
  note pq = bigint_wf_magnitude_pos[OF assms(3)]
  have abs: "\<bar>bigint_to_int l\<bar> = int (magnitude p)" unfolding lp by (simp add: bigint_to_int_simps)
  have z: "(if is_mod then magnitude p mod magnitude q else magnitude p div magnitude q) = 0"
  proof (cases is_mod)
    case True
    with assms(4) have "int (magnitude p mod magnitude q) = 0" unfolding abs by (simp add: zmod_int)
    with True show ?thesis by simp
  next
    case False
    with assms(4) have "int (magnitude p div magnitude q) = 0" unfolding abs by (simp add: zdiv_int)
    with False show ?thesis by simp
  qed
  consider "magnitude p < magnitude q" | "magnitude p = magnitude q" | "magnitude p > magnitude q"
    by linarith
  then show ?thesis
  proof cases
    case 1
    with z pp show ?thesis unfolding lp by (auto simp: div_mod_less split: if_splits)
  next
    case 2
    with z pq div_mod_equal[OF 2, of is_mod heap] show ?thesis
      unfolding lp by (auto split: if_splits)
  next
    case 3
    with z div_mod_greater[OF 3, of is_mod heap] show ?thesis
      unfolding lp Let_def by (auto split: if_splits)
  qed
qed (use assms(1) in \<open>simp_all add: ecma_is_value_bigint_def\<close>)

lemma shift_right_zero_result:
  assumes "bigint_wf q"
    and "\<not> (if is_negative q then \<not> is_left else is_left)"
    and "1 < length (bigint_digits q) \<or> magnitude p div 2 ^ unat (bigint_digits q ! 0) = 0"
  shows "ecma_bigint_shift heap (ECMA_BIGINT_PTR p) (ECMA_BIGINT_PTR q) is_left = Some ECMA_BIGINT_ZERO"
proof -
  have eff: "(if bigint_sign_and_size q AND ECMA_BIGINT_SIGN \<noteq> 0 then \<not> is_left else is_left)
             = (if is_negative q then \<not> is_left else is_left)"
    by (simp add: is_negative_def)
  show ?thesis
  proof (cases "1 < length (bigint_digits q)")
    case True
    with assms(2) show ?thesis
      by (simp add: ecma_bigint_shift_def bigint_wf_more_than_one_digit[OF assms(1)] eff Let_def)
  next
    case False
    with assms(3) have z: "magnitude p div 2 ^ unat (bigint_digits q ! 0) = 0" by simp
    then have "big_uint_make heap (magnitude p div 2 ^ unat (bigint_digits q ! 0)) = BIG_UINT_POINTER_TO_ZERO"
      by (simp add: big_uint_make_def)
    with False assms(2) show ?thesis
      by (simp add: ecma_bigint_shift_def bigint_wf_more_than_one_digit[OF assms(1)] eff Let_def
          get_first_digit ecma_big_uint_shift_right_def)
  qed
qed

lemma bitwise_kernel_zero_result:
  assumes "ecma_big_uint_bitwise_op heap options l r = BIG_UINT_POINTER_TO_ZERO"
  shows "ecma_bigint_bitwise_op heap options l r = ECMA_BIGINT_ZERO"
  using assms by (simp add: ecma_bigint_bitwise_op_def)

lemma signed_magnitude_zero: "signed_magnitude sn = 0 \<Longrightarrow> snd sn = 0"
  by (simp add: signed_magnitude_def split: if_splits)

lemma bitwise_ptr_zero_result:
  assumes "bigint_wf p" and "bigint_wf q"
    and "bigint_or_zero_result heap
           (twos_complement_table operator (is_negative p) (is_negative q) (magnitude p) (magnitude q)) res"
    and "bitwise_int operator (bigint_to_int (ECMA_BIGINT_PTR p)) (bigint_to_int (ECMA_BIGINT_PTR q)) = 0"
  shows "res = Some ECMA_BIGINT_ZERO"
proof -
  from twos_complement_table_value[OF bigint_wf_magnitude_pos[OF assms(1)] bigint_wf_magnitude_pos[OF assms(2)],
      of operator "is_negative p" "is_negative q"] assms(4)
  have "signed_magnitude (twos_complement_table operator (is_negative p) (is_negative q)
          (magnitude p) (magnitude q)) = 0"
    by (simp add: bigint_to_int_signed)
  then have "snd (twos_complement_table operator (is_negative p) (is_negative q)
          (magnitude p) (magnitude q)) = 0" by (rule signed_magnitude_zero)
  with assms(3) show ?thesis by (simp add: bigint_or_zero_result_def)
qed

lemma bitwise_zero_result:
  assumes "ecma_is_value_bigint l" "ecma_is_value_bigint r" "value_wf l" "value_wf r"
  shows "bigint_to_int l AND bigint_to_int r = 0 \<Longrightarrow> ecma_bigint_and heap l r = Some ECMA_BIGINT_ZERO"
    and "bigint_to_int l OR bigint_to_int r = 0 \<Longrightarrow> ecma_bigint_or heap l r = Some ECMA_BIGINT_ZERO"
    and "bigint_to_int l XOR bigint_to_int r = 0 \<Longrightarrow> ecma_bigint_xor heap l r = Some ECMA_BIGINT_ZERO"
proof -
  have "(bigint_to_int l AND bigint_to_int r = 0 \<longrightarrow> ecma_bigint_and heap l r = Some ECMA_BIGINT_ZERO)
      \<and> (bigint_to_int l OR bigint_to_int r = 0 \<longrightarrow> ecma_bigint_or heap l r = Some ECMA_BIGINT_ZERO)
      \<and> (bigint_to_int l XOR bigint_to_int r = 0 \<longrightarrow> ecma_bigint_xor heap l r = Some ECMA_BIGINT_ZERO)"
  proof (cases l)
    case lz: ECMA_BIGINT_ZERO
    have "bigint_to_int r = 0 \<longrightarrow> r = ECMA_BIGINT_ZERO"
      using assms(2,4) by (simp add: bigint_to_int_zero_iff)
    with lz show ?thesis
      by (auto simp: ecma_bigint_and_def ecma_bigint_or_def ecma_bigint_xor_def ecma_copy_value_def
          bigint_to_int_simps)
  next
    case lp: (ECMA_BIGINT_PTR p)
    with assms(3) have wp: "bigint_wf p" by (simp add: value_wf_def)
    show ?thesis
    proof (cases r)
      case rz: ECMA_BIGINT_ZERO
      have "bigint_to_int l = 0 \<longrightarrow> l = ECMA_BIGINT_ZERO"
        using assms(1,3) by (simp add: bigint_to_int_zero_iff)
      with rz show ?thesis
        by (auto simp: ecma_bigint_and_def ecma_bigint_or_def ecma_bigint_xor_def ecma_copy_value_def
            bigint_to_int_simps)
    next
      case rp: (ECMA_BIGINT_PTR q)
      with assms(4) have wq: "bigint_wf q" by (simp add: value_wf_def)
      note z = bitwise_ptr_zero_result[OF wp wq]
      show ?thesis
        unfolding lp rp
        using z[OF bigint_and_identities[of heap p q]] z[OF bigint_or_identities[of heap p q]]
          z[OF bigint_xor_identities[of heap p q]]
        by (simp add: bitwise_int_def)
    qed (use assms(2) in \<open>simp_all add: ecma_is_value_bigint_def\<close>)
  qed (use assms(1) in \<open>simp_all add: ecma_is_value_bigint_def\<close>)
  then show "bigint_to_int l AND bigint_to_int r = 0 \<Longrightarrow> ecma_bigint_and heap l r = Some ECMA_BIGINT_ZERO"
    and "bigint_to_int l OR bigint_to_int r = 0 \<Longrightarrow> ecma_bigint_or heap l r = Some ECMA_BIGINT_ZERO"
    and "bigint_to_int l XOR bigint_to_int r = 0 \<Longrightarrow> ecma_bigint_xor heap l r = Some ECMA_BIGINT_ZERO"
    by simp_all
qed

lemma to_bigint_wf: "result_wf (ecma_bigint_to_bigint heap v)"
proof (cases v)
  case ECMA_VALUE_TRUE
  then show ?thesis using to_bigint_true_wf[of heap] by (simp add: ecma_bigint_to_bigint_def)
next
  case (ECMA_VALUE_STRING b)
  then show ?thesis
    using parse_string_wf[of heap b ECMA_BIGINT_PARSE_NO_OPTIONS]
    by (simp add: ecma_bigint_to_bigint_def ecma_bigint_parse_string_value_def result_wf_def)
qed (simp_all add: ecma_bigint_to_bigint_def)

lemma number_zero_unpack:
  assumes "number_is_zero number"
  shows "ecma_number_unpack number = (bit number 63, 0, 0)"
proof -
  have m: "(0x7FFFFFFFFFFFFFFF :: 64 word) = mask 63" "(0x7FF :: 64 word) = mask 11"
    "(0xFFFFFFFFFFFFF :: 64 word) = mask 52"
    by (simp_all add: mask_eq_exp_minus_1)
  from assms have z: "number AND mask 63 = 0"
    unfolding number_is_zero_def m .
  have b: "\<not> bit number n" if "n < 63" for n
  proof -
    have "bit (number AND mask 63) n = bit number n" using that by (simp add: bit_simps)
    with z show ?thesis by simp
  qed
  have "drop_bit 52 number AND 0x7FF = 0"
    unfolding m by (rule bit_word_eqI) (auto simp: bit_simps b)
  moreover have "number AND 0xFFFFFFFFFFFFF = 0"
    unfolding m by (rule bit_word_eqI) (auto simp: bit_simps b)
  ultimately show ?thesis by (simp add: ecma_number_unpack_def)
qed

lemma number_to_bigint_zero:
  assumes "number_is_zero number"
  shows "ecma_bigint_number_to_bigint heap number = Some ECMA_BIGINT_ZERO"
  using number_zero_unpack[OF assms]
  by (simp add: ecma_bigint_number_to_bigint_def ecma_bigint_number_to_digits_def
      ecma_number_is_finite_def number_to_digits_assert_def
      ECMA_BIGINT_NUMBER_TO_DIGITS_SET_DIGITS_def ECMA_BIGINT_NUMBER_TO_DIGITS_GET_DIGITS_def
      ECMA_BIGINT_NUMBER_TO_DIGITS_HAS_FRACTION_def ECMA_BIGINT_NUMBER_TO_DIGITS_GET_DIGITS_SIZE_def)

text \<open>
  C6, as amended. No operation returns a heap record of magnitude 0: for well-formed
  BigInt operands \<open>add_sub\<close>, \<open>mul\<close>, \<open>div_mod\<close>, \<open>shift\<close>, \<open>and\<close>, \<open>or\<close>, \<open>xor\<close> and
  \<open>negate\<close> return, and so do \<open>to_bigint\<close>, \<open>number_to_bigint\<close> and \<open>parse_string\<close> for
  every input, a value that is no record or a well-formed record of a magnitude above 0.
  And a result that is 0 is the zero sentinel: a sum or difference that is 0 (so
  \<open>x - x\<close>, and the addition of values of equal magnitude and opposite signs), a
  product that is 0, a quotient or remainder that is 0 (so \<open>x mod x\<close>), a right shift
  that discards all bits, a bitwise operator whose value on the integers is 0, a
  bitwise operation whose kernel result is zero, the parse of a string of only \<open>0\<close>
  digits, and the conversion of a double that is zero.
\<close>

theorem zero_is_only_the_sentinel:
  assumes "ecma_is_value_bigint l" and "ecma_is_value_bigint r" and "value_wf l" and "value_wf r"
  shows "no_zero_record (ecma_bigint_add_sub heap l r is_add)
       \<and> no_zero_record (ecma_bigint_mul heap l r)
       \<and> no_zero_record (ecma_bigint_div_mod heap l r is_mod)
       \<and> no_zero_record (ecma_bigint_shift heap l r is_left)
       \<and> no_zero_record (ecma_bigint_and heap l r)
       \<and> no_zero_record (ecma_bigint_or heap l r)
       \<and> no_zero_record (ecma_bigint_xor heap l r)
       \<and> (\<forall>p. l = ECMA_BIGINT_PTR p \<longrightarrow> no_zero_record (ecma_bigint_negate heap p))
       \<and> no_zero_record (ecma_bigint_to_bigint heap v)
       \<and> no_zero_record (ecma_bigint_number_to_bigint heap number)
       \<and> no_zero_record (Some (fst (ecma_bigint_parse_string heap string_p options)))
       \<and> (bigint_to_int l + (if is_add then bigint_to_int r else - bigint_to_int r) = 0 \<longrightarrow>
            ecma_bigint_add_sub heap l r is_add = Some ECMA_BIGINT_ZERO)
       \<and> (bigint_to_int l * bigint_to_int r = 0 \<longrightarrow>
            ecma_bigint_mul heap l r = Some ECMA_BIGINT_ZERO)
       \<and> (r \<noteq> ECMA_BIGINT_ZERO
            \<and> (if is_mod then \<bar>bigint_to_int l\<bar> mod \<bar>bigint_to_int r\<bar>
                else \<bar>bigint_to_int l\<bar> div \<bar>bigint_to_int r\<bar>) = 0 \<longrightarrow>
            ecma_bigint_div_mod heap l r is_mod = Some ECMA_BIGINT_ZERO)
       \<and> (\<forall>p q. l = ECMA_BIGINT_PTR p \<and> r = ECMA_BIGINT_PTR q
              \<and> \<not> (if is_negative q then \<not> is_left else is_left)
              \<and> (1 < length (bigint_digits q) \<or> magnitude p div 2 ^ unat (bigint_digits q ! 0) = 0) \<longrightarrow>
            ecma_bigint_shift heap l r is_left = Some ECMA_BIGINT_ZERO)
       \<and> (bigint_to_int l AND bigint_to_int r = 0 \<longrightarrow>
            ecma_bigint_and heap l r = Some ECMA_BIGINT_ZERO)
       \<and> (bigint_to_int l OR bigint_to_int r = 0 \<longrightarrow>
            ecma_bigint_or heap l r = Some ECMA_BIGINT_ZERO)
       \<and> (bigint_to_int l XOR bigint_to_int r = 0 \<longrightarrow>
            ecma_bigint_xor heap l r = Some ECMA_BIGINT_ZERO)
       \<and> (\<forall>kernel_options p q.
            ecma_big_uint_bitwise_op heap kernel_options p q = BIG_UINT_POINTER_TO_ZERO \<longrightarrow>
            ecma_bigint_bitwise_op heap kernel_options p q = ECMA_BIGINT_ZERO)
       \<and> (string_p \<noteq> [] \<and> (\<forall>c \<in> set string_p. c = LIT_CHAR_0) \<longrightarrow>
            fst (ecma_bigint_parse_string heap string_p options) = ECMA_BIGINT_ZERO)
       \<and> (number_is_zero number \<longrightarrow>
            ecma_bigint_number_to_bigint heap number = Some ECMA_BIGINT_ZERO)"
proof -
  note wf = assms
  have r1: "no_zero_record (ecma_bigint_add_sub heap l r is_add)"
    using add_sub_wf[OF wf] by (rule result_wf_no_zero_record)
  have r2: "no_zero_record (ecma_bigint_mul heap l r)"
    using mul_wf[OF wf] by (rule result_wf_no_zero_record)
  have r3: "no_zero_record (ecma_bigint_div_mod heap l r is_mod)"
    using div_mod_wf[OF wf] by (rule result_wf_no_zero_record)
  have r4: "no_zero_record (ecma_bigint_shift heap l r is_left)"
    using shift_wf[OF wf] by (rule result_wf_no_zero_record)
  have r5: "no_zero_record (ecma_bigint_and heap l r)"
    using bitwise_wf(1)[OF wf] by (rule result_wf_no_zero_record)
  have r6: "no_zero_record (ecma_bigint_or heap l r)"
    using bitwise_wf(2)[OF wf] by (rule result_wf_no_zero_record)
  have r7: "no_zero_record (ecma_bigint_xor heap l r)"
    using bitwise_wf(3)[OF wf] by (rule result_wf_no_zero_record)
  have r8: "\<forall>p. l = ECMA_BIGINT_PTR p \<longrightarrow> no_zero_record (ecma_bigint_negate heap p)"
    using assms(3) by (auto simp: value_wf_def intro: result_wf_no_zero_record[OF negate_wf])
  have r9: "no_zero_record (ecma_bigint_to_bigint heap v)"
    using to_bigint_wf by (rule result_wf_no_zero_record)
  have r10: "no_zero_record (ecma_bigint_number_to_bigint heap number)"
    using number_to_bigint_wf by (rule result_wf_no_zero_record)
  have r11: "no_zero_record (Some (fst (ecma_bigint_parse_string heap string_p options)))"
    using parse_string_wf[of heap string_p options]
    by (intro result_wf_no_zero_record) (simp add: result_wf_def)
  have z1: "bigint_to_int l + (if is_add then bigint_to_int r else - bigint_to_int r) = 0 \<longrightarrow>
            ecma_bigint_add_sub heap l r is_add = Some ECMA_BIGINT_ZERO"
    using add_sub_zero_result[OF wf] by blast
  have z2: "bigint_to_int l * bigint_to_int r = 0 \<longrightarrow>
            ecma_bigint_mul heap l r = Some ECMA_BIGINT_ZERO"
    using mul_zero_result[OF wf] by blast
  have z3: "r \<noteq> ECMA_BIGINT_ZERO
            \<and> (if is_mod then \<bar>bigint_to_int l\<bar> mod \<bar>bigint_to_int r\<bar>
                else \<bar>bigint_to_int l\<bar> div \<bar>bigint_to_int r\<bar>) = 0 \<longrightarrow>
            ecma_bigint_div_mod heap l r is_mod = Some ECMA_BIGINT_ZERO"
  proof (cases r)
    case (ECMA_BIGINT_PTR q)
    with assms(4) have wq: "bigint_wf q" by (simp add: value_wf_def)
    have a: "\<bar>bigint_to_int r\<bar> = int (magnitude q)"
      unfolding ECMA_BIGINT_PTR by (simp add: bigint_to_int_simps)
    show ?thesis
      unfolding a using div_mod_zero_result[OF assms(1,3) wq, of is_mod heap]
      unfolding ECMA_BIGINT_PTR by blast
  qed (use assms(2) in \<open>simp_all add: ecma_is_value_bigint_def\<close>)
  have z4: "\<forall>p q. l = ECMA_BIGINT_PTR p \<and> r = ECMA_BIGINT_PTR q
              \<and> \<not> (if is_negative q then \<not> is_left else is_left)
              \<and> (1 < length (bigint_digits q) \<or> magnitude p div 2 ^ unat (bigint_digits q ! 0) = 0) \<longrightarrow>
            ecma_bigint_shift heap l r is_left = Some ECMA_BIGINT_ZERO"
  proof (intro allI impI)
    fix p q
    assume h: "l = ECMA_BIGINT_PTR p \<and> r = ECMA_BIGINT_PTR q
              \<and> \<not> (if is_negative q then \<not> is_left else is_left)
              \<and> (1 < length (bigint_digits q) \<or> magnitude p div 2 ^ unat (bigint_digits q ! 0) = 0)"
    then have lr: "l = ECMA_BIGINT_PTR p" "r = ECMA_BIGINT_PTR q" by simp_all
    with assms(4) have wq: "bigint_wf q" by (simp add: value_wf_def)
    from h have d: "\<not> (if is_negative q then \<not> is_left else is_left)"
      and a: "1 < length (bigint_digits q) \<or> magnitude p div 2 ^ unat (bigint_digits q ! 0) = 0"
      by simp_all
    show "ecma_bigint_shift heap l r is_left = Some ECMA_BIGINT_ZERO"
      unfolding lr by (rule shift_right_zero_result[OF wq d a])
  qed
  have z5: "bigint_to_int l AND bigint_to_int r = 0 \<longrightarrow>
            ecma_bigint_and heap l r = Some ECMA_BIGINT_ZERO"
    using bitwise_zero_result(1)[OF wf] by blast
  have z6: "bigint_to_int l OR bigint_to_int r = 0 \<longrightarrow>
            ecma_bigint_or heap l r = Some ECMA_BIGINT_ZERO"
    using bitwise_zero_result(2)[OF wf] by blast
  have z7: "bigint_to_int l XOR bigint_to_int r = 0 \<longrightarrow>
            ecma_bigint_xor heap l r = Some ECMA_BIGINT_ZERO"
    using bitwise_zero_result(3)[OF wf] by blast
  have z8: "\<forall>kernel_options p q.
            ecma_big_uint_bitwise_op heap kernel_options p q = BIG_UINT_POINTER_TO_ZERO \<longrightarrow>
            ecma_bigint_bitwise_op heap kernel_options p q = ECMA_BIGINT_ZERO"
    using bitwise_kernel_zero_result by blast
  have z9: "string_p \<noteq> [] \<and> (\<forall>c \<in> set string_p. c = LIT_CHAR_0) \<longrightarrow>
            fst (ecma_bigint_parse_string heap string_p options) = ECMA_BIGINT_ZERO"
    using parse_string_zeros[of string_p heap options] by simp
  have z10: "number_is_zero number \<longrightarrow>
            ecma_bigint_number_to_bigint heap number = Some ECMA_BIGINT_ZERO"
    using number_to_bigint_zero by blast
  from r1 r2 r3 r4 r5 r6 r7 r8 r9 r10 r11 z1 z2 z3 z4 z5 z6 z7 z8 z9 z10
  show ?thesis
    by (intro conjI)
qed

text \<open>
  C6 as stated fails for the subtraction of values of equal magnitude and opposite
  signs: \<open>5 - (-5)\<close> takes the branch that adds the magnitudes and returns the record
  of 10, not the zero sentinel.
\<close>

theorem add_sub_opposite_signs_subtraction_counterexample:
  "magnitude bigint_5 = magnitude bigint_neg_5
   \<and> \<not> is_negative bigint_5 \<and> is_negative bigint_neg_5
   \<and> ecma_bigint_add_sub heap_unbounded (ECMA_BIGINT_PTR bigint_5) (ECMA_BIGINT_PTR bigint_neg_5) False
       = Some (ECMA_BIGINT_PTR \<lparr>bigint_sign_and_size = 4, bigint_digits = [10]\<rparr>)
   \<and> ecma_bigint_add_sub heap_unbounded (ECMA_BIGINT_PTR bigint_5) (ECMA_BIGINT_PTR bigint_neg_5) False
       \<noteq> Some ECMA_BIGINT_ZERO"
  by (simp add: bigint_eval)

theorem zero_is_only_the_sentinel_witness:
  "ecma_is_value_bigint (ECMA_BIGINT_PTR bigint_5) \<and> ecma_is_value_bigint (ECMA_BIGINT_PTR bigint_neg_5)
   \<and> value_wf (ECMA_BIGINT_PTR bigint_5) \<and> value_wf (ECMA_BIGINT_PTR bigint_neg_5)
   \<and> ecma_bigint_add_sub heap_unbounded (ECMA_BIGINT_PTR bigint_5) (ECMA_BIGINT_PTR bigint_neg_5) True
       = Some ECMA_BIGINT_ZERO
   \<and> ecma_bigint_div_mod heap_unbounded (ECMA_BIGINT_PTR bigint_5) (ECMA_BIGINT_PTR bigint_neg_5) True
       = Some ECMA_BIGINT_ZERO
   \<and> fst (ecma_bigint_parse_string heap_unbounded (utf8 ''000'') ECMA_BIGINT_PARSE_NO_OPTIONS)
       = ECMA_BIGINT_ZERO
   \<and> no_zero_record (ecma_bigint_mul heap_unbounded (ECMA_BIGINT_PTR bigint_5) (ECMA_BIGINT_PTR bigint_neg_5))"
  using zero_is_only_the_sentinel [where l="ECMA_BIGINT_PTR bigint_5" and r="ECMA_BIGINT_PTR bigint_neg_5"
      and heap=heap_unbounded and is_add=True and is_mod=True and string_p="utf8 ''000''"
      and options=ECMA_BIGINT_PARSE_NO_OPTIONS]
  by (simp add: concrete_eval ecma_is_value_bigint_def bigint_to_int_simps utf8_def
      LIT_CHAR_0_def)

end
